(* ===== verification/Prelude.thy ===== *)
theory Prelude
  imports Complex_Main
begin

text \<open>
  Shared vocabulary of the development. Python strings are sequences of Unicode code
  points, so a \<open>str\<close> is modelled as a list of natural numbers (\<open>ustr\<close>), and the
  string builtins the mind-map service calls (\<open>str.strip\<close>, \<open>str.split\<close>,
  \<open>str.startswith\<close>, the \<open>\s\<close> class of \<open>re\<close>) are written out from the Python
  language semantics. \<open>int()\<close> applied to a float is truncation towards zero
  (\<open>py_int\<close>). The collection \<open>pystr_simps\<close> gathers the facts about these
  builtins that the component proofs rewrite with.
\<close>

named_theorems pystr_simps "facts about the modelled Python string builtins"

type_synonym ustr = "nat list"

text \<open>ASCII literals written as Isabelle strings, read as code points.\<close>

definition u :: "string \<Rightarrow> ustr" where
  "u s = map of_char s"

text \<open>
  \<open>str.isspace\<close> and the \<open>\s\<close> class of a \<open>str\<close> pattern in \<open>re\<close> are the
  same predicate in CPython (\<open>Py_UNICODE_ISSPACE\<close>): ASCII 9--13 and 28--32, and the
  Unicode separators below.
\<close>

definition py_isspace :: "nat \<Rightarrow> bool" where
  "py_isspace c \<longleftrightarrow> (9 \<le> c \<and> c \<le> 13) \<or> (28 \<le> c \<and> c \<le> 32) \<or> c = 133 \<or> c = 160
     \<or> c = 5760 \<or> (8192 \<le> c \<and> c \<le> 8202) \<or> c = 8232 \<or> c = 8233 \<or> c = 8239
     \<or> c = 8287 \<or> c = 12288"

definition py_strip :: "ustr \<Rightarrow> ustr" where
  "py_strip s = rev (dropWhile py_isspace (rev (dropWhile py_isspace s)))"

text \<open>\<open>s.split(sep)\<close> for a one-character separator: never empty, \<open>''.split(sep) = ['']\<close>.\<close>

fun py_split :: "nat \<Rightarrow> ustr \<Rightarrow> ustr list" where
  "py_split sep [] = [[]]"
| "py_split sep (c # cs) =
     (let ws = py_split sep cs in if c = sep then [] # ws else (c # hd ws) # tl ws)"

text \<open>\<open>sep.join(ws)\<close>, the inverse of \<open>split\<close>.\<close>

fun py_join :: "nat \<Rightarrow> ustr list \<Rightarrow> ustr" where
  "py_join sep [] = []"
| "py_join sep [w] = w"
| "py_join sep (w # v # vs) = w @ sep # py_join sep (v # vs)"

definition py_startswith :: "ustr \<Rightarrow> ustr \<Rightarrow> bool" where
  "py_startswith s p \<longleftrightarrow> take (length p) s = p"

text \<open>\<open>int(x)\<close> of a float, read as an exact rational: truncation towards zero.\<close>

definition py_int :: "rat \<Rightarrow> int" where
  "py_int q = (if 0 \<le> q then \<lfloor>q\<rfloor> else \<lceil>q\<rceil>)"

text \<open>\<open>xs[-1] = f(xs[-1])\<close>: the in-place update of the last element of a list.\<close>

text \<open>\<open>d.get(key, default)\<close> of a dictionary field read as an option.\<close>

definition get_or :: "'a option \<Rightarrow> 'a \<Rightarrow> 'a" where
  "get_or v d = (case v of Some x \<Rightarrow> x | None \<Rightarrow> d)"

definition update_last :: "('a \<Rightarrow> 'a) \<Rightarrow> 'a list \<Rightarrow> 'a list" where
  "update_last f xs = butlast xs @ [f (last xs)]"

subsection \<open>Facts about lists\<close>

lemma update_last_length [simp]: "xs \<noteq> [] \<Longrightarrow> length (update_last f xs) = length xs"
  by (simp add: update_last_def)

lemma map_update_last:
  "xs \<noteq> [] \<Longrightarrow> h (f (last xs)) = g (h (last xs)) \<Longrightarrow>
   map h (update_last f xs) = update_last g (map h xs)"
  by (simp add: update_last_def map_butlast last_map)

lemma update_last_set: "xs \<noteq> [] \<Longrightarrow> set (update_last f xs) = set (butlast xs) \<union> {f (last xs)}"
  by (auto simp: update_last_def)

lemma update_last_list_all [intro]:
  "xs \<noteq> [] \<Longrightarrow> list_all P xs \<Longrightarrow> P (f (last xs)) \<Longrightarrow> list_all P (update_last f xs)"
  by (cases xs rule: rev_cases) (auto simp: update_last_def)

lemma list_all_last: "xs \<noteq> [] \<Longrightarrow> list_all P xs \<Longrightarrow> P (last xs)"
  by (simp add: list_all_iff)

subsection \<open>Facts about the string builtins\<close>

lemma py_split_not_Nil [pystr_simps]: "py_split sep s \<noteq> []"
  by (induction s) (auto simp: Let_def)

lemma py_split_sep_free [pystr_simps]: "w \<in> set (py_split sep s) \<Longrightarrow> sep \<notin> set w"
proof (induction s arbitrary: w)
  case Nil
  then show ?case by simp
next
  case (Cons c cs)
  then show ?case
    using py_split_not_Nil [of sep cs]
    by (cases "py_split sep cs") (auto simp: Let_def split: if_splits)
qed

lemma py_join_split [pystr_simps]: "py_join sep (py_split sep s) = s"
proof (induction s)
  case Nil
  then show ?case by simp
next
  case (Cons c cs)
  obtain w ws where ws: "py_split sep cs = w # ws"
    using py_split_not_Nil by (cases "py_split sep cs") auto
  show ?case
  proof (cases ws)
    case Nil
    with Cons.IH ws show ?thesis by (auto simp: Let_def)
  next
    case (Cons v vs)
    with Cons.IH ws show ?thesis by (auto simp: Let_def)
  qed
qed

lemma py_split_length [pystr_simps]: "length (py_split sep s) = Suc (count_list s sep)"
proof (induction s)
  case Nil
  then show ?case by simp
next
  case (Cons c cs)
  then show ?case
    using py_split_not_Nil [of sep cs] by (cases "py_split sep cs") (auto simp: Let_def)
qed

lemma py_strip_hd [pystr_simps]: "py_strip s = c # cs \<Longrightarrow> \<not> py_isspace c"
proof -
  assume st: "py_strip s = c # cs"
  let ?d = "dropWhile py_isspace s"
  have "rev (dropWhile py_isspace (rev ?d)) = c # cs"
    using st by (simp add: py_strip_def)
  then have "dropWhile py_isspace (rev ?d) = rev cs @ [c]"
    by (metis rev_eq_Cons_iff rev_rev_ident)
  then obtain pre where "rev ?d = pre @ rev cs @ [c]"
    by (metis takeWhile_dropWhile_id)
  then have "?d = c # cs @ rev pre"
    by (metis rev_append rev_rev_ident rev_singleton_conv append_Cons append_Nil)
  then show ?thesis
    by (metis hd_dropWhile list.distinct(1) list.sel(1))
qed

lemma py_strip_indent [pystr_simps]: "list_all py_isspace ws \<Longrightarrow> py_strip (ws @ s) = py_strip s"
  by (induction ws) (simp_all add: py_strip_def)

lemma py_strip_Nil_iff [pystr_simps]: "py_strip s = [] \<longleftrightarrow> (\<forall>c \<in> set s. py_isspace c)"
proof
  assume "py_strip s = []"
  then have all: "\<forall>x \<in> set (dropWhile py_isspace s). py_isspace x"
    by (simp add: py_strip_def)
  show "\<forall>c \<in> set s. py_isspace c"
  proof (cases "dropWhile py_isspace s")
    case Nil
    then show ?thesis by simp
  next
    case (Cons d ds)
    then have "\<not> py_isspace d"
      by (metis hd_dropWhile list.distinct(1) list.sel(1))
    with all Cons show ?thesis by simp
  qed
next
  assume "\<forall>c \<in> set s. py_isspace c"
  then show "py_strip s = []" by (auto simp: py_strip_def dest: set_dropWhileD)
qed

lemma py_startswith_Nil [pystr_simps]: "\<not> py_startswith [] (c # cs)"
  by (simp add: py_startswith_def)

lemma py_startswith_Cons [pystr_simps]:
  "py_startswith (x # xs) (c # cs) \<longleftrightarrow> x = c \<and> py_startswith xs cs"
  by (simp add: py_startswith_def)

lemma py_startswith_append: "py_startswith s (p @ q) \<Longrightarrow> py_startswith s p"
proof -
  assume "py_startswith s (p @ q)"
  then have "take (length p + length q) s = p @ q" by (simp add: py_startswith_def)
  then have "take (length p) (take (length p + length q) s) = p" by simp
  then show ?thesis by (simp add: py_startswith_def min_def)
qed

lemma py_int_of_nat_div [pystr_simps]: "py_int (of_nat a / of_nat b) = int (a div b)"
  unfolding py_int_def floor_divide_of_nat_eq by simp

lemma py_isspace_ascii [pystr_simps]:
  "py_isspace 32" "py_isspace 9" "py_isspace 10" "\<not> py_isspace 45" "\<not> py_isspace 42"
  "\<not> py_isspace 8226"
  by (simp_all add: py_isspace_def)

lemma py_split_line: "sep \<notin> set xs \<Longrightarrow> py_split sep (xs @ sep # ys) = xs # py_split sep ys"
proof (induction xs)
  case Nil
  then show ?case by simp
next
  case (Cons c cs)
  then show ?case by (simp add: Let_def)
qed

end
