(* ===== verification/Outline.thy ===== *)
theory Outline
  imports Prelude
begin

text \<open>
  The outline parser, \<open>MindMapGenerator.parse_content\<close> of
  \<open>src/pages/create_mindmap/mindmap_service.py\<close>. A node dictionary
  \<open>{'id', 'text', 'level', 'children'}\<close> is the datatype \<open>node\<close>; the identifier
  \<open>str(uuid.uuid4())\<close> is drawn from an explicit supply, the \<open>k\<close>-th draw being \<open>k\<close>,
  so the parser threads a counter. The loop over the lines is \<open>parse_lines\<close>; the three
  attachment branches are \<open>attach\<close>, with the in-place appends of the source written
  as updates of the last element. The lemmas give the parser's exact result (a flat list
  of level-0 leaves, one per non-empty cleaned line), show that indentation never
  reaches the level test, and prove that the attachment logic on its own keeps the
  tree invariant the spec states.
\<close>

datatype node = Node (node_id: nat) (node_text: ustr) (node_level: int) (node_children: "node list")

text \<open>\<open>re.sub(r'^[-*\<bullet>]\s*', '', line)\<close>: one leading bullet (\<open>-\<close>, \<open>*\<close>,
  U+2022) and the whitespace after it.\<close>

definition strip_bullet :: "ustr \<Rightarrow> ustr" where
  "strip_bullet line =
     (case line of
        [] \<Rightarrow> []
      | c # cs \<Rightarrow> if c = 45 \<or> c = 42 \<or> c = 8226 then dropWhile py_isspace cs else line)"

definition line_level :: "ustr \<Rightarrow> int" where
  "line_level line =
     (if py_startswith line (u ''  '') \<or> py_startswith line [9] then 1
      else if py_startswith line (u ''    '') \<or> py_startswith line [9, 9] then 2
      else 0)"

fun add_child :: "node \<Rightarrow> node \<Rightarrow> node" where
  "add_child (Node i t l cs) nd = Node i t l (cs @ [nd])"

fun add_grandchild :: "node \<Rightarrow> node \<Rightarrow> node" where
  "add_grandchild (Node i t l cs) nd = Node i t l (update_last (\<lambda>c. add_child c nd) cs)"

definition attach :: "int \<Rightarrow> node \<Rightarrow> node list \<Rightarrow> node list" where
  "attach level nd nodes =
     (if level = 0 then nodes @ [nd]
      else if level = 1 \<and> nodes \<noteq> [] then update_last (\<lambda>p. add_child p nd) nodes
      else if level = 2 \<and> nodes \<noteq> [] \<and> node_children (last nodes) \<noteq> []
        then update_last (\<lambda>p. add_grandchild p nd) nodes
      else nodes)"

fun parse_lines :: "ustr list \<Rightarrow> nat \<Rightarrow> node list \<Rightarrow> node list \<times> nat" where
  "parse_lines [] uid nodes = (nodes, uid)"
| "parse_lines (raw # rest) uid nodes =
     (let line = py_strip raw in
      if line = [] then parse_lines rest uid nodes
      else
        let clean_line = strip_bullet line in
        if clean_line = [] then parse_lines rest uid nodes
        else
          let level = line_level line;
              nd = Node uid clean_line level []
          in parse_lines rest (Suc uid) (attach level nd nodes))"

definition parse_content :: "ustr \<Rightarrow> nat \<Rightarrow> node list \<times> nat" where
  "parse_content content uid = parse_lines (py_split 10 (py_strip content)) uid []"

subsection \<open>Reference behaviour: a flat list of leaves\<close>

text \<open>The cleaned, non-empty lines, and the level-0 leaves the parser makes of them.\<close>

definition clean_lines :: "ustr list \<Rightarrow> ustr list" where
  "clean_lines ls = filter (\<lambda>c. c \<noteq> []) (map (\<lambda>l. strip_bullet (py_strip l)) ls)"

fun leaf_nodes :: "nat \<Rightarrow> ustr list \<Rightarrow> node list" where
  "leaf_nodes k [] = []"
| "leaf_nodes k (c # cs) = Node k c 0 [] # leaf_nodes (Suc k) cs"

subsection \<open>The tree invariant of the spec\<close>

text \<open>A node at depth \<open>d\<close> has level \<open>d\<close>, depth is at most 2, and its children are
  at depth \<open>d + 1\<close>; a forest is well formed when its roots are at depth 0.\<close>

fun wf_node :: "int \<Rightarrow> node \<Rightarrow> bool" where
  "wf_node d (Node i t l cs) = (l = d \<and> 0 \<le> d \<and> d \<le> 2 \<and> list_all (wf_node (d + 1)) cs)"

definition wf_forest :: "node list \<Rightarrow> bool" where
  "wf_forest ns = list_all (wf_node 0) ns"

fun depth :: "node \<Rightarrow> nat" where
  "depth (Node i t l cs) = Suc (fold max (map depth cs) 0)"

text \<open>A node with every identifier set to 0: what the drawing reads of a tree.\<close>

fun erase_ids :: "node \<Rightarrow> node" where
  "erase_ids (Node i t l cs) = Node 0 t l (map erase_ids cs)"

lemmas outline_defs = clean_lines_def wf_forest_def attach_def

subsection \<open>Level detection\<close>

lemma strip_bullet_Nil [simp]: "strip_bullet [] = []"
  by (simp add: strip_bullet_def)

lemma line_level_range: "line_level l \<in> {0, 1, 2}"
  by (simp add: line_level_def)

text \<open>The level of a line is computed after \<open>line.strip()\<close>, so every line the parser
  keeps has level 0: the indentation is gone before it is tested.\<close>

lemma line_level_stripped: "line_level (py_strip raw) = 0"
proof (cases "py_strip raw")
  case Nil
  then show ?thesis by (simp add: line_level_def py_startswith_def u_def)
next
  case (Cons c cs)
  then have "\<not> py_isspace c" by (rule py_strip_hd)
  then have "c \<noteq> 32" "c \<noteq> 9" by (auto simp: py_isspace_def)
  with Cons show ?thesis by (simp add: line_level_def u_def pystr_simps)
qed

text \<open>The \<open>elif\<close> branch for level 2 is unreachable: a line that starts with
  four spaces (or two tabs) already starts with two spaces (or one tab), so the first
  test answers 1.\<close>

lemma line_level_never_2: "line_level line \<noteq> 2"
proof -
  have "py_startswith line (u ''    '') \<Longrightarrow> py_startswith line (u ''  '')"
    using py_startswith_append [of line "u ''  ''" "u ''  ''"] by (simp add: u_def)
  moreover have "py_startswith line [9, 9] \<Longrightarrow> py_startswith line [9]"
    using py_startswith_append [of line "[9]" "[9]"] by simp
  ultimately show ?thesis by (auto simp: line_level_def)
qed

subsection \<open>The parser's result\<close>

lemma parse_lines_eq:
  "parse_lines ls k ns = (ns @ leaf_nodes k (clean_lines ls), k + length (clean_lines ls))"
proof (induction ls arbitrary: k ns)
  case Nil
  then show ?case by (simp add: clean_lines_def)
next
  case (Cons raw rest)
  then show ?case
    by (auto simp: Let_def clean_lines_def line_level_stripped attach_def)
qed

lemma leaf_nodes_flat: "n \<in> set (leaf_nodes k cs) \<Longrightarrow> node_level n = 0 \<and> node_children n = []"
  by (induction cs arbitrary: k) auto

lemma leaf_nodes_text [simp]: "map node_text (leaf_nodes k cs) = cs"
  by (induction cs arbitrary: k) auto

lemma leaf_nodes_ids [simp]: "map node_id (leaf_nodes k cs) = [k..<k + length cs]"
  by (induction cs arbitrary: k) (auto simp: upt_rec)

lemma leaf_nodes_length [simp]: "length (leaf_nodes k cs) = length cs"
  by (induction cs arbitrary: k) auto

text \<open>C2: \<open>parse_content\<close> returns one level-0 leaf per line whose stripped,
  bullet-free text is non-empty, in source order, with consecutive identifiers; the
  identifier supply advances by the number of nodes made.\<close>

theorem parse_content_eq:
  "parse_content content k =
     (leaf_nodes k (clean_lines (py_split 10 (py_strip content))),
      k + length (clean_lines (py_split 10 (py_strip content))))"
  by (simp add: parse_content_def parse_lines_eq)

text \<open>C3: indentation is ignored: indenting every line of an outline by the same run of
  whitespace (spaces or tabs, as the spec's hierarchy asks) leaves the parser's result
  unchanged, nodes, levels and identifiers alike.\<close>

theorem parse_lines_indent_ignored:
  assumes "list_all py_isspace ws"
  shows "parse_lines (map (\<lambda>l. ws @ l) ls) k ns = parse_lines ls k ns"
proof -
  have "clean_lines (map (\<lambda>l. ws @ l) ls) = clean_lines ls"
    using assms by (simp add: clean_lines_def comp_def pystr_simps)
  then show ?thesis by (simp add: parse_lines_eq)
qed

theorem parse_lines_indent_ignored_witness:
  "list_all py_isspace (u ''  '') \<and>
   parse_lines (map (\<lambda>l. u ''  '' @ l) [u ''Sub1'']) 0 [Node 7 (u ''Topic'') 0 []] =
   parse_lines [u ''Sub1''] 0 [Node 7 (u ''Topic'') 0 []]"
proof -
  have h: "list_all py_isspace (u ''  '')" by (simp add: u_def py_isspace_def)
  show ?thesis using h parse_lines_indent_ignored [OF h, of "[u ''Sub1'']" 0 "[Node 7 (u ''Topic'') 0 []]"]
    by simp
qed

text \<open>Two parses of the same text differ only in their identifiers.\<close>

lemma erase_add_child: "erase_ids (add_child p nd) = add_child (erase_ids p) (erase_ids nd)"
  by (cases p) simp

lemma erase_children: "node_children (erase_ids p) = map erase_ids (node_children p)"
  by (cases p) simp

lemma erase_add_grandchild:
  "node_children p \<noteq> [] \<Longrightarrow>
   erase_ids (add_grandchild p nd) = add_grandchild (erase_ids p) (erase_ids nd)"
  by (cases p) (simp add: map_update_last erase_add_child)

lemma attach_erase: "map erase_ids (attach l nd ns) = attach l (erase_ids nd) (map erase_ids ns)"
  by (auto simp: attach_def map_update_last erase_add_child erase_add_grandchild erase_children
      last_map)

lemma parse_lines_erase:
  "map erase_ids ns = map erase_ids ns' \<Longrightarrow>
   map erase_ids (fst (parse_lines ls k ns)) = map erase_ids (fst (parse_lines ls k' ns'))"
proof (induction ls arbitrary: k k' ns ns')
  case (Cons raw rest)
  then show ?case by (simp add: Let_def attach_erase)
qed simp

lemma parse_content_erase:
  "map erase_ids (fst (parse_content c k)) = map erase_ids (fst (parse_content c k'))"
  unfolding parse_content_def by (rule parse_lines_erase) simp

subsection \<open>The attachment logic keeps the tree invariant\<close>

lemma add_child_wf: "wf_node d p \<Longrightarrow> wf_node (d + 1) nd \<Longrightarrow> wf_node d (add_child p nd)"
  by (cases p) auto

lemma add_grandchild_wf:
  "wf_node d p \<Longrightarrow> node_children p \<noteq> [] \<Longrightarrow> wf_node (d + 1 + 1) nd \<Longrightarrow>
   wf_node d (add_grandchild p nd)"
proof (cases p)
  case (Node i t l cs)
  assume wf: "wf_node d p" and ne: "node_children p \<noteq> []" and nd: "wf_node (d + 1 + 1) nd"
  with Node have "wf_node (d + 1) (last cs)" by (auto intro: list_all_last)
  then have "wf_node (d + 1) (add_child (last cs) nd)"
    using nd by (rule add_child_wf)
  with wf ne Node show ?thesis by auto
qed

text \<open>C24: attaching a fresh node of level 0, 1 or 2 to a well-formed forest, by the three
  branches of the source, gives a well-formed forest: children are one level below their
  parent and no node is deeper than level 2.\<close>

theorem attach_wf:
  assumes "wf_forest ns" and "level \<in> {0, 1, 2}"
  shows "wf_forest (attach level (Node i t level []) ns)"
proof -
  have "wf_node 0 (add_child (last ns) (Node i t 1 []))" if "ns \<noteq> []"
    using assms(1) that by (intro add_child_wf) (auto simp: wf_forest_def intro: list_all_last)
  moreover have "wf_node 0 (add_grandchild (last ns) (Node i t 2 []))"
    if "ns \<noteq> []" "node_children (last ns) \<noteq> []"
    using assms(1) that by (intro add_grandchild_wf) (auto simp: wf_forest_def intro: list_all_last)
  ultimately show ?thesis
    using assms by (auto simp: attach_def wf_forest_def)
qed

theorem attach_wf_witness:
  "wf_forest [Node 0 [97] 0 []] \<and> (1::int) \<in> {0, 1, 2} \<and>
   wf_forest (attach 1 (Node 1 [98] 1 []) [Node 0 [97] 0 []])"
proof -
  have h: "wf_forest [Node 0 [97] 0 []]" by (simp add: wf_forest_def)
  show ?thesis using attach_wf [OF h, of 1 1 "[98]"] h by simp
qed

lemma leaf_nodes_wf: "wf_forest (leaf_nodes k cs)"
  by (induction cs arbitrary: k) (auto simp: wf_forest_def)

end
