(* ===== verification/Layout.thy ===== *)
theory Layout
  imports Outline
begin

text \<open>
  The layout engine and node drawing of \<open>MindMapGenerator\<close>:
  \<open>_draw_nodes\<close>, \<open>_draw_radial_layout\<close>, \<open>_draw_tree_layout\<close>,
  \<open>_draw_horizontal_layout\<close>, \<open>_draw_vertical_layout\<close> and \<open>_draw_node\<close>. The
  \<open>ImageDraw\<close> canvas is modelled by the list of drawing calls made on it, in order
  (\<open>cmd\<close>): a line, an ellipse or a text. A colour argument is the result of the
  lookup \<open>colors['node']\<close> in the palette dictionary, so \<open>None\<close> is the
  \<open>KeyError\<close> that lookup raises. Text metrics (\<open>draw.textbbox\<close>) are an external
  capability, a parameter \<open>bb\<close> of type \<open>metrics\<close>. The four layout routines have the
  same body up to the child position, so they are one mutual recursion
  \<open>draw_layout\<close>/\<open>draw_children\<close> (the routine and its \<open>for\<close> loop) over a
  position function; each routine is that recursion at its position function.
\<close>

datatype font = Truetype ustr nat | DefaultFont

type_synonym color = "ustr option"
type_synonym colors = "ustr \<Rightarrow> ustr option"
type_synonym metrics = "font \<Rightarrow> ustr \<Rightarrow> int \<times> int \<times> int \<times> int"
type_synonym pos_fn = "int \<Rightarrow> int \<Rightarrow> nat \<Rightarrow> nat \<Rightarrow> int \<times> int"

datatype cmd =
    is_line: Line "int \<times> int" "int \<times> int" color nat
  | is_ellipse: Ellipse "int \<times> int \<times> int \<times> int" color color nat
  | is_text: DrawText "int \<times> int" ustr color font

definition node_radius :: "bool \<Rightarrow> int \<Rightarrow> int" where
  "node_radius is_center text_width =
     (if is_center then max 40 (text_width div 2 + 20) else max 30 (text_width div 2 + 15))"

definition draw_node ::
  "metrics \<Rightarrow> int \<Rightarrow> int \<Rightarrow> ustr \<Rightarrow> color \<Rightarrow> color \<Rightarrow> font \<Rightarrow> bool \<Rightarrow> cmd list" where
  "draw_node bb x y text node_color text_color fnt is_center =
     (case bb fnt text of (b0, b1, b2, b3) \<Rightarrow>
       let text_width = b2 - b0; text_height = b3 - b1;
           r = node_radius is_center text_width
       in [Ellipse (x - r, y - r, x + r, y + r) node_color text_color 2,
           DrawText (x - text_width div 2, y - text_height div 2) text text_color fnt])"

fun draw_layout ::
  "pos_fn \<Rightarrow> metrics \<Rightarrow> colors \<Rightarrow> int \<Rightarrow> int \<Rightarrow> font \<Rightarrow> font \<Rightarrow> node list \<Rightarrow> cmd list"
and draw_children ::
  "pos_fn \<Rightarrow> metrics \<Rightarrow> colors \<Rightarrow> int \<Rightarrow> int \<Rightarrow> font \<Rightarrow> nat \<Rightarrow> nat \<Rightarrow> node list \<Rightarrow> cmd list"
where
  "draw_layout p bb c cx cy fm fs [] = []"
| "draw_layout p bb c cx cy fm fs (cn # rest) =
     draw_node bb cx cy (node_text cn) (c (u ''node'')) (c (u ''text'')) fm True @
     draw_children p bb c cx cy fs 0 (length rest) rest"
| "draw_children p bb c cx cy fs i n [] = []"
| "draw_children p bb c cx cy fs i n (Node nid txt lvl cs # nds) =
     (case p cx cy i n of (x, y) \<Rightarrow>
       Line (cx, cy) (x, y) (c (u ''line'')) 3 #
       draw_node bb x y txt (c (u ''node'')) (c (u ''text'')) fs False @
       (if cs \<noteq> [] then draw_layout p bb c x y fs fs cs else []) @
       draw_children p bb c cx cy fs (Suc i) n nds)"

text \<open>Child positions. Python's float arithmetic in the radial routine is read as exact
  rational arithmetic, \<open>3.14159\<close> as \<open>314159 / 100000\<close>.\<close>

definition radial_pos :: pos_fn where
  "radial_pos cx cy i n =
     (let radius = 200 :: rat; pi' = 314159 / 100000 :: rat;
          angle_step = 2 * pi' / of_nat n;
          angle = of_nat i * angle_step
      in (cx + py_int (radius * pi' * 2 * angle / (2 * pi')),
          cy + py_int (radius * pi' * 2 * angle / (2 * pi'))))"

definition tree_pos :: pos_fn where
  "tree_pos cx cy i n = (cx + (int i - int (n div 2)) * 300, cy + 120)"

definition horizontal_pos :: pos_fn where
  "horizontal_pos cx cy i n = (cx + (int i - int (n div 2)) * 250, cy)"

definition vertical_pos :: pos_fn where
  "vertical_pos cx cy i n = (cx + (int i - int (n div 2)) * 200, cy + 120)"

definition draw_radial_layout ::
  "metrics \<Rightarrow> colors \<Rightarrow> int \<Rightarrow> int \<Rightarrow> font \<Rightarrow> font \<Rightarrow> node list \<Rightarrow> cmd list" where
  "draw_radial_layout = draw_layout radial_pos"

definition draw_tree_layout ::
  "metrics \<Rightarrow> colors \<Rightarrow> int \<Rightarrow> int \<Rightarrow> font \<Rightarrow> font \<Rightarrow> node list \<Rightarrow> cmd list" where
  "draw_tree_layout = draw_layout tree_pos"

definition draw_horizontal_layout ::
  "metrics \<Rightarrow> colors \<Rightarrow> int \<Rightarrow> int \<Rightarrow> font \<Rightarrow> font \<Rightarrow> node list \<Rightarrow> cmd list" where
  "draw_horizontal_layout = draw_layout horizontal_pos"

definition draw_vertical_layout ::
  "metrics \<Rightarrow> colors \<Rightarrow> int \<Rightarrow> int \<Rightarrow> font \<Rightarrow> font \<Rightarrow> node list \<Rightarrow> cmd list" where
  "draw_vertical_layout = draw_layout vertical_pos"

definition draw_nodes ::
  "metrics \<Rightarrow> colors \<Rightarrow> node list \<Rightarrow> int \<Rightarrow> int \<Rightarrow> font \<Rightarrow> font \<Rightarrow> ustr \<Rightarrow> cmd list" where
  "draw_nodes bb c nodes cx cy fm fs layout =
     (if nodes = [] then []
      else if layout = u ''radial'' then draw_radial_layout bb c cx cy fm fs nodes
      else if layout = u ''tree'' then draw_tree_layout bb c cx cy fm fs nodes
      else if layout = u ''horizontal'' then draw_horizontal_layout bb c cx cy fm fs nodes
      else draw_vertical_layout bb c cx cy fm fs nodes)"

lemmas layout_defs = draw_radial_layout_def draw_tree_layout_def draw_horizontal_layout_def
  draw_vertical_layout_def

subsection \<open>Shape of the drawing\<close>

lemma Line_notin_draw_node [simp]: "Line a b col w \<notin> set (draw_node bb x y t nc tc f ic)"
  by (simp add: draw_node_def Let_def split: prod.split)

text \<open>The \<open>j\<close>-th child of a sibling list gets an edge from the centre to its position.\<close>

lemma draw_children_line:
  "i \<le> j \<Longrightarrow> j < i + length nds \<Longrightarrow>
   Line (cx, cy) (p cx cy j n) (c (u ''line'')) 3 \<in> set (draw_children p bb c cx cy fs i n nds)"
proof (induction nds arbitrary: i)
  case Nil
  then show ?case by simp
next
  case (Cons nd nds)
  obtain nid tt lvl cs where nd: "nd = Node nid tt lvl cs" by (cases nd)
  obtain x y where xy: "p cx cy i n = (x, y)" by (cases "p cx cy i n")
  show ?case
  proof (cases "j = i")
    case True
    with nd xy show ?thesis by simp
  next
    case False
    with Cons.prems have "Suc i \<le> j" "j < Suc i + length nds" by auto
    then have "Line (cx, cy) (p cx cy j n) (c (u ''line'')) 3
        \<in> set (draw_children p bb c cx cy fs (Suc i) n nds)"
      by (rule Cons.IH)
    with nd xy show ?thesis by simp
  qed
qed

text \<open>A position function that always moves the child off the centre's row draws no
  zero-length edge, at any depth.\<close>

lemma draw_lines_distinct:
  "(\<forall>cx cy i n. snd (p cx cy i n) \<noteq> cy) \<Longrightarrow>
     Line a b col w \<in> set (draw_layout p bb c cx cy fm fs ns) \<Longrightarrow> a \<noteq> b"
  "(\<forall>cx cy i n. snd (p cx cy i n) \<noteq> cy) \<Longrightarrow>
     Line a b col w \<in> set (draw_children p bb c cx cy fs i n ns) \<Longrightarrow> a \<noteq> b"
proof (induction p bb c cx cy fm fs ns and p bb c cx cy fs i n ns
    rule: draw_layout_draw_children.induct)
  case (4 p bb c cx cy fs i n nid tt lvl cs nds)
  obtain x y where xy: "p cx cy i n = (x, y)" by (cases "p cx cy i n")
  with "4.prems"(1) have "y \<noteq> cy" by (metis snd_conv)
  with xy "4.IH" "4.prems" show ?case by (auto split: if_splits)
qed auto

text \<open>The drawing never reads a node's identifier.\<close>

lemma draw_erase_ids:
  "draw_layout p bb c cx cy fm fs (map erase_ids ns) = draw_layout p bb c cx cy fm fs ns"
  "draw_children p bb c cx cy fs i n (map erase_ids ns) = draw_children p bb c cx cy fs i n ns"
proof (induction p bb c cx cy fm fs ns and p bb c cx cy fs i n ns
    rule: draw_layout_draw_children.induct)
  case (2 p bb c cx cy fm fs cn rest)
  then show ?case by (cases cn) simp
qed (simp_all split: prod.split)

lemma draw_nodes_erase:
  "draw_nodes bb c (map erase_ids ns) cx cy fm fs layout = draw_nodes bb c ns cx cy fm fs layout"
  by (simp add: draw_nodes_def layout_defs draw_erase_ids)

lemma draw_node_shape:
  "\<exists>e t. draw_node bb x y txt nc tc f ic = [e, t] \<and> is_ellipse e \<and> is_text t"
proof -
  obtain b0 b1 b2 b3 where "bb f txt = (b0, b1, b2, b3)" by (cases "bb f txt") auto
  then show ?thesis by (simp add: draw_node_def Let_def)
qed

text \<open>Given a one-element list, as \<open>create_mind_map_image\<close> always passes it (the
  synthetic centre node), every layout draws that node alone: its children, the whole
  parsed outline, are never drawn, because the routines take the children from the tail
  of the list and not from the node.\<close>

lemma draw_nodes_single:
  "draw_nodes bb c [nd] cx cy fm fs layout =
     draw_node bb cx cy (node_text nd) (c (u ''node'')) (c (u ''text'')) fm True"
  by (simp add: draw_nodes_def layout_defs)

text \<open>C18: the radial layout draws a zero-length edge: its first child sits on the centre.\<close>

theorem radial_zero_edge:
  "Line (cx, cy) (cx, cy) (c (u ''line'')) 3
     \<in> set (draw_radial_layout bb c cx cy fm fs (cn # nd # rest))"
proof -
  have "radial_pos cx cy 0 (length (nd # rest)) = (cx, cy)"
    by (simp add: radial_pos_def py_int_def)
  moreover have "Line (cx, cy) (radial_pos cx cy 0 (length (nd # rest))) (c (u ''line'')) 3
      \<in> set (draw_children radial_pos bb c cx cy fs 0 (length (nd # rest)) (nd # rest))"
    by (rule draw_children_line) simp_all
  ultimately show ?thesis by (simp add: draw_radial_layout_def)
qed

text \<open>C20: the horizontal layout draws a zero-length edge whenever the centre has a child:
  the child at index \<open>n // 2\<close> is placed on the centre.\<close>

theorem horizontal_zero_edge:
  "rest \<noteq> [] \<Longrightarrow>
   Line (cx, cy) (cx, cy) (c (u ''line'')) 3 \<in> set (draw_horizontal_layout bb c cx cy fm fs (cn # rest))"
proof -
  assume ne: "rest \<noteq> []"
  let ?n = "length rest"
  have "horizontal_pos cx cy (?n div 2) ?n = (cx, cy)" by (simp add: horizontal_pos_def)
  moreover have "Line (cx, cy) (horizontal_pos cx cy (?n div 2) ?n) (c (u ''line'')) 3
      \<in> set (draw_children horizontal_pos bb c cx cy fs 0 ?n rest)"
    using ne by (intro draw_children_line) auto
  ultimately show ?thesis by (simp add: draw_horizontal_layout_def)
qed

theorem horizontal_zero_edge_witness:
  "[Node 1 [] 0 []] \<noteq> [] \<and>
   Line (0, 0) (0, 0) None 3 \<in> set (draw_horizontal_layout (\<lambda>f t. (0, 0, 0, 0)) (\<lambda>k. None) 0 0
      DefaultFont DefaultFont [Node 0 [] 0 [], Node 1 [] 0 []])"
  using horizontal_zero_edge [of "[Node 1 [] 0 []]" 0 0 "\<lambda>k. None" "\<lambda>f t. (0, 0, 0, 0)"
      DefaultFont DefaultFont "Node 0 [] 0 []"] by simp

text \<open>C21: the tree layout never draws a zero-length edge: every child is 120 pixels below
  its parent, at every depth.\<close>

theorem tree_no_zero_edge:
  "Line a b col w \<in> set (draw_tree_layout bb c cx cy fm fs ns) \<Longrightarrow> a \<noteq> b"
  by (rule draw_lines_distinct(1) [where p = tree_pos])
    (auto simp: tree_pos_def draw_tree_layout_def)

theorem tree_no_zero_edge_witness:
  "Line (0, 0) (0, 120) None 3 \<in> set (draw_tree_layout (\<lambda>f t. (0, 0, 0, 0)) (\<lambda>k. None) 0 0
      DefaultFont DefaultFont [Node 0 [] 0 [], Node 1 [] 0 []]) \<and> ((0::int), (0::int)) \<noteq> (0, 120)"
proof -
  have l: "Line (0, 0) (0, 120) None 3 \<in> set (draw_tree_layout (\<lambda>f t. (0, 0, 0, 0)) (\<lambda>k. None) 0 0
      DefaultFont DefaultFont [Node 0 [] 0 [], Node 1 [] 0 []])"
    by (simp add: draw_tree_layout_def tree_pos_def draw_node_def Let_def)
  show ?thesis using l tree_no_zero_edge [OF l] by simp
qed

text \<open>C19: the radial child position, read with exact arithmetic, is an integer offset
  \<open>d = (1256636 i) // (1000 n)\<close> added to both coordinates: the children lie on the
  diagonal \<open>x - cx = y - cy\<close>, not on a circle of radius 200.\<close>

theorem radial_offset:
  "radial_pos cx cy i n =
     (cx + int (1256636 * i div (1000 * n)), cy + int (1256636 * i div (1000 * n)))"
proof -
  have eq: "(200::rat) * (314159 / 100000) * 2 * (of_nat i * (2 * (314159 / 100000) / of_nat n)) /
             (2 * (314159 / 100000)) = of_nat (1256636 * i) / of_nat (1000 * n)"
    by (simp add: field_simps)
  then show ?thesis by (simp only: radial_pos_def Let_def py_int_of_nat_div)
qed

subsection \<open>Node circles\<close>

text \<open>C30: \<open>_draw_node\<close> draws a circle (a square bounding box) of diameter at least 80
  for a centre node and 60 otherwise, and the label's horizontal extent lies strictly
  inside it.\<close>

theorem draw_node_circle:
  assumes "bb f t = (b0, b1, b2, b3)"
  shows "\<exists>x0 y0 x1 y1 tx ty.
    draw_node bb x y t nc tc f ic = [Ellipse (x0, y0, x1, y1) nc tc 2, DrawText (tx, ty) t tc f] \<and>
    x1 - x0 = y1 - y0 \<and> 2 * (if ic then 40 else 30) \<le> x1 - x0 \<and> x0 < tx \<and> tx + (b2 - b0) < x1"
proof -
  let ?w = "b2 - b0"
  let ?r = "node_radius ic ?w"
  have r: "(if ic then 40 else 30) \<le> ?r" "?w div 2 + 15 \<le> ?r"
    by (auto simp: node_radius_def)
  have "?w - ?w div 2 \<le> ?w div 2 + 1" by linarith
  with r show ?thesis using assms
    by (auto simp: draw_node_def Let_def)
qed

theorem draw_node_circle_witness:
  "(\<lambda>f t. (0, 0, 100, 20)) DefaultFont [97] = ((0::int), (0::int), (100::int), (20::int)) \<and>
   draw_node (\<lambda>f t. (0, 0, 100, 20)) 0 0 [97] None None DefaultFont True =
     [Ellipse (-70, -70, 70, 70) None None 2, DrawText (-50, -10) [97] None DefaultFont] \<and>
   (70::int) - (-70) = 70 - (-70) \<and> 2 * (40::int) \<le> 70 - (-70) \<and> (-70::int) < -50 \<and> (-50::int) + 100 < 70"
proof -
  have h: "(\<lambda>f t. (0::int, 0::int, 100::int, 20::int)) DefaultFont [97] = (0, 0, 100, 20)" by simp
  from draw_node_circle [OF h, where x = 0 and y = 0 and nc = None and tc = None and ic = True]
  show ?thesis by (simp add: draw_node_def node_radius_def Let_def)
qed

text \<open>The node radius never decreases as the label gets wider.\<close>

theorem node_radius_mono: "w \<le> w' \<Longrightarrow> node_radius ic w \<le> node_radius ic w'"
  by (auto simp: node_radius_def intro: zdiv_mono1)

subsection \<open>Dispatch and positions\<close>

text \<open>A layout name other than radial, tree and horizontal selects the vertical
  layout.\<close>

theorem draw_nodes_fallback:
  "layout \<notin> {u ''radial'', u ''tree'', u ''horizontal''} \<Longrightarrow>
   draw_nodes bb c ns cx cy fm fs layout = draw_vertical_layout bb c cx cy fm fs ns"
  by (cases ns) (auto simp: draw_nodes_def draw_vertical_layout_def)

lemma sum_offsets_double: "2 * (\<Sum>i<n. int i) = int n * (int n - 1)"
  by (induction n) (auto simp: algebra_simps)

text \<open>C22: the tree layout centres an odd number of children under the parent, but an
  even number \<open>n\<close> sits half a spacing to the left: the x-offsets of the children sum
  to \<open>-(n // 2) * 300\<close>, where the spec asks for children centred on the parent.\<close>

theorem tree_pos_mean:
  "(\<Sum>i<n. fst (tree_pos cx cy i n) - cx) = (if even n then - int (n div 2) * 300 else 0)"
proof -
  have "(\<Sum>i<n. fst (tree_pos cx cy i n) - cx) = 300 * ((\<Sum>i<n. int i) - int n * int (n div 2))"
    by (simp add: tree_pos_def sum_subtractf sum_distrib_right algebra_simps)
  moreover have "2 * ((\<Sum>i<n. int i) - int n * int (n div 2)) = (if even n then - int n else 0)"
    using sum_offsets_double [of n] by (auto elim!: evenE oddE simp: algebra_simps)
  ultimately show ?thesis by (auto elim!: evenE)
qed

end
