(* ===== verification/Theme.thy ===== *)
theory Theme
  imports Prelude
begin

text \<open>
  The theme resolver: the table \<open>MindMapGenerator.default_colors\<close> built in
  \<open>__init__\<close> and the palette lookup and style update at the start of
  \<open>create_mind_map_image\<close>. The generator object is the record \<open>generator\<close>; it is
  created once per process (the module-level \<open>mindmap_service\<close>) and shared by every
  request. A dictionary is a map; \<open>dict.update(style)\<close> is \<open>dict_update\<close>, the style
  mapping given as the list of its items in iteration order. The source looks the theme
  up with \<open>self.default_colors.get(theme, self.default_colors['default'])\<close> and then
  updates the dictionary it got in place: the update reaches the table itself, which
  \<open>resolve_colors\<close> returns as the new generator state.
\<close>

type_synonym palette = "ustr \<rightharpoonup> ustr"
type_synonym style = "(ustr \<times> ustr) list"

record generator =
  font_path :: "ustr option"
  default_colors :: "ustr \<rightharpoonup> palette"

definition dict_update :: "('k \<rightharpoonup> 'v) \<Rightarrow> ('k \<times> 'v) list \<Rightarrow> ('k \<rightharpoonup> 'v)" where
  "dict_update m items = fold (\<lambda>(k, v) m. m(k \<mapsto> v)) items m"

definition mk_palette :: "ustr \<Rightarrow> ustr \<Rightarrow> ustr \<Rightarrow> ustr \<Rightarrow> palette" where
  "mk_palette node line background text =
     [u ''node'' \<mapsto> node, u ''line'' \<mapsto> line, u ''background'' \<mapsto> background, u ''text'' \<mapsto> text]"

definition init_default_colors :: "ustr \<rightharpoonup> palette" where
  "init_default_colors =
     [u ''default'' \<mapsto> mk_palette (u ''#1890ff'') (u ''#d9d9d9'') (u ''#ffffff'') (u ''#333333''),
      u ''business'' \<mapsto> mk_palette (u ''#52c41a'') (u ''#8c8c8c'') (u ''#fafafa'') (u ''#262626''),
      u ''creative'' \<mapsto> mk_palette (u ''#722ed1'') (u ''#d3adf7'') (u ''#f9f0ff'') (u ''#531dab''),
      u ''education'' \<mapsto> mk_palette (u ''#fa8c16'') (u ''#ffd591'') (u ''#fff7e6'') (u ''#d46b08''),
      u ''technology'' \<mapsto> mk_palette (u ''#13c2c2'') (u ''#87e8de'') (u ''#e6fffb'') (u ''#08979c'')]"

definition font_paths :: "ustr list" where
  "font_paths = [u ''arial.ttf'', u ''C:/Windows/Fonts/arial.ttf'', u ''/System/Library/Fonts/Arial.ttf'',
                 u ''/usr/share/fonts/truetype/dejavu/DejaVuSans.ttf'']"

text \<open>\<open>__init__\<close>: the first font path that exists (\<open>os.path.exists\<close> is the
  parameter \<open>exists\<close>), and the palette table.\<close>

definition init_generator :: "(ustr \<Rightarrow> bool) \<Rightarrow> generator" where
  "init_generator exists =
     \<lparr>font_path = find exists font_paths, default_colors = init_default_colors\<rparr>"

text \<open>The key whose dictionary \<open>colors\<close> is: the theme when the table has it, else
  \<open>default\<close>.\<close>

definition theme_key :: "generator \<Rightarrow> ustr \<Rightarrow> ustr" where
  "theme_key g theme = (if default_colors g theme \<noteq> None then theme else u ''default'')"

text \<open>Lines 133--138. \<open>None\<close> is the \<open>KeyError\<close> of the eagerly evaluated default
  argument \<open>self.default_colors['default']\<close>; \<open>if style:\<close> is a non-empty style.\<close>

definition resolve_colors :: "generator \<Rightarrow> ustr \<Rightarrow> style \<Rightarrow> (palette \<times> generator) option" where
  "resolve_colors g theme style =
     (case default_colors g (u ''default'') of
        None \<Rightarrow> None
      | Some dflt \<Rightarrow>
          let colors = (case default_colors g theme of Some p \<Rightarrow> p | None \<Rightarrow> dflt)
          in if style = [] then Some (colors, g)
             else
               let colors' = dict_update colors style
               in Some (colors', g\<lparr>default_colors := (default_colors g)(theme_key g theme \<mapsto> colors')\<rparr>))"

subsection \<open>Well-formed palette tables\<close>

definition theme_names :: "ustr list" where
  "theme_names = [u ''default'', u ''business'', u ''creative'', u ''education'', u ''technology'']"

definition palette_keys :: "ustr list" where
  "palette_keys = [u ''node'', u ''line'', u ''background'', u ''text'']"

definition wf_palette :: "palette \<Rightarrow> bool" where
  "wf_palette p \<longleftrightarrow> list_all (\<lambda>k. p k \<noteq> None) palette_keys"

text \<open>Every theme of the table is present and each palette has the four keys the
  renderer reads.\<close>

definition wf_generator :: "generator \<Rightarrow> bool" where
  "wf_generator g \<longleftrightarrow> dom (default_colors g) = set theme_names \<and>
     list_all (\<lambda>t. case default_colors g t of None \<Rightarrow> False | Some p \<Rightarrow> wf_palette p) theme_names"

subsection \<open>Dictionary update\<close>

lemma dict_update_eq: "dict_update m items = m ++ map_of (rev items)"
proof (induction items arbitrary: m)
  case Nil
  then show ?case by (simp add: dict_update_def)
next
  case (Cons kv items)
  obtain k v where kv: "kv = (k, v)" by (cases kv)
  have "dict_update m (kv # items) = dict_update (m(k \<mapsto> v)) items"
    by (simp add: dict_update_def kv)
  also have "\<dots> = m(k \<mapsto> v) ++ map_of (rev items)" by (rule Cons.IH)
  also have "\<dots> = m ++ map_of (rev (kv # items))"
    by (simp add: kv map_add_assoc [symmetric])
  finally show ?case .
qed

lemma dict_update_idem: "dict_update (dict_update m items) items = dict_update m items"
  by (rule ext) (simp add: dict_update_eq map_add_def split: option.split)

lemma dict_update_Some: "m k = Some v \<Longrightarrow> \<exists>v'. dict_update m items k = Some v'"
  by (simp add: dict_update_eq) (metis map_add_Some_iff not_None_eq)

lemma wf_palette_dict_update: "wf_palette p \<Longrightarrow> wf_palette (dict_update p items)"
  by (auto simp: wf_palette_def list_all_iff dest: dict_update_Some)

lemma wf_generator_lookup:
  assumes "wf_generator g" and "default_colors g t = Some p"
  shows "wf_palette p"
proof -
  from assms have "t \<in> set theme_names" by (auto simp: wf_generator_def)
  with assms show ?thesis by (fastforce simp: wf_generator_def list_all_iff)
qed

lemma wf_generator_default:
  "wf_generator g \<Longrightarrow> \<exists>d. default_colors g (u ''default'') = Some d"
  by (auto simp: wf_generator_def theme_names_def)

lemma theme_key_known: "default_colors g (u ''default'') \<noteq> None \<Longrightarrow> default_colors g (theme_key g theme) \<noteq> None"
  by (simp add: theme_key_def)

lemma resolve_colors_eq:
  assumes "default_colors g (u ''default'') = Some d"
  shows "resolve_colors g theme style =
    (let colors = the (default_colors g (theme_key g theme)) in
     if style = [] then Some (colors, g)
     else Some (dict_update colors style,
                g\<lparr>default_colors := (default_colors g)(theme_key g theme \<mapsto> dict_update colors style)\<rparr>))"
  using assms by (auto simp: resolve_colors_def theme_key_def Let_def split: option.split)

text \<open>Resolving keeps the palette table well formed: the five themes stay present with
  the four colour keys, and the palette handed to the renderer has them.\<close>

lemma resolve_colors_wf:
  assumes "wf_generator g" and "resolve_colors g theme style = Some (colors, g')"
  shows "wf_generator g' \<and> wf_palette colors"
proof -
  obtain d where d: "default_colors g (u ''default'') = Some d"
    using wf_generator_default [OF assms(1)] by blast
  let ?k = "theme_key g theme"
  obtain p where p: "default_colors g ?k = Some p"
    using theme_key_known [of g theme] d by auto
  have wp: "wf_palette p" using assms(1) p by (rule wf_generator_lookup)
  have k: "?k \<in> set theme_names"
    using assms(1) p by (auto simp: wf_generator_def)
  show ?thesis
  proof (cases "style = []")
    case True
    with assms d p wp show ?thesis by (auto simp: resolve_colors_eq)
  next
    case False
    with assms(2) d p have c: "colors = dict_update p style"
      and g': "g' = g\<lparr>default_colors := (default_colors g)(?k \<mapsto> dict_update p style)\<rparr>"
      by (auto simp: resolve_colors_eq Let_def)
    have "wf_palette (dict_update p style)" using wp by (rule wf_palette_dict_update)
    with assms(1) k c g' show ?thesis
      by (auto simp: wf_generator_def list_all_iff)
  qed
qed

lemma init_generator_wf: "wf_generator (init_generator exists)"
  by (auto simp: wf_generator_def init_generator_def init_default_colors_def theme_names_def
      wf_palette_def palette_keys_def mk_palette_def u_def)

lemma resolve_colors_None:
  "resolve_colors g theme style = None \<longleftrightarrow> default_colors g (u ''default'') = None"
  by (simp add: resolve_colors_def Let_def split: option.split)

lemma resolve_colors_total: "wf_generator g \<Longrightarrow> \<exists>colors g'. resolve_colors g theme style = Some (colors, g')"
  using wf_generator_default [of g] by (auto simp: resolve_colors_def Let_def split: option.split)

text \<open>C8: the style override of one request is written into the shared palette table:
  after a request with a non-empty style, a request without style for the same theme (or,
  when the theme was unknown, for \<open>default\<close>) gets the overridden palette. The spec says
  the palette is resolved per request and the generator holds only read-only
  configuration.\<close>

theorem resolve_colors_persist:
  assumes "resolve_colors g theme style = Some (colors, g')" and "style \<noteq> []"
  shows "resolve_colors g' (theme_key g theme) [] = Some (colors, g')"
proof -
  obtain d where d: "default_colors g (u ''default'') = Some d"
    using assms(1) by (auto simp: resolve_colors_def split: option.splits)
  let ?k = "theme_key g theme"
  have k: "default_colors g ?k \<noteq> None" using d by (simp add: theme_key_def)
  from assms d have g': "g' = g\<lparr>default_colors := (default_colors g)(?k \<mapsto> colors)\<rparr>"
    by (auto simp: resolve_colors_eq Let_def)
  have "default_colors g' (u ''default'') \<noteq> None" using d g' by auto
  moreover have "theme_key g' ?k = ?k" using g' by (simp add: theme_key_def)
  ultimately show ?thesis using g' by (auto simp: resolve_colors_eq)
qed

theorem resolve_colors_persist_witness:
  "\<exists>colors g'.
     resolve_colors (init_generator (\<lambda>p. False)) (u ''business'') [(u ''node'', u ''red'')] = Some (colors, g') \<and>
     [(u ''node'', u ''red'')] \<noteq> [] \<and>
     resolve_colors g' (u ''business'') [] = Some (colors, g') \<and> colors (u ''node'') = Some (u ''red'')"
proof -
  let ?g = "init_generator (\<lambda>p. False)"
  let ?s = "[(u ''node'', u ''red'')]"
  obtain colors g' where r: "resolve_colors ?g (u ''business'') ?s = Some (colors, g')"
    using resolve_colors_total [OF init_generator_wf] by blast
  have d: "default_colors ?g (u ''default'') \<noteq> None"
    by (simp add: init_generator_def init_default_colors_def u_def)
  then obtain d0 where d0: "default_colors ?g (u ''default'') = Some d0" by blast
  have "colors = dict_update (the (default_colors ?g (theme_key ?g (u ''business'')))) ?s"
    using r d0 by (simp add: resolve_colors_eq Let_def)
  then have node: "colors (u ''node'') = Some (u ''red'')" by (simp add: dict_update_eq)
  have k: "theme_key ?g (u ''business'') = u ''business''"
    by (simp add: theme_key_def init_generator_def init_default_colors_def u_def)
  show ?thesis using r resolve_colors_persist [OF r] k node by auto
qed

text \<open>C29: a theme name the table does not have resolves, without a style, to the
  \<open>default\<close> palette and leaves the table unchanged.\<close>

theorem resolve_colors_unknown:
  "default_colors g theme = None \<Longrightarrow> default_colors g (u ''default'') = Some d \<Longrightarrow>
   resolve_colors g theme [] = Some (d, g)"
  by (simp add: resolve_colors_def)

theorem resolve_colors_unknown_witness:
  "default_colors (init_generator (\<lambda>p. False)) (u ''neon'') = None \<and>
   default_colors (init_generator (\<lambda>p. False)) (u ''default'') =
     Some (mk_palette (u ''#1890ff'') (u ''#d9d9d9'') (u ''#ffffff'') (u ''#333333'')) \<and>
   resolve_colors (init_generator (\<lambda>p. False)) (u ''neon'') [] =
     Some (mk_palette (u ''#1890ff'') (u ''#d9d9d9'') (u ''#ffffff'') (u ''#333333''),
           init_generator (\<lambda>p. False))"
proof -
  let ?g = "init_generator (\<lambda>p. False)"
  have h1: "default_colors ?g (u ''neon'') = None"
    by (simp add: init_generator_def init_default_colors_def u_def)
  have h2: "default_colors ?g (u ''default'') =
      Some (mk_palette (u ''#1890ff'') (u ''#d9d9d9'') (u ''#ffffff'') (u ''#333333''))"
    by (simp add: init_generator_def init_default_colors_def u_def)
  show ?thesis using h1 h2 resolve_colors_unknown [OF h1 h2] by simp
qed

text \<open>Repeating a request's style changes nothing more: the second update of the same
  dictionary with the same items is the identity.\<close>

lemma resolve_colors_idem:
  assumes "resolve_colors g theme style = Some (colors, g')"
  shows "resolve_colors g' theme style = Some (colors, g')"
proof (cases "style = []")
  case True
  with assms show ?thesis by (auto simp: resolve_colors_def split: option.splits)
next
  case False
  obtain d where d: "default_colors g (u ''default'') = Some d"
    using assms by (auto simp: resolve_colors_def split: option.splits)
  let ?k = "theme_key g theme"
  let ?p = "the (default_colors g ?k)"
  from assms d False have c: "colors = dict_update ?p style"
    and g': "g' = g\<lparr>default_colors := (default_colors g)(?k \<mapsto> colors)\<rparr>"
    by (auto simp: resolve_colors_eq Let_def)
  have d': "default_colors g' (u ''default'') \<noteq> None" using d g' by auto
  have k': "theme_key g' theme = ?k" using g' d by (auto simp: theme_key_def)
  have "dict_update colors style = colors" using c by (simp add: dict_update_idem)
  with d' k' g' False show ?thesis by (auto simp: resolve_colors_eq)
qed

lemma resolve_colors_font_path:
  "resolve_colors g theme style = Some (colors, g') \<Longrightarrow> font_path g' = font_path g"
  by (auto simp: resolve_colors_def Let_def split: option.splits if_splits)

text \<open>A later request for the same theme without style gets the palette the earlier
  request left in the table.\<close>

lemma resolve_colors_replay:
  assumes "resolve_colors g theme style = Some (colors, g')"
  shows "resolve_colors g' theme [] = Some (colors, g')"
proof (cases "style = []")
  case True
  with assms show ?thesis by (auto simp: resolve_colors_def split: option.splits)
next
  case False
  obtain d where d: "default_colors g (u ''default'') = Some d"
    using assms by (auto simp: resolve_colors_def split: option.splits)
  let ?k = "theme_key g theme"
  from assms d False have g': "g' = g\<lparr>default_colors := (default_colors g)(?k \<mapsto> colors)\<rparr>"
    by (auto simp: resolve_colors_eq Let_def)
  have d': "default_colors g' (u ''default'') \<noteq> None" using d g' by auto
  have k': "theme_key g' theme = ?k" using g' d by (auto simp: theme_key_def)
  with d' g' show ?thesis by (auto simp: resolve_colors_eq)
qed

end
