(* ===== verification/Render.thy ===== *)
theory Render
  imports Layout Theme
begin

text \<open>
  The renderer, \<open>MindMapGenerator.create_mind_map_image\<close>, and the data builder
  \<open>generate_mind_map_data\<close>. Font loading is the external capability \<open>tt_ok\<close>
  (whether \<open>ImageFont.truetype(path, size)\<close> succeeds); the bare \<open>except:\<close> falls
  back to the built-in font for all three sizes. PIL parses each colour string when a
  drawing call uses it; the capability \<open>valid\<close> says which strings it accepts. The
  image is the canvas size, its background colour and the list of drawing calls; a
  failing call (an unknown colour, or a \<open>KeyError\<close> from a missing palette key) raises,
  and the first one, in the order of the calls, is the error of the whole render
  (\<open>paint\<close>). \<open>datetime.now().isoformat()\<close> is the parameter \<open>now\<close>.
\<close>

datatype error = KeyError | ValueError ustr

record image =
  img_size :: "int \<times> int"
  img_background :: color
  img_cmds :: "cmd list"

record mind_map_data =
  md_title :: ustr
  md_description :: ustr
  md_nodes :: "node list"
  md_theme :: ustr
  md_layout :: ustr
  md_generated_at :: ustr
  md_node_count :: nat

definition generate_mind_map_data ::
  "ustr \<Rightarrow> ustr \<Rightarrow> ustr \<Rightarrow> ustr \<Rightarrow> ustr \<Rightarrow> ustr \<Rightarrow> nat \<Rightarrow> mind_map_data \<times> nat" where
  "generate_mind_map_data title description content theme layout now uid =
     (case parse_content content uid of (nodes, uid') \<Rightarrow>
       let center_node = Node uid' title (-1) nodes
       in (\<lparr>md_title = title, md_description = description, md_nodes = [center_node],
            md_theme = theme, md_layout = layout, md_generated_at = now,
            md_node_count = length nodes + 1\<rparr>, Suc uid'))"

definition load_fonts :: "(ustr \<Rightarrow> nat \<Rightarrow> bool) \<Rightarrow> ustr option \<Rightarrow> font \<times> font \<times> font" where
  "load_fonts tt_ok path =
     (case path of
        Some p \<Rightarrow>
          if tt_ok p 32 \<and> tt_ok p 24 \<and> tt_ok p 18
          then (Truetype p 32, Truetype p 24, Truetype p 18)
          else (DefaultFont, DefaultFont, DefaultFont)
      | None \<Rightarrow> (DefaultFont, DefaultFont, DefaultFont))"

definition text_width :: "metrics \<Rightarrow> font \<Rightarrow> ustr \<Rightarrow> int" where
  "text_width bb fnt t = (case bb fnt t of (b0, b1, b2, b3) \<Rightarrow> b2 - b0)"

fun cmd_colors :: "cmd \<Rightarrow> color list" where
  "cmd_colors (Line a b fill w) = [fill]"
| "cmd_colors (Ellipse box fill outline w) = [fill, outline]"
| "cmd_colors (DrawText xy t fill f) = [fill]"

definition ink_error :: "(ustr \<Rightarrow> bool) \<Rightarrow> color \<Rightarrow> error option" where
  "ink_error valid c =
     (case c of None \<Rightarrow> Some KeyError | Some v \<Rightarrow> if valid v then None else Some (ValueError v))"

fun first_ink_error :: "(ustr \<Rightarrow> bool) \<Rightarrow> color list \<Rightarrow> error option" where
  "first_ink_error valid [] = None"
| "first_ink_error valid (c # cs) =
     (case ink_error valid c of None \<Rightarrow> first_ink_error valid cs | Some e \<Rightarrow> Some e)"

definition paint :: "(ustr \<Rightarrow> bool) \<Rightarrow> image \<Rightarrow> error + image" where
  "paint valid img =
     (case first_ink_error valid (img_background img # concat (map cmd_colors (img_cmds img))) of
        None \<Rightarrow> Inr img
      | Some e \<Rightarrow> Inl e)"

definition create_mind_map_image ::
  "metrics \<Rightarrow> (ustr \<Rightarrow> nat \<Rightarrow> bool) \<Rightarrow> (ustr \<Rightarrow> bool) \<Rightarrow> generator \<Rightarrow> mind_map_data \<Rightarrow> style \<Rightarrow>
   (error + image) \<times> generator" where
  "create_mind_map_image bb tt_ok valid g data style =
     (case resolve_colors g (md_theme data) style of
        None \<Rightarrow> (Inl KeyError, g)
      | Some (colors, g') \<Rightarrow>
          (case load_fonts tt_ok (font_path g') of (font_large, font_medium, font_small) \<Rightarrow>
            let width = 1200; height = 800;
                title = md_title data;
                title_x = (width - text_width bb font_large title) div 2;
                description = md_description data;
                desc_x = (width - text_width bb font_small description) div 2;
                img = \<lparr>img_size = (width, height), img_background = colors (u ''background''),
                       img_cmds =
                         [DrawText (title_x, 30) title (colors (u ''text'')) font_large,
                          DrawText (desc_x, 80) description (colors (u ''text'')) font_small] @
                         draw_nodes bb colors (md_nodes data) (width div 2) 200 font_medium font_small
                           (md_layout data)\<rparr>
            in (paint valid img, g')))"

subsection \<open>Colours the drawing reads\<close>

lemma draw_node_colors [simp]:
  "(\<Union>a \<in> set (draw_node bb x y t nc tc f ic). set (cmd_colors a)) = {nc, tc}"
proof -
  obtain b0 b1 b2 b3 where "bb f t = (b0, b1, b2, b3)" by (cases "bb f t") auto
  then show ?thesis by (auto simp: draw_node_def Let_def)
qed

lemma draw_colors:
  "set (concat (map cmd_colors (draw_layout p bb c cx cy fm fs ns)))
     \<subseteq> {c (u ''node''), c (u ''line''), c (u ''text'')}"
  "set (concat (map cmd_colors (draw_children p bb c cx cy fs i n ns)))
     \<subseteq> {c (u ''node''), c (u ''line''), c (u ''text'')}"
proof (induction p bb c cx cy fm fs ns and p bb c cx cy fs i n ns
    rule: draw_layout_draw_children.induct)
  case (4 p bb c cx cy fs i n nid tt lvl cs nds)
  obtain x y where xy: "p cx cy i n = (x, y)" by (cases "p cx cy i n")
  with "4.IH" show ?case by (cases "cs = []") simp_all
qed simp_all

lemma draw_nodes_colors:
  "set (concat (map cmd_colors (draw_nodes bb c ns cx cy fm fs layout)))
     \<subseteq> {c (u ''node''), c (u ''line''), c (u ''text'')}"
  using draw_colors(1) by (simp add: draw_nodes_def layout_defs)

lemma first_ink_error_Some:
  "first_ink_error valid cs = Some e \<Longrightarrow> \<exists>c \<in> set cs. ink_error valid c = Some e"
  by (induction cs) (auto split: option.splits)

lemma first_ink_error_None:
  "(\<forall>c \<in> set cs. ink_error valid c = None) \<Longrightarrow> first_ink_error valid cs = None"
  by (induction cs) auto

lemma ink_error_KeyError: "ink_error valid c = Some KeyError \<longleftrightarrow> c = None"
  by (auto simp: ink_error_def split: option.splits)

text \<open>With a well-formed palette no drawing call raises \<open>KeyError\<close>.\<close>

lemma create_image_no_KeyError:
  assumes "wf_generator g"
  shows "fst (create_mind_map_image bb tt_ok valid g data style) \<noteq> Inl KeyError"
proof -
  obtain colors g' where r: "resolve_colors g (md_theme data) style = Some (colors, g')"
    using resolve_colors_total [OF assms] by blast
  have wp: "wf_palette colors" using resolve_colors_wf [OF assms r] by simp
  then have keys: "colors k \<noteq> None" if "k \<in> set palette_keys" for k
    using that by (auto simp: wf_palette_def list_all_iff)
  then have some: "colors (u ''node'') \<noteq> None" "colors (u ''line'') \<noteq> None"
      "colors (u ''text'') \<noteq> None" "colors (u ''background'') \<noteq> None"
    by (auto simp: palette_keys_def)
  obtain fl fm fs where f: "load_fonts tt_ok (font_path g') = (fl, fm, fs)"
    by (cases "load_fonts tt_ok (font_path g')") auto
  let ?cmds = "draw_nodes bb colors (md_nodes data) 600 200 fm fs (md_layout data)"
  have "None \<notin> set (concat (map cmd_colors ?cmds))"
    using draw_nodes_colors [of bb colors "md_nodes data" 600 200 fm fs "md_layout data"] some by auto
  then show ?thesis using r f some
    by (auto simp: create_mind_map_image_def paint_def Let_def ink_error_KeyError
        split: option.splits dest!: first_ink_error_Some)
qed

subsection \<open>The render step by step\<close>

lemma paint_Inr: "paint valid img = Inr img' \<Longrightarrow> img' = img"
  by (simp add: paint_def split: option.splits)

lemma paint_all_valid: "paint (\<lambda>v. True) img = Inl e \<Longrightarrow> e = KeyError"
proof -
  have "first_ink_error (\<lambda>v. True) cs = Some e \<Longrightarrow> e = KeyError" for cs
    by (induction cs) (auto simp: ink_error_def split: option.splits)
  then show "paint (\<lambda>v. True) img = Inl e \<Longrightarrow> e = KeyError"
    by (auto simp: paint_def ink_error_def split: option.splits)
qed

lemma generate_data_fields:
  assumes "generate_mind_map_data t d c th l now k = (data, k')"
  shows "md_nodes data = [Node (snd (parse_content c k)) t (-1) (fst (parse_content c k))] \<and>
    md_title data = t \<and> md_description data = d \<and> md_theme data = th \<and> md_layout data = l \<and>
    md_node_count data = length (fst (parse_content c k)) + 1 \<and> k' = Suc (snd (parse_content c k))"
  using assms by (auto simp: generate_mind_map_data_def split: prod.splits)

text \<open>The image a render paints: the title, the description and the node drawing.\<close>

lemma create_image_eq:
  assumes "resolve_colors g (md_theme data) style = Some (colors, g')"
    and "load_fonts tt_ok (font_path g') = (fl, fm, fs)"
  shows "create_mind_map_image bb tt_ok valid g data style =
    (paint valid \<lparr>img_size = (1200, 800), img_background = colors (u ''background''),
       img_cmds =
         [DrawText ((1200 - text_width bb fl (md_title data)) div 2, 30) (md_title data)
            (colors (u ''text'')) fl,
          DrawText ((1200 - text_width bb fs (md_description data)) div 2, 80)
            (md_description data) (colors (u ''text'')) fs] @
         draw_nodes bb colors (md_nodes data) 600 200 fm fs (md_layout data)\<rparr>,
     g')"
  using assms by (simp add: create_mind_map_image_def Let_def)

lemma create_image_cases:
  "create_mind_map_image bb tt_ok valid g data style = (Inr img, g') \<Longrightarrow>
   \<exists>colors fl fm fs. img_cmds img =
         [DrawText ((1200 - text_width bb fl (md_title data)) div 2, 30) (md_title data)
            (colors (u ''text'')) fl,
          DrawText ((1200 - text_width bb fs (md_description data)) div 2, 80)
            (md_description data) (colors (u ''text'')) fs] @
         draw_nodes bb colors (md_nodes data) 600 200 fm fs (md_layout data)"
proof -
  assume c: "create_mind_map_image bb tt_ok valid g data style = (Inr img, g')"
  show ?thesis
  proof (cases "resolve_colors g (md_theme data) style")
    case None
    with c show ?thesis by (simp add: create_mind_map_image_def)
  next
    case (Some a)
    then obtain colors g1 where r: "resolve_colors g (md_theme data) style = Some (colors, g1)"
      by (cases a) auto
    obtain fl fm fs where f: "load_fonts tt_ok (font_path g1) = (fl, fm, fs)"
      by (cases "load_fonts tt_ok (font_path g1)") auto
    from c create_image_eq [OF r f] show ?thesis
      by (auto dest!: paint_Inr) blast
  qed
qed

lemma create_image_state:
  "snd (create_mind_map_image bb tt_ok valid g data style) =
     (case resolve_colors g (md_theme data) style of None \<Rightarrow> g | Some (colors, g') \<Rightarrow> g')"
  by (simp add: create_mind_map_image_def Let_def split: option.split prod.split)

lemma create_image_wf:
  assumes "wf_generator g" and "create_mind_map_image bb tt_ok valid g data style = (res, g')"
  shows "wf_generator g'"
proof -
  have "wf_generator (snd (create_mind_map_image bb tt_ok valid g data style))"
    using assms(1) by (auto simp: create_image_state dest: resolve_colors_wf split: option.split)
  with assms(2) show ?thesis by simp
qed

text \<open>Rendering again from the state a render left, with data that differs only in what
  the drawing does not read (identifiers, timestamp, node count), and with the same style
  or none, gives the same result and the same state.\<close>

lemma create_image_replay:
  assumes c: "create_mind_map_image bb tt_ok valid g d style = (res, g')"
    and n: "map erase_ids (md_nodes d') = map erase_ids (md_nodes d)"
    and f: "md_title d' = md_title d" "md_description d' = md_description d" "md_theme d' = md_theme d"
      "md_layout d' = md_layout d"
    and st: "style' = style \<or> style' = []"
  shows "create_mind_map_image bb tt_ok valid g' d' style' = (res, g')"
proof (cases "resolve_colors g (md_theme d) style")
  case None
  then have "resolve_colors g (md_theme d') style' = None" by (simp add: resolve_colors_None)
  with None c show ?thesis by (simp add: create_mind_map_image_def)
next
  case (Some a)
  then obtain colors g1 where r: "resolve_colors g (md_theme d) style = Some (colors, g1)"
    by (cases a) auto
  obtain fl fm fs where fo: "load_fonts tt_ok (font_path g1) = (fl, fm, fs)"
    by (cases "load_fonts tt_ok (font_path g1)") auto
  have g1: "g' = g1" using c create_image_eq [OF r fo] by simp
  have r': "resolve_colors g1 (md_theme d') style' = Some (colors, g1)"
    using st resolve_colors_idem [OF r] resolve_colors_replay [OF r] f by auto
  have "draw_nodes bb colors (md_nodes d') 600 200 fm fs (md_layout d) =
      draw_nodes bb colors (md_nodes d) 600 200 fm fs (md_layout d)"
    by (metis n draw_nodes_erase)
  then show ?thesis
    using c create_image_eq [OF r fo] create_image_eq [OF r' fo] g1 f by simp
qed

text \<open>\<open>Image.new\<close> parses the background colour before anything is drawn.\<close>

lemma create_image_bad_background:
  assumes "resolve_colors g (md_theme d) style = Some (colors, g')"
    and "colors (u ''background'') = Some v" and "\<not> valid v"
  shows "create_mind_map_image bb tt_ok valid g d style = (Inl (ValueError v), g')"
  using assms by (simp add: create_mind_map_image_def paint_def ink_error_def Let_def split: prod.split)

text \<open>When PIL accepts every colour string, the only error left is a missing key.\<close>

lemma create_image_all_valid:
  "create_mind_map_image bb tt_ok (\<lambda>v. True) g d style = (Inl e, g') \<Longrightarrow> e = KeyError"
  by (auto simp: create_mind_map_image_def Let_def split: option.splits prod.splits
      dest: paint_all_valid)

end
