(* ===== verification/Service.thy ===== *)
theory Service
  imports Render
begin

text \<open>
  \<open>MindMapService\<close> of \<open>mindmap_service.py\<close>: \<open>generate_mindmap\<close>, which reads a
  request, builds the mind-map data and renders it, and \<open>download_mindmap\<close>, which
  renders a posted mind-map object again. The process holds one \<open>MindMapGenerator\<close>
  (the module-level \<open>mindmap_service\<close>, reached through \<open>handle_generate_request\<close>
  and \<open>handle_download_request\<close>) and the state of the identifier supply; together
  they are the record \<open>service\<close>. A request's fields are options (\<open>None\<close> for an
  absent key), read with \<open>dict.get(key, default)\<close>. The \<open>except Exception\<close> of
  \<open>generate_mindmap\<close> turns an error of the render into a \<open>Failure\<close>; PNG and base64
  encoding of a rendered image are external and total, so the result carries the image
  itself. JSON values are the datatype \<open>json\<close>, a JSON object an association list;
  the object posted for a download is read into the fields \<open>create_mind_map_image\<close>
  looks up (\<open>payload\<close>), a value of another type than the renderer expects being read
  as absent.
\<close>

record request =
  rq_title :: "ustr option"
  rq_description :: "ustr option"
  rq_content :: "ustr option"
  rq_theme :: "ustr option"
  rq_layout :: "ustr option"
  rq_style :: style

record service =
  svc_generator :: generator
  svc_uuid :: nat

datatype response = Success mind_map_data image | Failure error

datatype json =
    JBool bool
  | JStr ustr
  | JNat nat
  | JErr error
  | JNodes "node list"
  | JData mind_map_data
  | JImage image
  | JEntries "(ustr \<times> ustr \<times> ustr) list"

text \<open>The default title \<open>'\<^emph>\<open>mind map\<close>'\<close>, four CJK code points.\<close>

definition default_title :: ustr where
  "default_title = [24605, 32500, 23548, 22270]"

definition generate_mindmap ::
  "metrics \<Rightarrow> (ustr \<Rightarrow> nat \<Rightarrow> bool) \<Rightarrow> (ustr \<Rightarrow> bool) \<Rightarrow> ustr \<Rightarrow> request \<Rightarrow> service \<Rightarrow>
   response \<times> service" where
  "generate_mindmap bb tt_ok valid now rq s =
     (let title = get_or (rq_title rq) default_title;
          description = get_or (rq_description rq) [];
          content = get_or (rq_content rq) [];
          theme = get_or (rq_theme rq) (u ''default'');
          layout = get_or (rq_layout rq) (u ''radial'');
          style = rq_style rq
      in case generate_mind_map_data title description content theme layout now (svc_uuid s) of
           (data, uid') \<Rightarrow>
             (case create_mind_map_image bb tt_ok valid (svc_generator s) data style of
                (Inl e, g') \<Rightarrow> (Failure e, \<lparr>svc_generator = g', svc_uuid = uid'\<rparr>)
              | (Inr img, g') \<Rightarrow> (Success data img, \<lparr>svc_generator = g', svc_uuid = uid'\<rparr>)))"

definition service_json :: "response \<Rightarrow> (ustr \<times> json) list" where
  "service_json r =
     (case r of
        Success data img \<Rightarrow>
          [(u ''success'', JBool True), (u ''data'', JData data), (u ''image_base64'', JImage img),
           (u ''message'', JStr [24605, 32500, 23548, 22270, 29983, 25104, 25104, 21151])]
      | Failure e \<Rightarrow>
          [(u ''success'', JBool False), (u ''error'', JErr e), (u ''message'', JStr [24605, 32500, 23548, 22270, 29983, 25104, 22833, 36133])])"

definition data_json :: "mind_map_data \<Rightarrow> (ustr \<times> json) list" where
  "data_json d =
     [(u ''title'', JStr (md_title d)), (u ''description'', JStr (md_description d)),
      (u ''nodes'', JNodes (md_nodes d)), (u ''theme'', JStr (md_theme d)),
      (u ''layout'', JStr (md_layout d)), (u ''generated_at'', JStr (md_generated_at d)),
      (u ''node_count'', JNat (md_node_count d))]"

record payload =
  pl_title :: "ustr option"
  pl_description :: "ustr option"
  pl_nodes :: "node list option"
  pl_theme :: "ustr option"
  pl_layout :: "ustr option"

fun str_of :: "json option \<Rightarrow> ustr option" where
  "str_of (Some (JStr s)) = Some s"
| "str_of _ = None"

fun nodes_of :: "json option \<Rightarrow> node list option" where
  "nodes_of (Some (JNodes ns)) = Some ns"
| "nodes_of _ = None"

definition payload_of :: "(ustr \<times> json) list \<Rightarrow> payload" where
  "payload_of obj =
     \<lparr>pl_title = str_of (map_of obj (u ''title'')),
      pl_description = str_of (map_of obj (u ''description'')),
      pl_nodes = nodes_of (map_of obj (u ''nodes'')),
      pl_theme = str_of (map_of obj (u ''theme'')),
      pl_layout = str_of (map_of obj (u ''layout''))\<rparr>"

text \<open>A posted object without \<open>title\<close>, \<open>description\<close> or \<open>nodes\<close> raises \<open>KeyError\<close>
  at the subscript, after the calls before it: \<open>Image.new\<close> with the background, and
  the title's and the description's \<open>draw.text\<close>, as far as they are reached.\<close>

definition missing_key_error :: "(ustr \<Rightarrow> bool) \<Rightarrow> colors \<Rightarrow> payload \<Rightarrow> error" where
  "missing_key_error valid colors pl =
     (let bg = colors (u ''background''); tx = colors (u ''text'');
          before = (if pl_title pl = None then [bg]
                    else if pl_description pl = None then [bg, tx] else [bg, tx, tx])
      in case first_ink_error valid before of Some e \<Rightarrow> e | None \<Rightarrow> KeyError)"

text \<open>\<open>download_mindmap\<close> renders with no style; the fields the renderer does not read
  (\<open>generated_at\<close>, \<open>node_count\<close>) are left empty.\<close>

definition download_mindmap ::
  "metrics \<Rightarrow> (ustr \<Rightarrow> nat \<Rightarrow> bool) \<Rightarrow> (ustr \<Rightarrow> bool) \<Rightarrow> payload \<Rightarrow> service \<Rightarrow>
   (error + image) \<times> service" where
  "download_mindmap bb tt_ok valid pl s =
     (let theme = get_or (pl_theme pl) (u ''default'') in
      case (pl_title pl, pl_description pl, pl_nodes pl) of
        (Some title, Some description, Some nodes) \<Rightarrow>
          (case create_mind_map_image bb tt_ok valid (svc_generator s)
                  \<lparr>md_title = title, md_description = description, md_nodes = nodes, md_theme = theme,
                   md_layout = get_or (pl_layout pl) (u ''radial''), md_generated_at = [],
                   md_node_count = 0\<rparr> [] of
             (r, g') \<Rightarrow> (r, s\<lparr>svc_generator := g'\<rparr>))
      | _ \<Rightarrow>
          (Inl (case resolve_colors (svc_generator s) theme [] of
                  None \<Rightarrow> KeyError
                | Some (colors, g') \<Rightarrow> missing_key_error valid colors pl), s))"

text \<open>
  The module's self-test (its \<open>__main__\<close> block): a request whose outline has
  three levels written as two and four spaces of indentation.
\<close>

definition selftest_request :: request where
  "selftest_request =
     \<lparr>rq_title = Some [20154, 24037, 26234, 33021, 21457, 23637, 21382, 31243],
      rq_description = Some [20174, 27010, 24565, 21040, 24212, 29992, 30340, 23436, 25972, 21457, 23637, 33033, 32476],
      rq_content = Some
       [20154, 24037, 26234, 33021, 27010, 24565, 10,
        32, 32, 26426, 22120, 23398, 20064, 10,
        32, 32, 32, 32, 28145, 24230, 23398, 20064, 10,
        32, 32, 32, 32, 24378, 21270, 23398, 20064, 10,
        32, 32, 33258, 28982, 35821, 35328, 22788, 29702, 10,
        32, 32, 32, 32, 26426, 22120, 32763, 35793, 10,
        32, 32, 32, 32, 23545, 35805, 31995, 32479, 10,
        32, 32, 35745, 31639, 26426, 35270, 35273, 10,
        32, 32, 32, 32, 22270, 20687, 35782, 21035, 10,
        32, 32, 32, 32, 30446, 26631, 26816, 27979, 10,
        32, 32, 19987, 23478, 31995, 32479, 10,
        32, 32, 30693, 35782, 22270, 35889],
      rq_theme = Some (u ''technology''), rq_layout = Some (u ''radial''), rq_style = []\<rparr>"

definition init_service :: "(ustr \<Rightarrow> bool) \<Rightarrow> service" where
  "init_service exists = \<lparr>svc_generator = init_generator exists, svc_uuid = 0\<rparr>"

fun rendered :: "response \<Rightarrow> error + image" where
  "rendered (Success data img) = Inr img"
| "rendered (Failure e) = Inl e"

subsection \<open>One request\<close>

lemma generate_mindmap_eq:
  assumes "generate_mind_map_data (get_or (rq_title rq) default_title) (get_or (rq_description rq) [])
       (get_or (rq_content rq) []) (get_or (rq_theme rq) (u ''default''))
       (get_or (rq_layout rq) (u ''radial'')) now (svc_uuid s) = (data, k')"
    and "create_mind_map_image bb tt_ok valid (svc_generator s) data (rq_style rq) = (res, g')"
  shows "generate_mindmap bb tt_ok valid now rq s =
    ((case res of Inl e \<Rightarrow> Failure e | Inr img \<Rightarrow> Success data img),
     \<lparr>svc_generator = g', svc_uuid = k'\<rparr>)"
  using assms by (cases res) (simp_all add: generate_mindmap_def Let_def)

lemma generate_mindmap_generator:
  "svc_generator (snd (generate_mindmap bb tt_ok valid now rq s)) =
     (case resolve_colors (svc_generator s) (get_or (rq_theme rq) (u ''default'')) (rq_style rq) of
        None \<Rightarrow> svc_generator s | Some (colors, g') \<Rightarrow> g')"
proof -
  obtain data k' where d: "generate_mind_map_data (get_or (rq_title rq) default_title) (get_or (rq_description rq) [])
       (get_or (rq_content rq) []) (get_or (rq_theme rq) (u ''default''))
       (get_or (rq_layout rq) (u ''radial'')) now (svc_uuid s) = (data, k')" by fastforce
  obtain res g' where c: "create_mind_map_image bb tt_ok valid (svc_generator s) data (rq_style rq) = (res, g')"
    by fastforce
  have "md_theme data = get_or (rq_theme rq) (u ''default'')"
    using generate_data_fields [OF d] by simp
  then show ?thesis
    using generate_mindmap_eq [OF d c] create_image_state [of bb tt_ok valid "svc_generator s" data "rq_style rq"] c
    by simp
qed

text \<open>The self-test's outline comes out as twelve roots: its hierarchy is lost.\<close>

lemma selftest_flat:
  "length (fst (parse_content (the (rq_content selftest_request)) k)) = 12 \<and>
   list_all (\<lambda>n. node_level n = 0 \<and> node_children n = []) (fst (parse_content (the (rq_content selftest_request)) k))"
  by (simp add: selftest_request_def parse_content_def parse_lines_eq clean_lines_def py_strip_def
      py_isspace_def strip_bullet_def)

text \<open>C1: every successful response's image holds exactly four drawing calls: the title,
  the description, one circle and its label. Whatever the outline, no edge and no second
  node is drawn; the spec's example expects three circles and three edges.\<close>

theorem generate_draws_only_center:
  assumes "generate_mindmap bb tt_ok valid now rq s = (Success data img, s')"
  shows "length (img_cmds img) = 4 \<and> length (filter is_ellipse (img_cmds img)) = 1 \<and>
    \<not> list_ex is_line (img_cmds img)"
proof -
  let ?gd = "generate_mind_map_data (get_or (rq_title rq) default_title) (get_or (rq_description rq) [])
       (get_or (rq_content rq) []) (get_or (rq_theme rq) (u ''default''))
       (get_or (rq_layout rq) (u ''radial'')) now (svc_uuid s)"
  obtain d k' where d: "?gd = (d, k')" by (cases ?gd) auto
  obtain res g' where c: "create_mind_map_image bb tt_ok valid (svc_generator s) d (rq_style rq) = (res, g')"
    by (cases "create_mind_map_image bb tt_ok valid (svc_generator s) d (rq_style rq)") auto
  from assms generate_mindmap_eq [OF d c] have "res = Inr img" "d = data"
    by (auto split: sum.splits)
  moreover obtain nd where "md_nodes d = [nd]"
    using generate_data_fields [OF d] by blast
  ultimately obtain colors fl fm fs where cmds: "img_cmds img =
         [DrawText ((1200 - text_width bb fl (md_title data)) div 2, 30) (md_title data)
            (colors (u ''text'')) fl,
          DrawText ((1200 - text_width bb fs (md_description data)) div 2, 80)
            (md_description data) (colors (u ''text'')) fs] @
         draw_node bb 600 200 (node_text nd) (colors (u ''node'')) (colors (u ''text'')) fm True"
    using create_image_cases c draw_nodes_single by metis
  obtain e t where "draw_node bb 600 200 (node_text nd) (colors (u ''node'')) (colors (u ''text'')) fm True = [e, t]"
    "is_ellipse e" "is_text t" using draw_node_shape by blast
  with cmds show ?thesis by (cases e; cases t) auto
qed

theorem generate_draws_only_center_witness:
  "\<exists>data img s'.
     generate_mindmap (\<lambda>f t. (0, 0, 0, 0)) (\<lambda>p n. False) (\<lambda>v. True) []
       \<lparr>rq_title = Some (u ''Root''), rq_description = Some [],
        rq_content = Some (u ''Topic'' @ [10] @ u ''  Sub1'' @ [10] @ u ''  Sub2''),
        rq_theme = Some (u ''default''), rq_layout = Some (u ''tree''), rq_style = []\<rparr>
       (init_service (\<lambda>p. False)) = (Success data img, s') \<and>
     length (img_cmds img) = 4 \<and> length (filter is_ellipse (img_cmds img)) = 1 \<and>
     \<not> list_ex is_line (img_cmds img)"
proof -
  let ?rq = "\<lparr>rq_title = Some (u ''Root''), rq_description = Some [],
        rq_content = Some (u ''Topic'' @ [10] @ u ''  Sub1'' @ [10] @ u ''  Sub2''),
        rq_theme = Some (u ''default''), rq_layout = Some (u ''tree''), rq_style = []\<rparr>"
  let ?s = "init_service (\<lambda>p. False)"
  let ?run = "generate_mindmap (\<lambda>f t. (0, 0, 0, 0)) (\<lambda>p n. False) (\<lambda>v. True) [] ?rq ?s"
  have wf: "wf_generator (svc_generator ?s)" by (simp add: init_service_def init_generator_wf)
  let ?gd = "generate_mind_map_data (get_or (rq_title ?rq) default_title) (get_or (rq_description ?rq) [])
       (get_or (rq_content ?rq) []) (get_or (rq_theme ?rq) (u ''default''))
       (get_or (rq_layout ?rq) (u ''radial'')) [] (svc_uuid ?s)"
  obtain d k' where d: "?gd = (d, k')" by (cases ?gd) auto
  let ?c = "create_mind_map_image (\<lambda>f t. (0, 0, 0, 0)) (\<lambda>p n. False) (\<lambda>v. True) (svc_generator ?s) d
       (rq_style ?rq)"
  obtain res g' where c: "?c = (res, g')" by (cases ?c) auto
  have "res \<noteq> Inl e" for e
  proof
    assume "res = Inl e"
    with c have "e = KeyError" by (auto dest: create_image_all_valid)
    with c \<open>res = Inl e\<close> create_image_no_KeyError [OF wf, of "\<lambda>f t. (0, 0, 0, 0)" "\<lambda>p n. False" "\<lambda>v. True" d "rq_style ?rq"]
    show False by simp
  qed
  then obtain img where "res = Inr img" by (cases res) auto
  then have run: "?run = (Success d img, \<lparr>svc_generator = g', svc_uuid = k'\<rparr>)"
    using generate_mindmap_eq [OF d c] by simp
  show ?thesis using run generate_draws_only_center [OF run] by blast
qed

text \<open>C23: rendering is idempotent: the same request served twice in a row, the second
  time from the state the first left (palette table updated, identifiers advanced) and at
  another time, renders the same image or fails with the same error.\<close>

theorem generate_mindmap_idempotent:
  assumes "generate_mindmap bb tt_ok valid now rq s = (r1, s1)"
    and "generate_mindmap bb tt_ok valid now' rq s1 = (r2, s2)"
  shows "rendered r1 = rendered r2"
proof -
  let ?gd = "\<lambda>now k. generate_mind_map_data (get_or (rq_title rq) default_title)
       (get_or (rq_description rq) []) (get_or (rq_content rq) []) (get_or (rq_theme rq) (u ''default''))
       (get_or (rq_layout rq) (u ''radial'')) now k"
  obtain d1 k1 where d1: "?gd now (svc_uuid s) = (d1, k1)" by (cases "?gd now (svc_uuid s)") auto
  obtain d2 k2 where d2: "?gd now' (svc_uuid s1) = (d2, k2)" by (cases "?gd now' (svc_uuid s1)") auto
  obtain res1 g1 where c1: "create_mind_map_image bb tt_ok valid (svc_generator s) d1 (rq_style rq) = (res1, g1)"
    by (cases "create_mind_map_image bb tt_ok valid (svc_generator s) d1 (rq_style rq)") auto
  have s1: "svc_generator s1 = g1" and r1: "r1 = (case res1 of Inl e \<Rightarrow> Failure e | Inr img \<Rightarrow> Success d1 img)"
    using assms(1) generate_mindmap_eq [OF d1 c1] by auto
  have n: "map erase_ids (md_nodes d2) = map erase_ids (md_nodes d1)"
    using generate_data_fields [OF d1] generate_data_fields [OF d2] parse_content_erase by auto
  have f: "md_title d2 = md_title d1" "md_description d2 = md_description d1" "md_theme d2 = md_theme d1"
    "md_layout d2 = md_layout d1"
    using generate_data_fields [OF d1] generate_data_fields [OF d2] by auto
  have c2: "create_mind_map_image bb tt_ok valid (svc_generator s1) d2 (rq_style rq) = (res1, g1)"
    using create_image_replay [OF c1 n f disjI1 [OF refl]] s1 by simp
  have "r2 = (case res1 of Inl e \<Rightarrow> Failure e | Inr img \<Rightarrow> Success d2 img)"
    using assms(2) generate_mindmap_eq [OF d2 c2] by auto
  with r1 show ?thesis by (cases res1) auto
qed

theorem generate_mindmap_idempotent_witness:
  "\<exists>r1 s1 r2 s2.
     generate_mindmap (\<lambda>f t. (0, 0, 0, 0)) (\<lambda>p n. False) (\<lambda>v. True) []
       \<lparr>rq_title = Some (u ''Root''), rq_description = Some [], rq_content = Some (u ''Topic''),
        rq_theme = Some (u ''creative''), rq_layout = None, rq_style = [(u ''node'', u ''red'')]\<rparr>
       (init_service (\<lambda>p. False)) = (r1, s1) \<and>
     generate_mindmap (\<lambda>f t. (0, 0, 0, 0)) (\<lambda>p n. False) (\<lambda>v. True) [1]
       \<lparr>rq_title = Some (u ''Root''), rq_description = Some [], rq_content = Some (u ''Topic''),
        rq_theme = Some (u ''creative''), rq_layout = None, rq_style = [(u ''node'', u ''red'')]\<rparr>
       s1 = (r2, s2) \<and>
     rendered r1 = rendered r2"
proof -
  let ?rq = "\<lparr>rq_title = Some (u ''Root''), rq_description = Some [], rq_content = Some (u ''Topic''),
        rq_theme = Some (u ''creative''), rq_layout = None, rq_style = [(u ''node'', u ''red'')]\<rparr>"
  let ?g = "generate_mindmap (\<lambda>f t. (0, 0, 0, 0)) (\<lambda>p n. False) (\<lambda>v. True)"
  obtain r1 s1 where a: "?g [] ?rq (init_service (\<lambda>p. False)) = (r1, s1)"
    by (cases "?g [] ?rq (init_service (\<lambda>p. False))") auto
  obtain r2 s2 where b: "?g [1] ?rq s1 = (r2, s2)" by (cases "?g [1] ?rq s1") auto
  show ?thesis using a b generate_mindmap_idempotent [OF a b] by blast
qed

text \<open>C7: one request whose style sets a background colour PIL rejects fails, and it
  leaves the colour in the shared palette table: from then on every request for that theme
  without a style fails with the same error, until the process restarts.\<close>

theorem bad_background_persists:
  assumes wf: "wf_generator (svc_generator s)"
    and st: "rq_style rq = [(u ''background'', v)]" and bad: "\<not> valid v"
    and run: "generate_mindmap bb tt_ok valid now rq s = (r, s1)"
    and th: "rq_theme rq2 = rq_theme rq" and st2: "rq_style rq2 = []"
  shows "r = Failure (ValueError v) \<and>
    fst (generate_mindmap bb tt_ok valid now2 rq2 s1) = Failure (ValueError v)"
proof -
  let ?th = "get_or (rq_theme rq) (u ''default'')"
  obtain colors g' where res: "resolve_colors (svc_generator s) ?th (rq_style rq) = Some (colors, g')"
    using resolve_colors_total [OF wf] by blast
  obtain d0 where d0: "default_colors (svc_generator s) (u ''default'') = Some d0"
    using wf_generator_default [OF wf] by blast
  have bg: "colors (u ''background'') = Some v"
    using res d0 st by (auto simp: resolve_colors_eq dict_update_eq Let_def)
  let ?gd = "\<lambda>rq now k. generate_mind_map_data (get_or (rq_title rq) default_title)
       (get_or (rq_description rq) []) (get_or (rq_content rq) []) (get_or (rq_theme rq) (u ''default''))
       (get_or (rq_layout rq) (u ''radial'')) now k"
  obtain d1 k1 where d1: "?gd rq now (svc_uuid s) = (d1, k1)" by (cases "?gd rq now (svc_uuid s)") auto
  have t1: "md_theme d1 = ?th" using generate_data_fields [OF d1] by simp
  have c1: "create_mind_map_image bb tt_ok valid (svc_generator s) d1 (rq_style rq) = (Inl (ValueError v), g')"
    using create_image_bad_background [of "svc_generator s" d1 "rq_style rq" colors g'] res t1 bg bad
    by simp
  have r: "r = Failure (ValueError v)" and s1: "svc_generator s1 = g'"
    using run generate_mindmap_eq [OF d1 c1] by auto
  obtain d2 k2 where d2: "?gd rq2 now2 (svc_uuid s1) = (d2, k2)" by (cases "?gd rq2 now2 (svc_uuid s1)") auto
  have t2: "md_theme d2 = ?th" using generate_data_fields [OF d2] th by simp
  have res2: "resolve_colors g' (md_theme d2) (rq_style rq2) = Some (colors, g')"
    using resolve_colors_replay [OF res] t2 st2 by simp
  have c2: "create_mind_map_image bb tt_ok valid (svc_generator s1) d2 (rq_style rq2) = (Inl (ValueError v), g')"
    using create_image_bad_background [where d = d2 and style = "rq_style rq2" and valid = valid and v = v,
        OF res2 bg bad] s1 by simp
  show ?thesis using r generate_mindmap_eq [OF d2 c2] by simp
qed

theorem bad_background_persists_witness:
  "\<exists>r s1.
     wf_generator (svc_generator (init_service (\<lambda>p. False))) \<and>
     \<not> (\<lambda>v. v \<noteq> u ''nocolor'') (u ''nocolor'') \<and>
     generate_mindmap (\<lambda>f t. (0, 0, 0, 0)) (\<lambda>p n. False) (\<lambda>v. v \<noteq> u ''nocolor'') []
       \<lparr>rq_title = Some (u ''Root''), rq_description = None, rq_content = Some (u ''Topic''),
        rq_theme = None, rq_layout = None, rq_style = [(u ''background'', u ''nocolor'')]\<rparr>
       (init_service (\<lambda>p. False)) = (r, s1) \<and>
     r = Failure (ValueError (u ''nocolor'')) \<and>
     fst (generate_mindmap (\<lambda>f t. (0, 0, 0, 0)) (\<lambda>p n. False) (\<lambda>v. v \<noteq> u ''nocolor'') []
       \<lparr>rq_title = Some (u ''Other''), rq_description = None, rq_content = Some (u ''Another''),
        rq_theme = None, rq_layout = None, rq_style = []\<rparr> s1) = Failure (ValueError (u ''nocolor''))"
proof -
  let ?rq = "\<lparr>rq_title = Some (u ''Root''), rq_description = None, rq_content = Some (u ''Topic''),
        rq_theme = None, rq_layout = None, rq_style = [(u ''background'', u ''nocolor'')]\<rparr>"
  let ?rq2 = "\<lparr>rq_title = Some (u ''Other''), rq_description = None, rq_content = Some (u ''Another''),
        rq_theme = None, rq_layout = None, rq_style = []\<rparr>"
  let ?s = "init_service (\<lambda>p. False)"
  let ?valid = "\<lambda>v. v \<noteq> u ''nocolor''"
  let ?g = "generate_mindmap (\<lambda>f t. (0, 0, 0, 0)) (\<lambda>p n. False) ?valid []"
  have wf: "wf_generator (svc_generator ?s)" by (simp add: init_service_def init_generator_wf)
  have bad: "\<not> ?valid (u ''nocolor'')" by simp
  obtain r s1 where run: "?g ?rq ?s = (r, s1)" by (cases "?g ?rq ?s") auto
  have th: "rq_theme ?rq2 = rq_theme ?rq" and st: "rq_style ?rq = [(u ''background'', u ''nocolor'')]"
    and st2: "rq_style ?rq2 = []" by simp_all
  have "r = Failure (ValueError (u ''nocolor'')) \<and> fst (?g ?rq2 s1) = Failure (ValueError (u ''nocolor''))"
    using bad_background_persists [OF wf st bad run th st2] .
  with wf bad run show ?thesis by blast
qed

subsection \<open>Download\<close>

lemma download_mindmap_state: "snd (download_mindmap bb tt_ok valid pl s) = s"
proof -
  have "snd (create_mind_map_image bb tt_ok valid (svc_generator s) d []) = svc_generator s" for d
    by (auto simp: create_image_state resolve_colors_def split: option.split)
  then show ?thesis
    by (cases "pl_title pl"; cases "pl_description pl"; cases "pl_nodes pl")
      (simp_all add: download_mindmap_def Let_def case_prod_unfold)
qed

text \<open>C10: posting back the \<open>data\<close> of a successful response to the download renders the
  very image the response carried, from the state the generation left: the data object
  holds every field the renderer reads, and the style of the request is already in the
  shared palette table.\<close>

theorem download_reproduces_generate:
  assumes "generate_mindmap bb tt_ok valid now rq s = (Success data img, s')"
  shows "download_mindmap bb tt_ok valid (payload_of (data_json data)) s' = (Inr img, s')"
proof -
  let ?gd = "generate_mind_map_data (get_or (rq_title rq) default_title) (get_or (rq_description rq) [])
       (get_or (rq_content rq) []) (get_or (rq_theme rq) (u ''default''))
       (get_or (rq_layout rq) (u ''radial'')) now (svc_uuid s)"
  obtain d k' where d: "?gd = (d, k')" by (cases ?gd) auto
  obtain res g' where c: "create_mind_map_image bb tt_ok valid (svc_generator s) d (rq_style rq) = (res, g')"
    by (cases "create_mind_map_image bb tt_ok valid (svc_generator s) d (rq_style rq)") auto
  from assms generate_mindmap_eq [OF d c] have "res = Inr img" "d = data"
    and s': "s' = \<lparr>svc_generator = g', svc_uuid = k'\<rparr>"
    by (auto split: sum.splits)
  then have c: "create_mind_map_image bb tt_ok valid (svc_generator s) data (rq_style rq) = (Inr img, g')"
    using c by simp
  let ?d' = "\<lparr>md_title = md_title data, md_description = md_description data, md_nodes = md_nodes data,
     md_theme = md_theme data, md_layout = md_layout data, md_generated_at = [], md_node_count = 0\<rparr>"
  have "create_mind_map_image bb tt_ok valid g' ?d' [] = (Inr img, g')"
    by (rule create_image_replay [OF c]) simp_all
  then show ?thesis using s'
    by (simp add: download_mindmap_def payload_of_def data_json_def u_def Let_def get_or_def)
qed

theorem download_reproduces_generate_witness:
  "\<exists>data img s'.
     generate_mindmap (\<lambda>f t. (0, 0, 0, 0)) (\<lambda>p n. False) (\<lambda>v. True) []
       \<lparr>rq_title = Some (u ''Root''), rq_description = None, rq_content = Some (u ''Topic''),
        rq_theme = Some (u ''nova''), rq_layout = None, rq_style = [(u ''node'', u ''red'')]\<rparr>
       (init_service (\<lambda>p. False)) = (Success data img, s') \<and>
     download_mindmap (\<lambda>f t. (0, 0, 0, 0)) (\<lambda>p n. False) (\<lambda>v. True) (payload_of (data_json data)) s' =
       (Inr img, s')"
proof -
  let ?rq = "\<lparr>rq_title = Some (u ''Root''), rq_description = None, rq_content = Some (u ''Topic''),
        rq_theme = Some (u ''nova''), rq_layout = None, rq_style = [(u ''node'', u ''red'')]\<rparr>"
  let ?s = "init_service (\<lambda>p. False)"
  let ?run = "generate_mindmap (\<lambda>f t. (0, 0, 0, 0)) (\<lambda>p n. False) (\<lambda>v. True) [] ?rq ?s"
  have wf: "wf_generator (svc_generator ?s)" by (simp add: init_service_def init_generator_wf)
  let ?gd = "generate_mind_map_data (get_or (rq_title ?rq) default_title) (get_or (rq_description ?rq) [])
       (get_or (rq_content ?rq) []) (get_or (rq_theme ?rq) (u ''default''))
       (get_or (rq_layout ?rq) (u ''radial'')) [] (svc_uuid ?s)"
  obtain d k' where d: "?gd = (d, k')" by (cases ?gd) auto
  let ?c = "create_mind_map_image (\<lambda>f t. (0, 0, 0, 0)) (\<lambda>p n. False) (\<lambda>v. True) (svc_generator ?s) d
       (rq_style ?rq)"
  obtain res g' where c: "?c = (res, g')" by (cases ?c) auto
  have "res \<noteq> Inl e" for e
  proof
    assume "res = Inl e"
    with c have "e = KeyError" by (auto dest: create_image_all_valid)
    with c \<open>res = Inl e\<close> create_image_no_KeyError [OF wf, of "\<lambda>f t. (0, 0, 0, 0)" "\<lambda>p n. False" "\<lambda>v. True" d "rq_style ?rq"]
    show False by simp
  qed
  then obtain img where "res = Inr img" by (cases res) auto
  then have run: "?run = (Success d img, \<lparr>svc_generator = g', svc_uuid = k'\<rparr>)"
    using generate_mindmap_eq [OF d c] by simp
  show ?thesis using run download_reproduces_generate [OF run] by blast
qed

end
