(* ===== verification/Api.thy ===== *)
theory Api
  imports Service
begin

text \<open>
  The Flask front end, \<open>app.py\<close>, and the client \<open>debug_api.py\<close>. A handler returns
  its status code and either the object it passes to \<open>jsonify\<close> or the image it
  passes to \<open>send_file\<close> (\<open>reply\<close>), with the new service state. The themes, layouts
  and health routes and the 404 handler read no state. A run of the server is any
  sequence of route calls (\<open>event\<close>); \<open>reachable\<close> is the set of states such runs
  reach from start-up. The debug script's requests are the handlers called with its
  test data; a network failure of \<open>requests\<close> is not modelled.
\<close>

datatype reply = JsonReply "(ustr \<times> json) list" | FileReply image

text \<open>\<open>if not data.get(field)\<close>: absent or empty.\<close>

definition truthy :: "ustr option \<Rightarrow> bool" where
  "truthy v = (case v of None \<Rightarrow> False | Some x \<Rightarrow> x \<noteq> [])"

text \<open>Python's truth value of a JSON value: empty strings, lists and zero are false.\<close>

fun truthy_json :: "json option \<Rightarrow> bool" where
  "truthy_json None = False"
| "truthy_json (Some (JBool b)) = b"
| "truthy_json (Some (JStr s)) = (s \<noteq> [])"
| "truthy_json (Some (JNat n)) = (n \<noteq> 0)"
| "truthy_json (Some (JNodes ns)) = (ns \<noteq> [])"
| "truthy_json (Some (JEntries es)) = (es \<noteq> [])"
| "truthy_json (Some (JErr e)) = True"
| "truthy_json (Some (JData d)) = True"
| "truthy_json (Some (JImage i)) = True"

definition missing_field_json :: "ustr \<Rightarrow> (ustr \<times> json) list" where
  "missing_field_json field =
     [(u ''success'', JBool False), (u ''error'', JStr (([32570, 23569, 24517, 35201, 23383, 27573] @ u '': '') @ field)),
      (u ''message'', JStr [35831, 25552, 20379, 23436, 25972, 30340, 24605, 32500, 23548, 22270, 20449, 24687])]"

definition api_generate ::
  "metrics \<Rightarrow> (ustr \<Rightarrow> nat \<Rightarrow> bool) \<Rightarrow> (ustr \<Rightarrow> bool) \<Rightarrow> ustr \<Rightarrow> request \<Rightarrow> service \<Rightarrow>
   (nat \<times> reply) \<times> service" where
  "api_generate bb tt_ok valid now rq s =
     (if \<not> truthy (rq_title rq) then ((400, JsonReply (missing_field_json (u ''title''))), s)
      else if \<not> truthy (rq_content rq) then ((400, JsonReply (missing_field_json (u ''content''))), s)
      else case generate_mindmap bb tt_ok valid now rq s of
             (Success data img, s') \<Rightarrow> ((200, JsonReply (service_json (Success data img))), s')
           | (Failure e, s') \<Rightarrow> ((500, JsonReply (service_json (Failure e))), s'))"

definition api_download ::
  "metrics \<Rightarrow> (ustr \<Rightarrow> nat \<Rightarrow> bool) \<Rightarrow> (ustr \<Rightarrow> bool) \<Rightarrow> (ustr \<times> json) list \<Rightarrow> service \<Rightarrow>
   (nat \<times> reply) \<times> service" where
  "api_download bb tt_ok valid obj s =
     (if \<not> truthy_json (map_of obj (u ''nodes'')) then
        ((400, JsonReply [(u ''success'', JBool False), (u ''error'', JStr [32570, 23569, 24605, 32500, 23548, 22270, 25968, 25454]),
                          (u ''message'', JStr [35831, 25552, 20379, 23436, 25972, 30340, 24605, 32500, 23548, 22270, 25968, 25454])]), s)
      else case download_mindmap bb tt_ok valid (payload_of obj) s of
             (Inr img, s') \<Rightarrow> ((200, FileReply img), s')
           | (Inl e, s') \<Rightarrow>
               ((500, JsonReply [(u ''success'', JBool False), (u ''error'', JErr e),
                                 (u ''message'', JStr [19979, 36733, 22833, 36133])]), s'))"

definition api_preview ::
  "metrics \<Rightarrow> (ustr \<Rightarrow> nat \<Rightarrow> bool) \<Rightarrow> (ustr \<Rightarrow> bool) \<Rightarrow> ustr \<Rightarrow> request \<Rightarrow> service \<Rightarrow>
   (nat \<times> reply) \<times> service" where
  "api_preview bb tt_ok valid now rq s =
     (if \<not> truthy (rq_title rq) then ((400, JsonReply (missing_field_json (u ''title''))), s)
      else if \<not> truthy (rq_content rq) then ((400, JsonReply (missing_field_json (u ''content''))), s)
      else case generate_mindmap bb tt_ok valid now rq s of
             (Success data img, s') \<Rightarrow>
               ((200, JsonReply [(u ''success'', JBool True), (u ''image_base64'', JImage img),
                                 (u ''message'', JStr [39044, 35272, 29983, 25104, 25104, 21151])]), s')
           | (Failure e, s') \<Rightarrow> ((500, JsonReply (service_json (Failure e))), s'))"

definition theme_entries :: "(ustr \<times> ustr \<times> ustr) list" where
  "theme_entries =
     [(u ''default'', [40664, 35748, 20027, 39064], [32463, 20856, 34013, 30333, 37197, 33394]),
      (u ''business'', [21830, 21153, 20027, 39064], [19987, 19994, 32511, 33394, 37197, 33394]),
      (u ''creative'', [21019, 24847, 20027, 39064], [32043, 33394, 21019, 24847, 37197, 33394]),
      (u ''education'', [25945, 32946, 20027, 39064], [27225, 33394, 27963, 21147, 37197, 33394]),
      (u ''technology'', [31185, 25216, 20027, 39064], [38738, 33394, 31185, 25216, 37197, 33394])]"

definition api_themes :: "nat \<times> reply" where
  "api_themes =
     (200, JsonReply [(u ''success'', JBool True), (u ''data'', JEntries theme_entries),
                      (u ''message'', JStr [33719, 21462, 20027, 39064, 21015, 34920, 25104, 21151])])"

definition layout_entries :: "(ustr \<times> ustr \<times> ustr) list" where
  "layout_entries =
     [(u ''radial'', [25918, 23556, 29366, 24067, 23616], [20174, 20013, 24515, 21521, 22806, 21457, 25955]),
      (u ''tree'', [26641, 29366, 24067, 23616], [33258, 19978, 32780, 19979, 30340, 23618, 27425, 32467, 26500]),
      (u ''horizontal'', [27700, 24179, 24067, 23616], [20174, 24038, 21040, 21491, 30340, 25490, 21015]),
      (u ''vertical'', [22402, 30452, 24067, 23616], [20174, 19978, 21040, 19979, 30340, 25490, 21015])]"

definition api_layouts :: "nat \<times> reply" where
  "api_layouts =
     (200, JsonReply [(u ''success'', JBool True), (u ''data'', JEntries layout_entries),
                      (u ''message'', JStr [33719, 21462, 24067, 23616, 21015, 34920, 25104, 21151])])"

definition api_health :: "ustr \<Rightarrow> nat \<times> reply" where
  "api_health now =
     (200, JsonReply [(u ''success'', JBool True), (u ''message'', JStr [24605, 32500, 23548, 22270, 26381, 21153, 36816, 34892, 27491, 24120]),
                      (u ''timestamp'', JStr now), (u ''version'', JStr (u ''1.0.0''))])"

definition not_found :: "nat \<times> reply" where
  "not_found =
     (404, JsonReply [(u ''success'', JBool False), (u ''error'', JStr [25509, 21475, 19981, 23384, 22312]),
                      (u ''message'', JStr [35831, 27714, 30340, 25509, 21475, 26410, 25214, 21040])])"

definition internal_error :: "nat \<times> reply" where
  "internal_error =
     (500, JsonReply [(u ''success'', JBool False), (u ''error'', JStr [26381, 21153, 22120, 20869, 37096, 38169, 35823]),
                      (u ''message'', JStr [26381, 21153, 22120, 22788, 29702, 35831, 27714, 26102, 21457, 29983, 38169, 35823])])"

subsection \<open>Runs of the server\<close>

datatype event =
    GenerateReq request ustr
  | PreviewReq request ustr
  | DownloadReq "(ustr \<times> json) list"
  | ThemesReq
  | LayoutsReq
  | HealthReq ustr
  | UnknownRoute

fun api_step ::
  "metrics \<Rightarrow> (ustr \<Rightarrow> nat \<Rightarrow> bool) \<Rightarrow> (ustr \<Rightarrow> bool) \<Rightarrow> event \<Rightarrow> service \<Rightarrow>
   (nat \<times> reply) \<times> service" where
  "api_step bb tt_ok valid (GenerateReq rq now) s = api_generate bb tt_ok valid now rq s"
| "api_step bb tt_ok valid (PreviewReq rq now) s = api_preview bb tt_ok valid now rq s"
| "api_step bb tt_ok valid (DownloadReq obj) s = api_download bb tt_ok valid obj s"
| "api_step bb tt_ok valid ThemesReq s = (api_themes, s)"
| "api_step bb tt_ok valid LayoutsReq s = (api_layouts, s)"
| "api_step bb tt_ok valid (HealthReq now) s = (api_health now, s)"
| "api_step bb tt_ok valid UnknownRoute s = (not_found, s)"

inductive reachable ::
  "metrics \<Rightarrow> (ustr \<Rightarrow> nat \<Rightarrow> bool) \<Rightarrow> (ustr \<Rightarrow> bool) \<Rightarrow> (ustr \<Rightarrow> bool) \<Rightarrow> service \<Rightarrow> bool"
  for bb tt_ok valid exists
where
  start: "reachable bb tt_ok valid exists (init_service exists)"
| step: "reachable bb tt_ok valid exists s \<Longrightarrow>
         reachable bb tt_ok valid exists (snd (api_step bb tt_ok valid ev s))"

text \<open>
  A run of the server from a state: the routes called one after another. \<open>app.run\<close>
  is started with \<open>threaded=True\<close>; the model serves requests one at a time.
\<close>

fun api_run ::
  "metrics \<Rightarrow> (ustr \<Rightarrow> nat \<Rightarrow> bool) \<Rightarrow> (ustr \<Rightarrow> bool) \<Rightarrow> event list \<Rightarrow> service \<Rightarrow> service" where
  "api_run bb tt_ok valid [] s = s"
| "api_run bb tt_ok valid (ev # evs) s = api_run bb tt_ok valid evs (snd (api_step bb tt_ok valid ev s))"

subsection \<open>The contract of the palette table\<close>

text \<open>
  The abstract machine of the shared palette table: rendering, fonts, node ids and
  colour validity play no part in it. A request that passes validation and carries a
  style merges the style into the palette of its theme, or of \<open>default\<close> when the
  table has no such theme; every other request leaves the table alone.
\<close>

type_synonym palette_table = "ustr \<rightharpoonup> palette"

definition style_merge :: "palette_table \<Rightarrow> ustr \<Rightarrow> style \<Rightarrow> palette_table" where
  "style_merge tbl theme style =
     (let key = (if theme \<in> dom tbl then theme else u ''default'')
      in if style = [] then tbl
         else case tbl key of None \<Rightarrow> tbl | Some p \<Rightarrow> tbl(key \<mapsto> dict_update p style))"

fun palette_step :: "event \<Rightarrow> palette_table \<Rightarrow> palette_table" where
  "palette_step (GenerateReq rq now) tbl =
     (if truthy (rq_title rq) \<and> truthy (rq_content rq)
      then style_merge tbl (get_or (rq_theme rq) (u ''default'')) (rq_style rq) else tbl)"
| "palette_step (PreviewReq rq now) tbl =
     (if truthy (rq_title rq) \<and> truthy (rq_content rq)
      then style_merge tbl (get_or (rq_theme rq) (u ''default'')) (rq_style rq) else tbl)"
| "palette_step (DownloadReq obj) tbl = tbl"
| "palette_step ThemesReq tbl = tbl"
| "palette_step LayoutsReq tbl = tbl"
| "palette_step (HealthReq now) tbl = tbl"
| "palette_step UnknownRoute tbl = tbl"

subsection \<open>The debug client\<close>

definition debug_request :: request where
  "debug_request =
     \<lparr>rq_title = Some [27979, 35797, 24605, 32500, 23548, 22270], rq_description = Some [36825, 26159, 19968, 20010, 27979, 35797],
      rq_content = Some ([20013, 24515, 20027, 39064] @ [10] @ (u ''  '' @ [23376, 20027, 39064] @ u ''1'') @ [10] @ (u ''  '' @ [23376, 20027, 39064] @ u ''2'')),
      rq_theme = Some (u ''default''), rq_layout = Some (u ''radial''), rq_style = []\<rparr>"

fun reply_json :: "reply \<Rightarrow> (ustr \<times> json) list option" where
  "reply_json (JsonReply obj) = Some obj"
| "reply_json (FileReply img) = None"

definition test_health_check :: "ustr \<Rightarrow> service \<Rightarrow> bool \<times> service" where
  "test_health_check now s = (fst (api_health now) = 200, s)"

definition test_generate_api ::
  "metrics \<Rightarrow> (ustr \<Rightarrow> nat \<Rightarrow> bool) \<Rightarrow> (ustr \<Rightarrow> bool) \<Rightarrow> ustr \<Rightarrow> service \<Rightarrow>
   (ustr \<times> json) list option \<times> service" where
  "test_generate_api bb tt_ok valid now s =
     (case api_generate bb tt_ok valid now debug_request s of
        ((status, r), s') \<Rightarrow> (if status = 200 then reply_json r else None, s'))"

definition test_download_api ::
  "metrics \<Rightarrow> (ustr \<Rightarrow> nat \<Rightarrow> bool) \<Rightarrow> (ustr \<Rightarrow> bool) \<Rightarrow> (ustr \<times> json) list option \<Rightarrow> service \<Rightarrow>
   bool \<times> service" where
  "test_download_api bb tt_ok valid mindmap_data s =
     (case mindmap_data of
        None \<Rightarrow> (False, s)
      | Some obj \<Rightarrow>
          if obj = [] then (False, s)
          else case api_download bb tt_ok valid obj s of ((status, r), s') \<Rightarrow> (status = 200, s'))"

text \<open>\<open>main\<close>: the outcome of the three tests, \<open>None\<close> for a test not run.\<close>

definition debug_main ::
  "metrics \<Rightarrow> (ustr \<Rightarrow> nat \<Rightarrow> bool) \<Rightarrow> (ustr \<Rightarrow> bool) \<Rightarrow> ustr \<Rightarrow> service \<Rightarrow>
   (bool \<times> (ustr \<times> json) list option \<times> bool option) \<times> service" where
  "debug_main bb tt_ok valid now s =
     (case test_health_check now s of
        (False, s1) \<Rightarrow> ((False, None, None), s1)
      | (True, s1) \<Rightarrow>
          (case test_generate_api bb tt_ok valid now s1 of
             (mindmap_data, s2) \<Rightarrow>
               if mindmap_data = None \<or> mindmap_data = Some [] then ((True, mindmap_data, None), s2)
               else case test_download_api bb tt_ok valid mindmap_data s2 of
                      (ok, s3) \<Rightarrow> ((True, mindmap_data, Some ok), s3)))"

subsection \<open>Runs of the server\<close>

lemma api_step_wf:
  assumes "wf_generator (svc_generator s)"
  shows "wf_generator (svc_generator (snd (api_step bb tt_ok valid ev s)))"
proof -
  have gen: "wf_generator (svc_generator s')"
    if "generate_mindmap bb tt_ok valid now rq s = (r, s')" for now rq r s'
    using that create_image_wf [OF assms]
    by (auto simp: generate_mindmap_def Let_def split: prod.splits sum.splits)
  have dl: "svc_generator s' = svc_generator s"
    if "download_mindmap bb tt_ok valid pl s = (r, s')" for pl r s'
    using that download_mindmap_state [of bb tt_ok valid pl s] by simp
  show ?thesis
  proof (cases ev)
    case (GenerateReq rq now)
    with assms show ?thesis
      by (auto simp: api_generate_def split: prod.splits response.splits dest: gen)
  next
    case (PreviewReq rq now)
    with assms show ?thesis
      by (auto simp: api_preview_def split: prod.splits response.splits dest: gen)
  next
    case (DownloadReq obj)
    with assms show ?thesis
      by (auto simp: api_download_def split: prod.splits sum.splits dest: dl)
  qed (simp_all add: assms)
qed

lemma resolve_colors_table:
  assumes "default_colors g (u ''default'') \<noteq> None"
  shows "default_colors (case resolve_colors g theme style of None \<Rightarrow> g | Some (colors, g') \<Rightarrow> g') =
    style_merge (default_colors g) theme style"
  using assms by (auto simp: resolve_colors_eq style_merge_def theme_key_def Let_def domIff)

lemma api_step_refines:
  assumes "wf_generator (svc_generator s)"
  shows "default_colors (svc_generator (snd (api_step bb tt_ok valid ev s))) =
    palette_step ev (default_colors (svc_generator s))"
proof -
  have d: "default_colors (svc_generator s) (u ''default'') \<noteq> None"
    using assms by (auto simp: wf_generator_def theme_names_def)
  have gen: "default_colors (svc_generator (snd (generate_mindmap bb tt_ok valid now rq s))) =
      style_merge (default_colors (svc_generator s)) (get_or (rq_theme rq) (u ''default'')) (rq_style rq)" for now rq
    using resolve_colors_table [OF d] by (simp add: generate_mindmap_generator)
  show ?thesis
  proof (cases ev)
    case (GenerateReq rq now)
    then show ?thesis
      using gen [of now rq] by (auto simp: api_generate_def split: prod.split response.split)
  next
    case (PreviewReq rq now)
    then show ?thesis
      using gen [of now rq] by (auto simp: api_preview_def split: prod.split response.split)
  next
    case (DownloadReq obj)
    then show ?thesis
      using download_mindmap_state [of bb tt_ok valid "payload_of obj" s]
      by (cases "download_mindmap bb tt_ok valid (payload_of obj) s") (auto simp: api_download_def split: sum.split)
  qed simp_all
qed

lemma api_run_wf:
  "wf_generator (svc_generator s) \<Longrightarrow> wf_generator (svc_generator (api_run bb tt_ok valid evs s))"
  by (induction evs arbitrary: s) (simp_all add: api_step_wf)

lemma api_run_append:
  "api_run bb tt_ok valid (evs @ [ev]) s = snd (api_step bb tt_ok valid ev (api_run bb tt_ok valid evs s))"
  by (induction evs arbitrary: s) (simp_all only: api_run.simps append_Cons append_Nil)

lemma reachable_api_run:
  "reachable bb tt_ok valid exists s \<Longrightarrow> reachable bb tt_ok valid exists (api_run bb tt_ok valid evs s)"
proof (induction evs arbitrary: s)
  case (Cons ev evs)
  from reachable.step [OF Cons.prems, of ev] show ?case
    by (simp only: api_run.simps Cons.IH)
qed (simp only: api_run.simps)

text \<open>The reachable states are the states runs of \<open>api_run\<close> reach from start-up.\<close>

lemma reachable_run:
  "reachable bb tt_ok valid exists s \<longleftrightarrow> (\<exists>evs. s = api_run bb tt_ok valid evs (init_service exists))"
proof
  assume "reachable bb tt_ok valid exists s"
  then show "\<exists>evs. s = api_run bb tt_ok valid evs (init_service exists)"
  proof induction
    case start
    have "init_service exists = api_run bb tt_ok valid [] (init_service exists)"
      by (simp only: api_run.simps)
    then show ?case ..
  next
    case (step s ev)
    from step.IH obtain evs where e: "s = api_run bb tt_ok valid evs (init_service exists)" ..
    have "snd (api_step bb tt_ok valid ev s) = api_run bb tt_ok valid (evs @ [ev]) (init_service exists)"
      by (simp only: e api_run_append)
    then show ?case ..
  qed
next
  assume "\<exists>evs. s = api_run bb tt_ok valid evs (init_service exists)"
  then obtain evs where e: "s = api_run bb tt_ok valid evs (init_service exists)" ..
  show "reachable bb tt_ok valid exists s"
    unfolding e by (rule reachable_api_run [OF reachable.start])
qed

text \<open>C6: the service refines the abstract machine of its palette table.\<close>

theorem api_run_refines:
  "default_colors (svc_generator (api_run bb tt_ok valid evs (init_service exists))) =
     fold palette_step evs init_default_colors"
proof -
  have "wf_generator (svc_generator s) \<Longrightarrow>
      default_colors (svc_generator (api_run bb tt_ok valid evs s)) =
      fold palette_step evs (default_colors (svc_generator s))" for s
    by (induction evs arbitrary: s) (simp_all add: api_step_refines api_step_wf)
  moreover have "wf_generator (svc_generator (init_service exists))"
    by (simp add: init_service_def init_generator_wf)
  ultimately show ?thesis
    by (simp add: init_service_def init_generator_def)
qed

text \<open>C4: in every state a run of the server reaches, the palette table is well formed:
  all five themes present, each with its four colour keys. Rule induction over the
  reachable states, one step being any route of the application.\<close>

theorem reachable_wf:
  "reachable bb tt_ok valid exists s \<Longrightarrow> wf_generator (svc_generator s)"
proof (induction rule: reachable.induct)
  case start
  show ?case by (simp add: init_service_def init_generator_wf)
next
  case (step s ev)
  from step.IH show ?case by (rule api_step_wf)
qed

theorem reachable_wf_witness:
  "reachable (\<lambda>f t. (0, 0, 0, 0)) (\<lambda>p n. False) (\<lambda>v. True) (\<lambda>p. False)
     (snd (api_step (\<lambda>f t. (0, 0, 0, 0)) (\<lambda>p n. False) (\<lambda>v. True)
        (GenerateReq \<lparr>rq_title = Some (u ''T''), rq_description = None, rq_content = Some (u ''x''),
           rq_theme = Some (u ''neon''), rq_layout = None, rq_style = [(u ''line'', u ''red'')]\<rparr> [])
        (init_service (\<lambda>p. False)))) \<and>
   wf_generator (svc_generator (snd (api_step (\<lambda>f t. (0, 0, 0, 0)) (\<lambda>p n. False) (\<lambda>v. True)
        (GenerateReq \<lparr>rq_title = Some (u ''T''), rq_description = None, rq_content = Some (u ''x''),
           rq_theme = Some (u ''neon''), rq_layout = None, rq_style = [(u ''line'', u ''red'')]\<rparr> [])
        (init_service (\<lambda>p. False)))))"
proof -
  let ?ev = "GenerateReq \<lparr>rq_title = Some (u ''T''), rq_description = None, rq_content = Some (u ''x''),
           rq_theme = Some (u ''neon''), rq_layout = None, rq_style = [(u ''line'', u ''red'')]\<rparr> []"
  have r: "reachable (\<lambda>f t. (0, 0, 0, 0)) (\<lambda>p n. False) (\<lambda>v. True) (\<lambda>p. False)
     (snd (api_step (\<lambda>f t. (0, 0, 0, 0)) (\<lambda>p n. False) (\<lambda>v. True) ?ev (init_service (\<lambda>p. False))))"
    by (rule reachable.step [OF reachable.start])
  show ?thesis using r reachable_wf [OF r] by blast
qed

text \<open>C5: in a reachable state no request fails with \<open>KeyError\<close>: every palette lookup
  of the renderer finds its key.\<close>

theorem reachable_no_KeyError:
  assumes "reachable bb tt_ok valid exists s"
  shows "fst (generate_mindmap bb tt_ok valid now rq s) \<noteq> Failure KeyError"
proof -
  have wf: "wf_generator (svc_generator s)"
    using assms by induction (simp_all add: init_service_def init_generator_wf api_step_wf)
  have "res \<noteq> Inl KeyError" if "create_mind_map_image bb tt_ok valid (svc_generator s) d st = (res, g')"
    for d st res g'
    using that create_image_no_KeyError [OF wf, of bb tt_ok valid d st] by simp
  then show ?thesis
    by (auto simp: generate_mindmap_def Let_def split: prod.splits sum.splits)
qed

theorem reachable_no_KeyError_witness:
  "reachable (\<lambda>f t. (0, 0, 0, 0)) (\<lambda>p n. False) (\<lambda>v. True) (\<lambda>p. False) (init_service (\<lambda>p. False)) \<and>
   fst (generate_mindmap (\<lambda>f t. (0, 0, 0, 0)) (\<lambda>p n. False) (\<lambda>v. True) []
     \<lparr>rq_title = None, rq_description = None, rq_content = None, rq_theme = None, rq_layout = None,
      rq_style = []\<rparr> (init_service (\<lambda>p. False))) \<noteq> Failure KeyError"
proof -
  have r: "reachable (\<lambda>f t. (0, 0, 0, 0)) (\<lambda>p n. False) (\<lambda>v. True) (\<lambda>p. False) (init_service (\<lambda>p. False))"
    by (rule reachable.start)
  show ?thesis using r reachable_no_KeyError [OF r] by blast
qed

subsection \<open>The HTTP handlers\<close>

text \<open>C27: \<open>/api/mindmap/generate\<close> answers 400 exactly when the title or the content is
  absent or empty, and then leaves the service state (palette table and identifier supply)
  untouched.\<close>

theorem api_generate_validation:
  "(fst (fst (api_generate bb tt_ok valid now rq s)) = 400) =
     (\<not> truthy (rq_title rq) \<or> \<not> truthy (rq_content rq)) \<and>
   (fst (fst (api_generate bb tt_ok valid now rq s)) = 400 \<longrightarrow> snd (api_generate bb tt_ok valid now rq s) = s)"
  by (auto simp: api_generate_def split: prod.split response.split)

theorem api_generate_validation_witness:
  "fst (fst (api_generate (\<lambda>f t. (0, 0, 0, 0)) (\<lambda>p n. False) (\<lambda>v. True) []
      \<lparr>rq_title = Some [], rq_description = None, rq_content = Some (u ''x''), rq_theme = None,
       rq_layout = None, rq_style = []\<rparr> (init_service (\<lambda>p. False)))) = 400 \<and>
   snd (api_generate (\<lambda>f t. (0, 0, 0, 0)) (\<lambda>p n. False) (\<lambda>v. True) []
      \<lparr>rq_title = Some [], rq_description = None, rq_content = Some (u ''x''), rq_theme = None,
       rq_layout = None, rq_style = []\<rparr> (init_service (\<lambda>p. False))) = init_service (\<lambda>p. False)"
  using api_generate_validation [of "\<lambda>f t. (0, 0, 0, 0)" "\<lambda>p n. False" "\<lambda>v. True" "[]"
      "\<lparr>rq_title = Some [], rq_description = None, rq_content = Some (u ''x''), rq_theme = None,
       rq_layout = None, rq_style = []\<rparr>" "init_service (\<lambda>p. False)"]
  by (simp add: truthy_def)

text \<open>\<open>/api/mindmap/download\<close> never changes the service state: it renders with no
  style, so the palette table is left as it is, and it draws no identifiers.\<close>

theorem api_download_frame: "snd (api_download bb tt_ok valid obj s) = s"
  using download_mindmap_state [of bb tt_ok valid "payload_of obj" s]
  by (auto simp: api_download_def split: prod.splits sum.splits)

subsection \<open>The debug client\<close>

text \<open>C9: the download test of \<open>debug_api.py\<close> can never pass: it posts the whole
  response of \<open>/api/mindmap/generate\<close>, whose top level has no \<open>nodes\<close> key (the mind
  map is under \<open>data\<close>), so the download handler always answers 400.\<close>

theorem debug_download_fails:
  "snd (snd (fst (debug_main bb tt_ok valid now s))) \<noteq> Some True"
proof -
  have gen: "\<exists>d i. obj = service_json (Success d i)"
    if "test_generate_api bb tt_ok valid now s1 = (Some obj, s2)" for s1 obj s2
    using that by (auto simp: test_generate_api_def api_generate_def
        split: prod.splits response.splits if_splits)
  have dl: "\<not> fst (test_download_api bb tt_ok valid (Some (service_json (Success d i))) s2)" for d i s2
    by (simp add: test_download_api_def api_download_def service_json_def u_def)
  show ?thesis
  proof (cases "test_generate_api bb tt_ok valid now s")
    case (Pair mindmap_data s2)
    show ?thesis
    proof (cases mindmap_data)
      case None
      with Pair show ?thesis by (simp add: debug_main_def test_health_check_def api_health_def)
    next
      case (Some obj)
      with Pair gen obtain d i where "obj = service_json (Success d i)" by blast
      with Pair Some dl [of d i s2] show ?thesis
        by (auto simp: debug_main_def test_health_check_def api_health_def split: prod.split)
    qed
  qed
qed

end
