(* ===== verification/Slides.thy ===== *)
theory Slides
  imports Prelude "HOL-Library.Word"
begin

text \<open>
  What the three slide-deck services of \<open>src/server\<close> share: the document python-pptx
  builds, as a record of slides with their paragraphs and paragraph formatting; the
  library's text semantics the code relies on (assigning a string to a shape's text makes
  one paragraph per line, \<open>text_frame.clear()\<close> leaves one empty paragraph,
  \<open>paragraphs[0].font\<close> formats the first paragraph only); \<open>Inches\<close>; the decimal
  rendering of \<open>f"{i}"\<close>; the file name \<open>lecture_<uuid4().hex>.pptx\<close>, the \<open>k\<close>-th
  draw of the identifier supply being the 128-bit value \<open>k\<close>; the request fields
  and the validation the three \<open>/api/generate-ppt\<close> handlers have in common; and the
  output folder as a map from file names to saved documents.
\<close>

record para =
  p_text :: ustr
  p_size :: "nat option"
  p_bold :: bool
  p_rgb :: "(nat \<times> nat \<times> nat) option"
  p_space_after :: "nat option"

definition plain :: "ustr \<Rightarrow> para" where
  "plain t = \<lparr>p_text = t, p_size = None, p_bold = False, p_rgb = None, p_space_after = None\<rparr>"

text \<open>\<open>shape.text = s\<close>: one paragraph per line of \<open>s\<close>, unformatted.\<close>

definition set_text :: "ustr \<Rightarrow> para list" where
  "set_text s = map plain (py_split 10 s)"

text \<open>\<open>text_frame.clear()\<close>: all paragraphs but one empty one are removed.\<close>

definition cleared :: "para list" where
  "cleared = [plain []]"

text \<open>\<open>paragraphs[0].font.x = v\<close>; the list is never empty where the code does it.\<close>

fun fmt_first :: "(para \<Rightarrow> para) \<Rightarrow> para list \<Rightarrow> para list" where
  "fmt_first f [] = []"
| "fmt_first f (p # ps) = f p # ps"

text \<open>Font sizes are the points passed to \<open>Pt\<close>.\<close>

definition sized :: "nat \<Rightarrow> para \<Rightarrow> para" where
  "sized n p = p\<lparr>p_size := Some n\<rparr>"

definition bold :: "para \<Rightarrow> para" where
  "bold p = p\<lparr>p_bold := True\<rparr>"

definition colored :: "nat \<times> nat \<times> nat \<Rightarrow> para \<Rightarrow> para" where
  "colored c p = p\<lparr>p_rgb := Some c\<rparr>"

definition spaced :: "nat \<Rightarrow> para \<Rightarrow> para" where
  "spaced n p = p\<lparr>p_space_after := Some n\<rparr>"

record slide =
  sl_layout :: nat
  sl_title :: "para list"
  sl_body :: "para list option"

record presentation =
  prs_size :: "(nat \<times> nat) option"
  prs_slides :: "slide list"

text \<open>\<open>Inches(x)\<close> is \<open>int(x * 914400)\<close> EMU.\<close>

definition inches :: "rat \<Rightarrow> nat" where
  "inches x = nat (py_int (x * 914400))"

definition widescreen :: "(nat \<times> nat) option" where
  "widescreen = Some (inches (1333 / 100), inches (15 / 2))"

text \<open>\<open>f"{i}"\<close> of a natural number: its decimal digits.\<close>

fun dec :: "nat \<Rightarrow> ustr" where
  "dec n = (if n < 10 then [48 + n] else dec (n div 10) @ [48 + n mod 10])"

declare dec.simps [simp del]

definition parse_dec :: "ustr \<Rightarrow> nat" where
  "parse_dec s = foldl (\<lambda>acc c. 10 * acc + (c - 48)) 0 s"

definition hex_digit :: "nat \<Rightarrow> nat" where
  "hex_digit d = (if d < 10 then 48 + d else 87 + d)"

fun hex_fixed :: "nat \<Rightarrow> nat \<Rightarrow> ustr" where
  "hex_fixed 0 v = []"
| "hex_fixed (Suc n) v = hex_fixed n (v div 16) @ [hex_digit (v mod 16)]"

definition parse_hex :: "ustr \<Rightarrow> nat" where
  "parse_hex s = foldl (\<lambda>acc c. 16 * acc + (if c < 58 then c - 48 else c - 87)) 0 s"

text \<open>\<open>uuid.uuid4().hex\<close>: the 32 lower-case hex digits of a 128-bit value.\<close>

definition uuid_hex :: "nat \<Rightarrow> ustr" where
  "uuid_hex k = hex_fixed 32 (unat (word_of_nat k :: 128 word))"

definition pptx_filename :: "nat \<Rightarrow> ustr" where
  "pptx_filename k = u ''lecture_'' @ uuid_hex k @ u ''.pptx''"

record ppt_section =
  sec_title :: "ustr option"
  sec_description :: "ustr option"

record ppt_request =
  pr_title :: "ustr option"
  pr_sections :: "ppt_section list option"
  pr_author :: "ustr option"
  pr_date :: "ustr option"
  pr_template :: "ustr option"

text \<open>The checks of the three handlers, in order: \<open>'title' not in data\<close>,
  \<open>not content or 'sections' not in content\<close> (an absent or empty \<open>content\<close> has no
  \<open>sections\<close>), \<open>not sections\<close>. The error is the message of the 400 reply.\<close>

definition ppt_validate :: "ppt_request \<Rightarrow> ustr + ustr \<times> ppt_section list" where
  "ppt_validate rq =
     (case pr_title rq of
        None \<Rightarrow> Inl ([32570, 23569, 24517, 35201, 21442, 25968] @ u '': title'')
      | Some title \<Rightarrow>
          (case pr_sections rq of
             None \<Rightarrow> Inl ([32570, 23569] @ u ''content.sections'' @ [21442, 25968])
           | Some sections \<Rightarrow>
               if sections = [] then Inl (u ''sections'' @ [25968, 32452, 19981, 33021, 20026, 31354]) else Inr (title, sections)))"

datatype pval = PStr ustr | PBool bool | PNat nat | PList "ustr list"

datatype ppt_reply = PJson "(ustr \<times> pval) list" | PFile presentation

record ppt_state =
  ps_files :: "ustr \<rightharpoonup> presentation"
  ps_uuid :: nat

definition ppt_error :: "ustr \<Rightarrow> ppt_reply" where
  "ppt_error msg = PJson [(u ''error'', PStr msg)]"

subsection \<open>Decimal and hexadecimal rendering\<close>

lemma parse_dec_snoc: "parse_dec (s @ [c]) = 10 * parse_dec s + (c - 48)"
  by (simp add: parse_dec_def)

lemma dec_roundtrip: "parse_dec (dec n) = n"
proof (induction n rule: dec.induct)
  case (1 n)
  then show ?case by (subst dec.simps) (simp add: parse_dec_snoc parse_dec_def)
qed

lemma dec_not_Nil: "dec n \<noteq> []"
  by (subst dec.simps) simp

lemma dec_digits: "set (dec n) \<subseteq> {48..57}"
proof (induction n rule: dec.induct)
  case (1 n)
  then show ?case by (subst dec.simps) auto
qed

lemma dec_no_newline [simp]: "10 \<notin> set (dec n)"
  using dec_digits [of n] by auto

lemma dec_inj: "dec m = dec n \<Longrightarrow> m = n"
  by (metis dec_roundtrip)

lemma length_hex_fixed [simp]: "length (hex_fixed n v) = n"
  by (induction n arbitrary: v) auto

lemma parse_hex_snoc: "parse_hex (s @ [c]) = 16 * parse_hex s + (if c < 58 then c - 48 else c - 87)"
  by (simp add: parse_hex_def)

lemma hex_digit_inv: "d < 16 \<Longrightarrow> (if hex_digit d < 58 then hex_digit d - 48 else hex_digit d - 87) = d"
  by (simp add: hex_digit_def)

lemma hex_roundtrip: "parse_hex (hex_fixed n v) = v mod 16 ^ n"
proof (induction n arbitrary: v)
  case 0
  then show ?case by (simp add: parse_hex_def)
next
  case (Suc n)
  have "parse_hex (hex_fixed (Suc n) v) = 16 * ((v div 16) mod 16 ^ n) + v mod 16"
    by (simp add: parse_hex_snoc Suc.IH hex_digit_inv)
  also have "\<dots> = v mod 16 ^ Suc n"
    by (simp add: mod_mult2_eq mult.commute)
  finally show ?case .
qed

lemma unat_word_of_nat_128: "k < 2 ^ 128 \<Longrightarrow> unat (word_of_nat k :: 128 word) = k"
  by (simp add: unsigned_of_nat take_bit_nat_eq_self)

lemma uuid_hex_inj:
  assumes "uuid_hex k = uuid_hex k'" and "k < 2 ^ 128" and "k' < 2 ^ 128"
  shows "k = k'"
proof -
  have "parse_hex (hex_fixed 32 k) = parse_hex (hex_fixed 32 k')"
    using assms by (simp add: uuid_hex_def unat_word_of_nat_128)
  with assms(2,3) show ?thesis by (simp add: hex_roundtrip)
qed

lemma pptx_filename_inj:
  "pptx_filename k = pptx_filename k' \<Longrightarrow> k < 2 ^ 128 \<Longrightarrow> k' < 2 ^ 128 \<Longrightarrow> k = k'"
  by (rule uuid_hex_inj) (simp_all add: pptx_filename_def uuid_hex_def)

subsection \<open>Text of a shape\<close>

lemma set_text_lines: "map p_text (set_text s) = py_split 10 s"
  by (simp add: set_text_def plain_def comp_def)

lemma set_text_not_Nil [simp]: "set_text s \<noteq> []"
  by (simp add: set_text_def py_split_not_Nil)

lemma fmt_first_text: "(\<And>p. p_text (f p) = p_text p) \<Longrightarrow> map p_text (fmt_first f ps) = map p_text ps"
  by (cases ps) auto

lemma fmt_first_set_text [simp]:
  "map p_text (fmt_first (sized n) ps) = map p_text ps"
  "map p_text (fmt_first (bold \<circ> sized n) ps) = map p_text ps"
  "map p_text (fmt_first (colored c \<circ> sized n) ps) = map p_text ps"
  "map p_text (fmt_first (colored c \<circ> bold \<circ> sized n) ps) = map p_text ps"
  by (simp_all add: fmt_first_text sized_def bold_def colored_def)

end
