(* ===== verification/PptService.thy ===== *)
theory PptService
  imports Slides
begin

text \<open>
  The slide-deck service \<open>src/server/ppt_service.py\<close>: the four slide builders
  \<open>create_title_slide\<close>, \<open>create_toc_slide\<close>, \<open>create_content_slide\<close> and
  \<open>create_summary_slide\<close>, \<open>generate_ppt_from_content\<close>, and the routes
  \<open>/api/generate-ppt\<close>, \<open>/download/<filename>\<close> and \<open>/api/health\<close>. A builder that
  subscripts a missing key (\<open>section['title']\<close>) raises \<open>KeyError\<close>, caught by
  \<open>generate_ppt_from_content\<close>, which then returns \<open>False\<close>: the builders return an
  option. \<open>prs.save\<close> writes the document into the output folder (\<open>ps_files\<close>); the
  size of the written file is the external \<open>file_size\<close>. The Jinja2 environment's
  creation and the template lookup are the external \<open>env_ok\<close> and \<open>has_template\<close>;
  \<open>today\<close> is \<open>datetime.now()\<close> as the code formats it. Creating the output folders
  (\<open>ensure_directories\<close>) is idempotent file-system work and is not modelled.
\<close>

definition create_title_slide :: "ustr \<Rightarrow> ustr \<Rightarrow> ustr \<Rightarrow> slide" where
  "create_title_slide title author date =
     \<lparr>sl_layout = 0,
      sl_title = fmt_first (colored (31, 73, 125) \<circ> bold \<circ> sized 44) (set_text title),
      sl_body = Some (fmt_first (colored (89, 89, 89) \<circ> sized 24)
                  (set_text (([20316, 32773] @ u '': '') @ author @ ([10, 26085, 26399] @ u '': '') @ date)))\<rparr>"

text \<open>\<open>f"{i}. {section['title']}"\<close> of the table of contents.\<close>

fun toc_entries :: "nat \<Rightarrow> ppt_section list \<Rightarrow> para list option" where
  "toc_entries i [] = Some []"
| "toc_entries i (sec # secs) =
     (case sec_title sec of
        None \<Rightarrow> None
      | Some t \<Rightarrow>
          map_option (Cons (spaced 12 (colored (68, 68, 68) (sized 24 (plain (dec i @ u ''. '' @ t))))))
            (toc_entries (Suc i) secs))"

definition create_toc_slide :: "ppt_section list \<Rightarrow> slide option" where
  "create_toc_slide sections =
     map_option (\<lambda>entries.
       \<lparr>sl_layout = 1,
        sl_title = fmt_first (colored (31, 73, 125) \<circ> bold \<circ> sized 40) (set_text [30446, 24405]),
        sl_body = Some (cleared @ entries)\<rparr>)
       (toc_entries 1 sections)"

definition create_content_slide :: "ustr \<Rightarrow> ustr \<Rightarrow> slide" where
  "create_content_slide section_title section_description =
     \<lparr>sl_layout = 1,
      sl_title = fmt_first (colored (31, 73, 125) \<circ> bold \<circ> sized 36) (set_text section_title),
      sl_body = Some (cleared @ [spaced 12 (colored (68, 68, 68) (sized 24 (plain section_description)))])\<rparr>"

definition create_summary_slide :: "ustr \<Rightarrow> slide" where
  "create_summary_slide author =
     \<lparr>sl_layout = 1,
      sl_title = fmt_first (colored (31, 73, 125) \<circ> bold \<circ> sized 40) (set_text [24635, 32467]),
      sl_body = Some (cleared @
        [spaced 20 (colored (68, 68, 68) (sized 28 (plain [24863, 35874, 24744, 30340, 20851, 27880, 65281]))),
         colored (89, 89, 89) (sized 24 (plain (([32852, 31995, 26041, 24335] @ u '': '') @ author)))])\<rparr>"

text \<open>The loop \<open>for section in sections: create_content_slide(prs, section['title'],
  section['description'])\<close>.\<close>

fun content_slides :: "ppt_section list \<Rightarrow> slide list option" where
  "content_slides [] = Some []"
| "content_slides (sec # secs) =
     (case (sec_title sec, sec_description sec) of
        (Some t, Some d) \<Rightarrow> map_option (Cons (create_content_slide t d)) (content_slides secs)
      | _ \<Rightarrow> None)"

text \<open>The document \<open>generate_ppt_from_content\<close> builds before saving it.\<close>

definition build_deck :: "ustr \<Rightarrow> ustr \<Rightarrow> ustr \<Rightarrow> ppt_section list \<Rightarrow> presentation option" where
  "build_deck title author date sections =
     (let title_slide = create_title_slide title author date in
      case (if sections \<noteq> [] then map_option (\<lambda>s. [s]) (create_toc_slide sections) else Some []) of
        None \<Rightarrow> None
      | Some toc \<Rightarrow>
          (case content_slides sections of
             None \<Rightarrow> None
           | Some contents \<Rightarrow>
               Some \<lparr>prs_size = widescreen,
                     prs_slides = [title_slide] @ toc @ contents @ [create_summary_slide author]\<rparr>))"

definition generate_ppt_from_content ::
  "(presentation \<Rightarrow> nat) \<Rightarrow> ustr \<Rightarrow> ustr \<Rightarrow> ustr \<Rightarrow> ppt_section list \<Rightarrow> ustr \<Rightarrow>
   (ustr \<rightharpoonup> presentation) \<Rightarrow> bool \<times> (ustr \<rightharpoonup> presentation)" where
  "generate_ppt_from_content file_size title author date sections output files =
     (case build_deck title author date sections of
        None \<Rightarrow> (False, files)
      | Some prs \<Rightarrow> (1000 \<le> file_size prs, files(output \<mapsto> prs)))"

definition ppt_success :: "ustr \<Rightarrow> nat \<Rightarrow> ppt_reply" where
  "ppt_success filename file_size =
     PJson [(u ''success'', PBool True), (u ''message'', PStr (u ''PPT'' @ [29983, 25104, 25104, 21151])),
            (u ''filename'', PStr filename), (u ''download_url'', PStr (u ''/download/'' @ filename)),
            (u ''file_size'', PNat file_size)]"

definition generate_ppt ::
  "bool \<Rightarrow> (ustr \<Rightarrow> bool) \<Rightarrow> (presentation \<Rightarrow> nat) \<Rightarrow> ustr \<Rightarrow> ppt_request \<Rightarrow> ppt_state \<Rightarrow>
   (nat \<times> ppt_reply) \<times> ppt_state" where
  "generate_ppt env_ok has_template file_size today rq s =
     (if \<not> env_ok then ((500, ppt_error [27169, 26495, 29615, 22659, 26410, 21021, 22987, 21270]), s)
      else case ppt_validate rq of
        Inl msg \<Rightarrow> ((400, ppt_error msg), s)
      | Inr (title, sections) \<Rightarrow>
          (let template_name = get_or (pr_template rq) (u ''lecture.md.jinja'');
               author = get_or (pr_author rq) [26410, 30693, 20316, 32773];
               date = get_or (pr_date rq) today
           in if \<not> has_template template_name
              then ((500, ppt_error (([27169, 26495, 28210, 26579, 22833, 36133] @ u '': '') @ template_name)), s)
              else
                (let filename = pptx_filename (ps_uuid s);
                     s1 = s\<lparr>ps_uuid := Suc (ps_uuid s)\<rparr>
                 in case generate_ppt_from_content file_size title author date sections filename
                           (ps_files s) of
                      (ok, files) \<Rightarrow>
                        if ok then
                          ((200, ppt_success filename (file_size (the (files filename)))),
                           s1\<lparr>ps_files := files\<rparr>)
                        else ((500, ppt_error (u ''PPT'' @ [29983, 25104, 22833, 36133])), s1\<lparr>ps_files := files\<rparr>))))"

definition download_pptx :: "ustr \<Rightarrow> ppt_state \<Rightarrow> nat \<times> ppt_reply" where
  "download_pptx filename s =
     (case ps_files s filename of
        Some prs \<Rightarrow> (200, PFile prs)
      | None \<Rightarrow> (404, ppt_error [25991, 20214, 19979, 36733, 22833, 36133]))"

definition ppt_health :: "ustr \<Rightarrow> nat \<times> ppt_reply" where
  "ppt_health now =
     (200, PJson [(u ''status'', PStr (u ''healthy'')), (u ''service'', PStr (u ''PPT'' @ [29983, 25104, 26381, 21153])),
                  (u ''technology'', PStr (u ''python-pptx'')), (u ''timestamp'', PStr now)])"

datatype ppt_event = GenReq ppt_request ustr | DownloadReq ustr | HealthReq ustr

fun ppt_step ::
  "bool \<Rightarrow> (ustr \<Rightarrow> bool) \<Rightarrow> (presentation \<Rightarrow> nat) \<Rightarrow> ppt_event \<Rightarrow> ppt_state \<Rightarrow>
   (nat \<times> ppt_reply) \<times> ppt_state" where
  "ppt_step env_ok has_template file_size (GenReq rq today) s =
     generate_ppt env_ok has_template file_size today rq s"
| "ppt_step env_ok has_template file_size (DownloadReq filename) s = (download_pptx filename s, s)"
| "ppt_step env_ok has_template file_size (HealthReq now) s = (ppt_health now, s)"

definition ppt_init :: ppt_state where
  "ppt_init = \<lparr>ps_files = Map.empty, ps_uuid = 0\<rparr>"

inductive ppt_reachable ::
  "bool \<Rightarrow> (ustr \<Rightarrow> bool) \<Rightarrow> (presentation \<Rightarrow> nat) \<Rightarrow> ppt_state \<Rightarrow> bool"
  for env_ok has_template file_size
where
  start: "ppt_reachable env_ok has_template file_size ppt_init"
| step: "ppt_reachable env_ok has_template file_size s \<Longrightarrow>
         ppt_reachable env_ok has_template file_size (snd (ppt_step env_ok has_template file_size ev s))"

subsection \<open>The slide builders\<close>

lemma toc_entries_text:
  "toc_entries i secs = Some es \<Longrightarrow>
   map p_text es = map (\<lambda>(j, sec). dec j @ u ''. '' @ the (sec_title sec)) (zip [i..<i + length secs] secs)"
proof (induction i secs arbitrary: es rule: toc_entries.induct)
  case (1 i)
  then show ?case by simp
next
  case (2 i sec secs)
  obtain t es' where t: "sec_title sec = Some t" and es': "toc_entries (Suc i) secs = Some es'"
    and es: "es = spaced 12 (colored (68, 68, 68) (sized 24 (plain (dec i @ u ''. '' @ t)))) # es'"
    using "2.prems" by (auto split: option.splits)
  have "[i..<i + length (sec # secs)] = i # [Suc i..<Suc i + length secs]"
    by (simp add: upt_rec)
  with "2.IH" [OF t es'] t es show ?case
    by (simp add: spaced_def colored_def sized_def plain_def)
qed

lemma toc_entries_length: "toc_entries i secs = Some es \<Longrightarrow> length es = length secs"
  by (induction i secs arbitrary: es rule: toc_entries.induct) (auto split: option.splits)

lemma toc_entries_total:
  "list_all (\<lambda>sec. sec_title sec \<noteq> None) secs \<Longrightarrow> \<exists>es. toc_entries i secs = Some es"
  by (induction i secs rule: toc_entries.induct) auto

lemma content_slides_length:
  "content_slides secs = Some cs \<Longrightarrow> length cs = length secs"
  by (induction secs arbitrary: cs rule: content_slides.induct) (auto split: option.splits)

lemma content_slides_total:
  "list_all (\<lambda>sec. sec_title sec \<noteq> None \<and> sec_description sec \<noteq> None) secs \<Longrightarrow>
   \<exists>cs. content_slides secs = Some cs"
  by (induction secs rule: content_slides.induct) auto

lemma content_slides_None:
  "\<not> list_all (\<lambda>sec. sec_title sec \<noteq> None \<and> sec_description sec \<noteq> None) secs \<Longrightarrow>
   content_slides secs = None"
  by (induction secs rule: content_slides.induct) (auto split: option.splits)

lemma build_deck_None:
  "secs \<noteq> [] \<Longrightarrow> \<not> list_all (\<lambda>sec. sec_title sec \<noteq> None \<and> sec_description sec \<noteq> None) secs \<Longrightarrow>
   build_deck title author date secs = None"
  by (cases "toc_entries 1 secs")
    (simp_all add: build_deck_def create_toc_slide_def content_slides_None)

lemma build_deck_Some:
  assumes "secs \<noteq> []" and "list_all (\<lambda>sec. sec_title sec \<noteq> None \<and> sec_description sec \<noteq> None) secs"
  shows "\<exists>es cs. toc_entries 1 secs = Some es \<and> content_slides secs = Some cs \<and>
    build_deck title author date secs = Some \<lparr>prs_size = widescreen,
      prs_slides = [create_title_slide title author date] @
        [\<lparr>sl_layout = 1,
          sl_title = fmt_first (colored (31, 73, 125) \<circ> bold \<circ> sized 40) (set_text [30446, 24405]),
          sl_body = Some (cleared @ es)\<rparr>] @ cs @ [create_summary_slide author]\<rparr>"
proof -
  obtain es where es: "toc_entries 1 secs = Some es"
    using toc_entries_total assms(2) by (fastforce simp: list_all_iff)
  obtain cs where cs: "content_slides secs = Some cs" using content_slides_total assms(2) by blast
  show ?thesis using assms(1) es cs by (simp add: build_deck_def create_toc_slide_def)
qed

text \<open>C12: with a non-empty list of sections that all have a title and a description,
  \<open>generate_ppt_from_content\<close> builds a 16:9 deck of exactly one slide per
  section plus three: title, table of contents and summary.\<close>

theorem build_deck_shape:
  assumes "secs \<noteq> []" and "list_all (\<lambda>sec. sec_title sec \<noteq> None \<and> sec_description sec \<noteq> None) secs"
  shows "\<exists>prs. build_deck title author date secs = Some prs \<and>
    length (prs_slides prs) = length secs + 3 \<and> prs_size prs = widescreen"
  using build_deck_Some [OF assms, of title author date] content_slides_length by fastforce

text \<open>C26: the table of contents numbers the sections from 1 in order, one paragraph
  \<open>i. title\<close> each, after an empty first paragraph that
  \<open>text_frame.clear()\<close> leaves and \<open>add_paragraph\<close> appends
  after.\<close>

theorem toc_numbering:
  assumes "create_toc_slide secs = Some sl"
  shows "\<exists>es. sl_body sl = Some (plain [] # es) \<and>
    map p_text es = map (\<lambda>(j, sec). dec j @ u ''. '' @ the (sec_title sec)) (zip [1..<Suc (length secs)] secs)"
proof -
  obtain es where es: "toc_entries 1 secs = Some es"
    and sl: "sl_body sl = Some (cleared @ es)"
    using assms by (auto simp: create_toc_slide_def)
  show ?thesis using toc_entries_text [OF es] sl by (simp add: cleared_def)
qed

text \<open>C13: a request that passes validation but has a section without \<open>title\<close> or
  \<open>description\<close> is answered 500 (PPT generation failed): the subscript
  raises \<open>KeyError\<close>, no file is written, and an identifier is spent.\<close>

theorem generate_ppt_incomplete:
  assumes "env_ok" and "ppt_validate rq = Inr (title, secs)"
    and "has_template (get_or (pr_template rq) (u ''lecture.md.jinja''))"
    and "\<not> list_all (\<lambda>sec. sec_title sec \<noteq> None \<and> sec_description sec \<noteq> None) secs"
  shows "generate_ppt env_ok has_template file_size today rq s =
    ((500, ppt_error (u ''PPT'' @ [29983, 25104, 22833, 36133])), s\<lparr>ps_uuid := Suc (ps_uuid s)\<rparr>)"
proof -
  have "secs \<noteq> []" using assms(2) by (auto simp: ppt_validate_def split: option.splits if_splits)
  then have "build_deck title a d secs = None" for a d using assms(4) by (rule build_deck_None)
  then show ?thesis using assms(1-3)
    by (simp add: generate_ppt_def generate_ppt_from_content_def Let_def)
qed

text \<open>C14: the template is rendered but its output is never used: any two available templates
  give the same reply and the same document.\<close>

theorem generate_ppt_template_ignored:
  assumes "has_template t1" and "has_template t2"
  shows "generate_ppt env_ok has_template file_size today (rq\<lparr>pr_template := Some t1\<rparr>) s =
    generate_ppt env_ok has_template file_size today (rq\<lparr>pr_template := Some t2\<rparr>) s"
proof -
  have "ppt_validate (rq\<lparr>pr_template := Some t\<rparr>) = ppt_validate rq" for t
    by (simp add: ppt_validate_def split: option.split)
  then show ?thesis using assms by (simp add: generate_ppt_def Let_def get_or_def split: sum.split)
qed

subsection \<open>The handler and the output folder\<close>

lemma generate_ppt_run:
  assumes "env_ok" and "ppt_validate rq = Inr (title, secs)"
    and "has_template (get_or (pr_template rq) (u ''lecture.md.jinja''))"
  shows "generate_ppt env_ok has_template file_size today rq s =
    (case build_deck title (get_or (pr_author rq) [26410, 30693, 20316, 32773]) (get_or (pr_date rq) today) secs of
       None \<Rightarrow> ((500, ppt_error (u ''PPT'' @ [29983, 25104, 22833, 36133])), s\<lparr>ps_uuid := Suc (ps_uuid s)\<rparr>)
     | Some prs \<Rightarrow>
         if 1000 \<le> file_size prs
         then ((200, ppt_success (pptx_filename (ps_uuid s)) (file_size prs)),
               \<lparr>ps_files = (ps_files s)(pptx_filename (ps_uuid s) \<mapsto> prs), ps_uuid = Suc (ps_uuid s)\<rparr>)
         else ((500, ppt_error (u ''PPT'' @ [29983, 25104, 22833, 36133])),
               \<lparr>ps_files = (ps_files s)(pptx_filename (ps_uuid s) \<mapsto> prs), ps_uuid = Suc (ps_uuid s)\<rparr>))"
  using assms
  by (simp add: generate_ppt_def generate_ppt_from_content_def Let_def split: option.split)

lemma generate_ppt_cases:
  obtains (unchanged) "snd (generate_ppt env_ok has_template file_size today rq s) = s"
      and "fst (fst (generate_ppt env_ok has_template file_size today rq s)) \<noteq> 200"
    | (run) title secs where "env_ok" "ppt_validate rq = Inr (title, secs)"
      "has_template (get_or (pr_template rq) (u ''lecture.md.jinja''))"
proof (cases "env_ok \<and> (\<exists>title secs. ppt_validate rq = Inr (title, secs)) \<and>
    has_template (get_or (pr_template rq) (u ''lecture.md.jinja''))")
  case True
  then show ?thesis using run by blast
next
  case False
  then have "snd (generate_ppt env_ok has_template file_size today rq s) = s \<and>
      fst (fst (generate_ppt env_ok has_template file_size today rq s)) \<noteq> 200"
    by (auto simp: generate_ppt_def Let_def split: sum.split)
  then show ?thesis using unchanged by blast
qed

lemma generate_ppt_files:
  assumes inv: "dom (ps_files s) \<subseteq> pptx_filename ` {..<ps_uuid s}"
  shows "dom (ps_files (snd (generate_ppt env_ok has_template file_size today rq s)))
     \<subseteq> pptx_filename ` {..<ps_uuid (snd (generate_ppt env_ok has_template file_size today rq s))}"
proof (cases rule: generate_ppt_cases [of env_ok has_template file_size today rq s])
  case unchanged
  then show ?thesis using inv by simp
next
  case (run title secs)
  have "pptx_filename ` {..<ps_uuid s} \<subseteq> pptx_filename ` {..<Suc (ps_uuid s)}" by auto
  with inv show ?thesis using run
    by (auto simp: generate_ppt_run split: option.split)
qed

lemma ppt_reachable_files:
  "ppt_reachable env_ok has_template file_size s \<Longrightarrow> dom (ps_files s) \<subseteq> pptx_filename ` {..<ps_uuid s}"
proof (induction rule: ppt_reachable.induct)
  case start
  show ?case by (simp add: ppt_init_def)
next
  case (step s ev)
  then show ?case by (cases ev) (simp_all add: generate_ppt_files)
qed

text \<open>C11: in every state a run of the service reaches, the name the next generation will
  write is not yet taken, so no request overwrites another request's file (as long as
  fewer than \<open>2^128\<close> identifiers have been drawn).\<close>

theorem ppt_no_overwrite:
  assumes "ppt_reachable env_ok has_template file_size s" and "ps_uuid s < 2 ^ 128"
  shows "pptx_filename (ps_uuid s) \<notin> dom (ps_files s)"
proof
  assume "pptx_filename (ps_uuid s) \<in> dom (ps_files s)"
  with ppt_reachable_files [OF assms(1)] obtain k where "k < ps_uuid s"
    and "pptx_filename (ps_uuid s) = pptx_filename k" by blast
  with assms(2) pptx_filename_inj show False by fastforce
qed

text \<open>C25: a 200 reply names the file it wrote, and \<open>/download/<filename>\<close> then
  serves that document, which passed the size check.\<close>

theorem generate_then_download:
  assumes "generate_ppt env_ok has_template file_size today rq s = ((200, r), s')"
  shows "\<exists>prs. r = ppt_success (pptx_filename (ps_uuid s)) (file_size prs) \<and>
    download_pptx (pptx_filename (ps_uuid s)) s' = (200, PFile prs) \<and> 1000 \<le> file_size prs"
proof (cases rule: generate_ppt_cases [of env_ok has_template file_size today rq s])
  case unchanged
  then show ?thesis using assms by simp
next
  case (run title secs)
  then show ?thesis using assms
    by (auto simp: generate_ppt_run download_pptx_def split: option.splits if_splits)
qed

text \<open>C15: when the saved file is smaller than 1000 bytes the request is answered 500, yet
  the file stays in the output folder and \<open>/download/\<close> serves it under a
  name the client was never told.\<close>

theorem small_file_orphan:
  assumes "env_ok" and "ppt_validate rq = Inr (title, secs)"
    and "has_template (get_or (pr_template rq) (u ''lecture.md.jinja''))"
    and "build_deck title (get_or (pr_author rq) [26410, 30693, 20316, 32773]) (get_or (pr_date rq) today) secs = Some prs"
    and "file_size prs < 1000"
  shows "fst (generate_ppt env_ok has_template file_size today rq s) = (500, ppt_error (u ''PPT'' @ [29983, 25104, 22833, 36133])) \<and>
    download_pptx (pptx_filename (ps_uuid s)) (snd (generate_ppt env_ok has_template file_size today rq s)) =
      (200, PFile prs)"
  using assms by (simp add: generate_ppt_run download_pptx_def)

theorem build_deck_shape_witness:
  "[\<lparr>sec_title = Some (u ''A''), sec_description = Some (u ''a'')\<rparr>] \<noteq> [] \<and>
   list_all (\<lambda>sec. sec_title sec \<noteq> None \<and> sec_description sec \<noteq> None)
     [\<lparr>sec_title = Some (u ''A''), sec_description = Some (u ''a'')\<rparr>] \<and>
   (\<exists>prs. build_deck (u ''T'') (u ''me'') (u ''today'')
       [\<lparr>sec_title = Some (u ''A''), sec_description = Some (u ''a'')\<rparr>] = Some prs \<and>
     length (prs_slides prs) = 4 \<and> prs_size prs = widescreen)"
  using build_deck_shape [of "[\<lparr>sec_title = Some (u ''A''), sec_description = Some (u ''a'')\<rparr>]"
      "u ''T''" "u ''me''" "u ''today''"] by simp

theorem toc_numbering_witness:
  "\<exists>sl. create_toc_slide [\<lparr>sec_title = Some (u ''A''), sec_description = None\<rparr>,
       \<lparr>sec_title = Some (u ''B''), sec_description = None\<rparr>] = Some sl \<and>
     (\<exists>es. sl_body sl = Some (plain [] # es) \<and> map p_text es = [u ''1. A'', u ''2. B''])"
proof -
  let ?secs = "[\<lparr>sec_title = Some (u ''A''), sec_description = None\<rparr>,
       \<lparr>sec_title = Some (u ''B''), sec_description = None\<rparr>]"
  obtain es where es: "toc_entries 1 ?secs = Some es" by (simp add: u_def)
  then obtain sl where sl: "create_toc_slide ?secs = Some sl" by (simp add: create_toc_slide_def)
  have "[1..<Suc (length ?secs)] = [1, 2]" by (simp add: upt_rec)
  then show ?thesis using sl toc_numbering [OF sl] by (auto simp: u_def dec.simps)
qed

theorem generate_ppt_incomplete_witness:
  "True \<and>
   ppt_validate \<lparr>pr_title = Some (u ''T''),
       pr_sections = Some [\<lparr>sec_title = Some (u ''A''), sec_description = None\<rparr>],
       pr_author = None, pr_date = None, pr_template = None\<rparr> =
     Inr (u ''T'', [\<lparr>sec_title = Some (u ''A''), sec_description = None\<rparr>]) \<and>
   (\<lambda>t. True) (get_or None (u ''lecture.md.jinja'')) \<and>
   \<not> list_all (\<lambda>sec. sec_title sec \<noteq> None \<and> sec_description sec \<noteq> None)
     [\<lparr>sec_title = Some (u ''A''), sec_description = None\<rparr>] \<and>
   generate_ppt True (\<lambda>t. True) (\<lambda>p. 5000) (u ''2025/08/13'')
     \<lparr>pr_title = Some (u ''T''), pr_sections = Some [\<lparr>sec_title = Some (u ''A''), sec_description = None\<rparr>],
      pr_author = None, pr_date = None, pr_template = None\<rparr> ppt_init =
     ((500, ppt_error (u ''PPT'' @ [29983, 25104, 22833, 36133])), ppt_init\<lparr>ps_uuid := 1\<rparr>)"
proof -
  let ?rq = "\<lparr>pr_title = Some (u ''T''), pr_sections = Some [\<lparr>sec_title = Some (u ''A''), sec_description = None\<rparr>],
      pr_author = None, pr_date = None, pr_template = None\<rparr>"
  have v: "ppt_validate ?rq = Inr (u ''T'', [\<lparr>sec_title = Some (u ''A''), sec_description = None\<rparr>])"
    by (simp add: ppt_validate_def)
  show ?thesis
    using v generate_ppt_incomplete [OF _ v, where env_ok = True and has_template = "\<lambda>t. True"
        and file_size = "\<lambda>p. 5000" and today = "u ''2025/08/13''" and s = ppt_init]
    by (simp add: ppt_init_def)
qed

theorem generate_ppt_template_ignored_witness:
  "(\<lambda>t. t \<noteq> u ''missing'') (u ''lecture.md.jinja'') \<and> (\<lambda>t. t \<noteq> u ''missing'') (u ''slides.jinja'') \<and>
   generate_ppt True (\<lambda>t. t \<noteq> u ''missing'') (\<lambda>p. 5000) [] (\<lparr>pr_title = Some (u ''T''),
       pr_sections = Some [\<lparr>sec_title = Some (u ''A''), sec_description = Some (u ''a'')\<rparr>],
       pr_author = None, pr_date = None, pr_template = None\<rparr>\<lparr>pr_template := Some (u ''lecture.md.jinja'')\<rparr>)
     ppt_init =
   generate_ppt True (\<lambda>t. t \<noteq> u ''missing'') (\<lambda>p. 5000) [] (\<lparr>pr_title = Some (u ''T''),
       pr_sections = Some [\<lparr>sec_title = Some (u ''A''), sec_description = Some (u ''a'')\<rparr>],
       pr_author = None, pr_date = None, pr_template = None\<rparr>\<lparr>pr_template := Some (u ''slides.jinja'')\<rparr>)
     ppt_init"
proof -
  have h: "(\<lambda>t. t \<noteq> u ''missing'') (u ''lecture.md.jinja'')" "(\<lambda>t. t \<noteq> u ''missing'') (u ''slides.jinja'')"
    by (simp_all add: u_def)
  show ?thesis using h generate_ppt_template_ignored [OF h] by blast
qed

theorem ppt_no_overwrite_witness:
  "ppt_reachable True (\<lambda>t. True) (\<lambda>p. 5000) ppt_init \<and> ps_uuid ppt_init < 2 ^ 128 \<and>
   pptx_filename (ps_uuid ppt_init) \<notin> dom (ps_files ppt_init)"
proof -
  have r: "ppt_reachable True (\<lambda>t. True) (\<lambda>p. 5000) ppt_init" by (rule ppt_reachable.start)
  have b: "ps_uuid ppt_init < 2 ^ 128" by (simp add: ppt_init_def)
  show ?thesis using r b ppt_no_overwrite [OF r b] by blast
qed

theorem generate_then_download_witness:
  "\<exists>r s'. generate_ppt True (\<lambda>t. True) (\<lambda>p. 5000) [] \<lparr>pr_title = Some (u ''T''),
       pr_sections = Some [\<lparr>sec_title = Some (u ''A''), sec_description = Some (u ''a'')\<rparr>],
       pr_author = None, pr_date = None, pr_template = None\<rparr> ppt_init = ((200, r), s') \<and>
     (\<exists>prs. r = ppt_success (pptx_filename 0) (5000::nat) \<and>
        download_pptx (pptx_filename 0) s' = (200, PFile prs))"
proof -
  let ?secs = "[\<lparr>sec_title = Some (u ''A''), sec_description = Some (u ''a'')\<rparr>]"
  let ?rq = "\<lparr>pr_title = Some (u ''T''), pr_sections = Some ?secs,
       pr_author = None, pr_date = None, pr_template = None\<rparr>"
  have v: "ppt_validate ?rq = Inr (u ''T'', ?secs)" by (simp add: ppt_validate_def)
  obtain es cs where "build_deck (u ''T'') (get_or (pr_author ?rq) [26410, 30693, 20316, 32773])
      (get_or (pr_date ?rq) []) ?secs = Some \<lparr>prs_size = widescreen,
      prs_slides = [create_title_slide (u ''T'') (get_or (pr_author ?rq) [26410, 30693, 20316, 32773]) (get_or (pr_date ?rq) [])] @
        [\<lparr>sl_layout = 1,
          sl_title = fmt_first (colored (31, 73, 125) \<circ> bold \<circ> sized 40) (set_text [30446, 24405]),
          sl_body = Some (cleared @ es)\<rparr>] @ cs @ [create_summary_slide (get_or (pr_author ?rq) [26410, 30693, 20316, 32773])]\<rparr>"
    using build_deck_Some [of ?secs] by auto
  then obtain prs where b: "build_deck (u ''T'') (get_or (pr_author ?rq) [26410, 30693, 20316, 32773])
      (get_or (pr_date ?rq) []) ?secs = Some prs" by blast
  let ?run = "generate_ppt True (\<lambda>t. True) (\<lambda>p. 5000) [] ?rq ppt_init"
  have run: "?run = ((200, ppt_success (pptx_filename 0) 5000),
      \<lparr>ps_files = [pptx_filename 0 \<mapsto> prs], ps_uuid = 1\<rparr>)"
    using generate_ppt_run [OF _ v, where env_ok = True and has_template = "\<lambda>t. True"
        and file_size = "\<lambda>p. 5000" and today = "[]" and s = ppt_init] b
    by (simp add: ppt_init_def)
  show ?thesis using run generate_then_download [OF run] by (simp add: ppt_init_def)
qed

theorem small_file_orphan_witness:
  "\<exists>prs. True \<and>
     ppt_validate \<lparr>pr_title = Some (u ''T''),
       pr_sections = Some [\<lparr>sec_title = Some (u ''A''), sec_description = Some (u ''a'')\<rparr>],
       pr_author = None, pr_date = None, pr_template = None\<rparr> =
       Inr (u ''T'', [\<lparr>sec_title = Some (u ''A''), sec_description = Some (u ''a'')\<rparr>]) \<and>
     (\<lambda>t. True) (get_or None (u ''lecture.md.jinja'')) \<and>
     build_deck (u ''T'') (get_or None [26410, 30693, 20316, 32773]) (get_or None [])
       [\<lparr>sec_title = Some (u ''A''), sec_description = Some (u ''a'')\<rparr>] = Some prs \<and>
     (\<lambda>p. 10::nat) prs < 1000 \<and>
     fst (generate_ppt True (\<lambda>t. True) (\<lambda>p. 10) [] \<lparr>pr_title = Some (u ''T''),
       pr_sections = Some [\<lparr>sec_title = Some (u ''A''), sec_description = Some (u ''a'')\<rparr>],
       pr_author = None, pr_date = None, pr_template = None\<rparr> ppt_init) = (500, ppt_error (u ''PPT'' @ [29983, 25104, 22833, 36133])) \<and>
     download_pptx (pptx_filename (ps_uuid ppt_init)) (snd (generate_ppt True (\<lambda>t. True) (\<lambda>p. 10) []
       \<lparr>pr_title = Some (u ''T''),
       pr_sections = Some [\<lparr>sec_title = Some (u ''A''), sec_description = Some (u ''a'')\<rparr>],
       pr_author = None, pr_date = None, pr_template = None\<rparr> ppt_init)) = (200, PFile prs)"
proof -
  let ?secs = "[\<lparr>sec_title = Some (u ''A''), sec_description = Some (u ''a'')\<rparr>]"
  let ?rq = "\<lparr>pr_title = Some (u ''T''), pr_sections = Some ?secs,
       pr_author = None, pr_date = None, pr_template = None\<rparr>"
  have v: "ppt_validate ?rq = Inr (u ''T'', ?secs)" by (simp add: ppt_validate_def)
  obtain prs where b: "build_deck (u ''T'') (get_or (pr_author ?rq) [26410, 30693, 20316, 32773])
      (get_or (pr_date ?rq) []) ?secs = Some prs"
    using build_deck_Some [of ?secs] by auto
  have sz: "(\<lambda>p. 10::nat) prs < 1000" by simp
  show ?thesis
    using v b small_file_orphan [OF _ v _ b, where env_ok = True and has_template = "\<lambda>t. True"
        and file_size = "\<lambda>p. 10" and s = ppt_init] by auto
qed

end
