(* ===== verification/PptPptx.thy ===== *)
theory PptPptx
  imports Slides
begin

text \<open>
  The slide-deck service \<open>src/server/ppt_service_pptx.py\<close>: \<open>create_editable_ppt\<close>,
  \<open>generate_ppt_with_pptx\<close> and the routes \<open>/api/generate-ppt\<close>,
  \<open>/api/download-ppt/<filename>\<close> and \<open>/api/health\<close>. Sections are read with
  \<open>section.get(key, default)\<close>, so no section makes the builder fail. The saved file's
  size and first four bytes are the external \<open>file_info\<close>; the handler checks that the
  Jinja2 environment exists (\<open>env_ok\<close>) but renders no template.
\<close>

text \<open>The table of contents is one string, a line \<open>i. title\\n\<close> per section.\<close>

fun toc_text :: "nat \<Rightarrow> ppt_section list \<Rightarrow> ustr" where
  "toc_text i [] = []"
| "toc_text i (sec # secs) =
     dec i @ u ''. '' @ get_or (sec_title sec) [26410, 21629, 21517, 31456, 33410] @ [10] @ toc_text (Suc i) secs"

fun section_slides :: "nat \<Rightarrow> ppt_section list \<Rightarrow> slide list" where
  "section_slides i [] = []"
| "section_slides i (sec # secs) =
     [\<lparr>sl_layout = 1,
       sl_title = fmt_first (bold \<circ> sized 32)
         (set_text ([31532] @ dec i @ ([31456] @ u '': '') @ get_or (sec_title sec) [26410, 21629, 21517, 31456, 33410])),
       sl_body = None\<rparr>,
      \<lparr>sl_layout = 1,
       sl_title = fmt_first (bold \<circ> sized 28) (set_text (get_or (sec_title sec) [26410, 21629, 21517, 31456, 33410])),
       sl_body = Some (fmt_first (sized 20) (set_text (get_or (sec_description sec) [26242, 26080, 25551, 36848])))\<rparr>] @
     section_slides (Suc i) secs"

definition create_editable_ppt :: "ustr \<Rightarrow> ppt_section list \<Rightarrow> ustr \<Rightarrow> ustr \<Rightarrow> presentation" where
  "create_editable_ppt title sections author date =
     \<lparr>prs_size = widescreen,
      prs_slides =
        [\<lparr>sl_layout = 0,
          sl_title = fmt_first (colored (31, 73, 125) \<circ> bold \<circ> sized 44) (set_text title),
          sl_body = Some (fmt_first (colored (89, 89, 89) \<circ> sized 24)
                      (set_text (([20316, 32773] @ u '': '') @ author @ ([10, 26085, 26399] @ u '': '') @ date)))\<rparr>,
         \<lparr>sl_layout = 1,
          sl_title = fmt_first (bold \<circ> sized 36) (set_text [30446, 24405]),
          sl_body = Some (fmt_first (sized 24) (set_text (toc_text 1 sections)))\<rparr>] @
        section_slides 1 sections @
        [\<lparr>sl_layout = 1,
          sl_title = fmt_first (colored (31, 73, 125) \<circ> bold \<circ> sized 36) (set_text [35874, 35874, 35266, 30475]),
          sl_body = Some (fmt_first (colored (89, 89, 89) \<circ> sized 24)
                      (set_text (([20316, 32773] @ u '': '') @ author @ ([10, 26085, 26399] @ u '': '') @ date)))\<rparr>]\<rparr>"

text \<open>The checks after \<open>prs.save\<close>: at least 1000 bytes and the ZIP signature
  \<open>PK\x03\x04\<close>.\<close>

definition file_ok :: "nat \<times> nat list \<Rightarrow> bool" where
  "file_ok info = (1000 \<le> fst info \<and> snd info = [80, 75, 3, 4])"

definition generate_ppt_with_pptx ::
  "(presentation \<Rightarrow> nat \<times> nat list) \<Rightarrow> ustr \<Rightarrow> ppt_section list \<Rightarrow> ustr \<Rightarrow> ustr \<Rightarrow> ustr \<Rightarrow>
   (ustr \<rightharpoonup> presentation) \<Rightarrow> bool \<times> (ustr \<rightharpoonup> presentation)" where
  "generate_ppt_with_pptx file_info title sections author date output files =
     (let prs = create_editable_ppt title sections author date
      in (file_ok (file_info prs), files(output \<mapsto> prs)))"

definition generate_ppt_pptx ::
  "bool \<Rightarrow> (presentation \<Rightarrow> nat \<times> nat list) \<Rightarrow> ppt_request \<Rightarrow> ppt_state \<Rightarrow>
   (nat \<times> ppt_reply) \<times> ppt_state" where
  "generate_ppt_pptx env_ok file_info rq s =
     (if \<not> env_ok then ((500, ppt_error [27169, 26495, 29615, 22659, 26410, 21021, 22987, 21270]), s)
      else case ppt_validate rq of
        Inl msg \<Rightarrow> ((400, ppt_error msg), s)
      | Inr (title, sections) \<Rightarrow>
          (let filename = pptx_filename (ps_uuid s);
               s1 = s\<lparr>ps_uuid := Suc (ps_uuid s)\<rparr>
           in case generate_ppt_with_pptx file_info title sections (get_or (pr_author rq) [26234, 35838, 20113, 24072])
                     (get_or (pr_date rq) []) filename (ps_files s) of
                (ok, files) \<Rightarrow>
                  if ok then
                    ((200, PJson [(u ''status'', PStr (u ''success'')),
                                  (u ''download_url'', PStr (u ''/api/download-ppt/'' @ filename)),
                                  (u ''filename'', PStr filename), (u ''message'', PStr ([20351, 29992] @ u ''python-pptx'' @ [29983, 25104, 65292, 23436, 20840, 21487, 32534, 36753]))]),
                     s1\<lparr>ps_files := files\<rparr>)
                  else ((500, ppt_error (u ''PPT'' @ [29983, 25104, 22833, 36133])), s1\<lparr>ps_files := files\<rparr>)))"

definition download_ppt :: "ustr \<Rightarrow> ppt_state \<Rightarrow> nat \<times> ppt_reply" where
  "download_ppt filename s =
     (case ps_files s filename of
        Some prs \<Rightarrow> (200, PFile prs)
      | None \<Rightarrow> (404, ppt_error [25991, 20214, 19981, 23384, 22312]))"

definition pptx_health :: "nat \<times> ppt_reply" where
  "pptx_health =
     (200, PJson [(u ''status'', PStr (u ''healthy'')), (u ''service'', PStr (u ''PPT Generator (python-pptx)'')),
                  (u ''features'', PList [[23436, 20840, 21487, 32534, 36753], ([26631, 20934] @ u ''PPTX'' @ [26684, 24335]), ([20860, 23481, 25152, 26377] @ u ''Office'' @ [36719, 20214])])])"

subsection \<open>The deck\<close>

lemma toc_text_lines:
  assumes "\<forall>sec \<in> set secs. 10 \<notin> set (get_or (sec_title sec) t0)"
    and t0: "t0 = [26410, 21629, 21517, 31456, 33410]"
  shows "py_split 10 (toc_text i secs) =
    map (\<lambda>(j, sec). dec j @ u ''. '' @ get_or (sec_title sec) t0) (zip [i..<i + length secs] secs) @ [[]]"
  using assms(1)
proof (induction i secs rule: toc_text.induct)
  case (1 i)
  then show ?case by simp
next
  case (2 i sec secs)
  let ?l = "dec i @ u ''. '' @ get_or (sec_title sec) t0"
  have l: "10 \<notin> set ?l"
    using "2.prems" by (simp add: u_def)
  have "toc_text i (sec # secs) = ?l @ 10 # toc_text (Suc i) secs"
    using assms(2) by simp
  then have "py_split 10 (toc_text i (sec # secs)) = ?l # py_split 10 (toc_text (Suc i) secs)"
    by (simp only: py_split_line [OF l])
  moreover have "zip [i..<i + length (sec # secs)] (sec # secs) =
      (i, sec) # zip [Suc i..<Suc i + length secs] secs"
    by (simp add: upt_conv_Cons del: upt_Suc)
  ultimately show ?case using "2.IH" "2.prems" by simp
qed

lemma section_slides_length: "length (section_slides i secs) = 2 * length secs"
  by (induction i secs rule: section_slides.induct) simp_all

text \<open>\<open>create_editable_ppt\<close> builds two slides per section (a chapter slide and a
  content slide) plus three: title, table of contents and end slide.\<close>

theorem editable_deck_length:
  "length (prs_slides (create_editable_ppt title secs author date)) = 2 * length secs + 3"
  by (simp add: create_editable_ppt_def section_slides_length)

text \<open>C17: the table of contents is assigned as one string, so it becomes one paragraph per
  section, \<open>i. title\<close> from 1, plus an empty last paragraph for the trailing newline;
  \<open>paragraphs[0].font.size = Pt(24)\<close> then sizes only the first entry, and every other
  entry keeps the placeholder's default size.\<close>

theorem toc_only_first_sized:
  assumes "\<forall>sec \<in> set secs. 10 \<notin> set (get_or (sec_title sec) [26410, 21629, 21517, 31456, 33410])"
  shows "\<exists>p ps. sl_body (prs_slides (create_editable_ppt title secs author date) ! 1) = Some (p # ps) \<and>
    p_size p = Some 24 \<and> (\<forall>q \<in> set ps. p_size q = None) \<and>
    map p_text (p # ps) =
      map (\<lambda>(j, sec). dec j @ u ''. '' @ get_or (sec_title sec) [26410, 21629, 21517, 31456, 33410])
        (zip [1..<Suc (length secs)] secs) @ [[]]"
proof -
  let ?L = "map (\<lambda>(j, sec). dec j @ u ''. '' @ get_or (sec_title sec) [26410, 21629, 21517, 31456, 33410])
        (zip [1..<Suc (length secs)] secs) @ [[]]"
  have split: "py_split 10 (toc_text 1 secs) = ?L"
    using toc_text_lines [OF assms refl, of 1] by simp
  obtain x xs where x: "?L = x # xs" by (cases ?L) auto
  have "sl_body (prs_slides (create_editable_ppt title secs author date) ! 1) =
      Some (sized 24 (plain x) # map plain xs)"
    using split x by (simp add: create_editable_ppt_def set_text_def)
  then show ?thesis using x by (simp add: sized_def plain_def comp_def)
qed

theorem toc_only_first_sized_witness:
  "10 \<notin> set (get_or (Some (u ''A'')) [26410, 21629, 21517, 31456, 33410]) \<and>
   (10::nat) \<notin> set (get_or None [26410, 21629, 21517, 31456, 33410]) \<and>
   (\<exists>p ps. sl_body (prs_slides (create_editable_ppt (u ''T'')
       [\<lparr>sec_title = Some (u ''A''), sec_description = None\<rparr>, \<lparr>sec_title = None, sec_description = None\<rparr>]
       (u ''me'') []) ! 1) = Some (p # ps) \<and>
     p_size p = Some 24 \<and> map p_size ps = [None, None] \<and>
     map p_text (p # ps) = [u ''1. A'', u ''2. '' @ [26410, 21629, 21517, 31456, 33410], []])"
proof -
  let ?secs = "[\<lparr>sec_title = Some (u ''A''), sec_description = None\<rparr>, \<lparr>sec_title = None, sec_description = None\<rparr>]"
  have h: "\<forall>sec \<in> set ?secs. 10 \<notin> set (get_or (sec_title sec) [26410, 21629, 21517, 31456, 33410])"
    by (simp add: u_def get_or_def)
  have "[1..<Suc (length ?secs)] = [1, 2]" by (simp add: upt_rec)
  then obtain p ps where "sl_body (prs_slides (create_editable_ppt (u ''T'') ?secs (u ''me'') []) ! 1) = Some (p # ps)"
      "p_size p = Some 24" "\<forall>q \<in> set ps. p_size q = None"
      "map p_text (p # ps) = [u ''1. A'', u ''2. '' @ [26410, 21629, 21517, 31456, 33410], []]"
    using toc_only_first_sized [OF h, of "u ''T''" "u ''me''" "[]"]
    by (auto simp: u_def get_or_def dec.simps)
  moreover from this have "map p_size ps = [None, None]"
    by (cases ps) (auto simp: length_Suc_conv)
  ultimately show ?thesis by (auto simp: u_def get_or_def)
qed

end
