(* ===== verification/PptSimple.thy ===== *)
theory PptSimple
  imports PptPptx
begin

text \<open>
  The slide-deck service \<open>src/server/ppt_service_simple.py\<close>: \<open>create_simple_ppt\<close>,
  \<open>generate_ppt_simple\<close> and its routes. The deck has the structure of
  \<open>create_editable_ppt\<close> without formatting and without the 16:9 size; the
  \<open>try\<close> blocks around the subtitle, the table of contents, each section and the end
  slide catch errors that sections read with \<open>section.get\<close> cannot raise. The handler
  does not check the template environment. The theory ends with the comparison of the
  two builders.
\<close>

fun simple_section_slides :: "nat \<Rightarrow> ppt_section list \<Rightarrow> slide list" where
  "simple_section_slides i [] = []"
| "simple_section_slides i (sec # secs) =
     [\<lparr>sl_layout = 1,
       sl_title = set_text ([31532] @ dec i @ ([31456] @ u '': '') @ get_or (sec_title sec) [26410, 21629, 21517, 31456, 33410]),
       sl_body = None\<rparr>,
      \<lparr>sl_layout = 1,
       sl_title = set_text (get_or (sec_title sec) [26410, 21629, 21517, 31456, 33410]),
       sl_body = Some (set_text (get_or (sec_description sec) [26242, 26080, 25551, 36848]))\<rparr>] @
     simple_section_slides (Suc i) secs"

definition create_simple_ppt :: "ustr \<Rightarrow> ppt_section list \<Rightarrow> ustr \<Rightarrow> ustr \<Rightarrow> presentation" where
  "create_simple_ppt title sections author date =
     \<lparr>prs_size = None,
      prs_slides =
        [\<lparr>sl_layout = 0, sl_title = set_text title,
          sl_body = Some (set_text (([20316, 32773] @ u '': '') @ author @ ([10, 26085, 26399] @ u '': '') @ date))\<rparr>,
         \<lparr>sl_layout = 1, sl_title = set_text [30446, 24405], sl_body = Some (set_text (toc_text 1 sections))\<rparr>] @
        simple_section_slides 1 sections @
        [\<lparr>sl_layout = 1, sl_title = set_text [35874, 35874, 35266, 30475], sl_body = None\<rparr>]\<rparr>"

definition generate_ppt_simple ::
  "(presentation \<Rightarrow> nat \<times> nat list) \<Rightarrow> ustr \<Rightarrow> ppt_section list \<Rightarrow> ustr \<Rightarrow> ustr \<Rightarrow> ustr \<Rightarrow>
   (ustr \<rightharpoonup> presentation) \<Rightarrow> bool \<times> (ustr \<rightharpoonup> presentation)" where
  "generate_ppt_simple file_info title sections author date output files =
     (let prs = create_simple_ppt title sections author date
      in (file_ok (file_info prs), files(output \<mapsto> prs)))"

definition generate_ppt_simple_api ::
  "(presentation \<Rightarrow> nat \<times> nat list) \<Rightarrow> ppt_request \<Rightarrow> ppt_state \<Rightarrow> (nat \<times> ppt_reply) \<times> ppt_state" where
  "generate_ppt_simple_api file_info rq s =
     (case ppt_validate rq of
        Inl msg \<Rightarrow> ((400, ppt_error msg), s)
      | Inr (title, sections) \<Rightarrow>
          (let filename = pptx_filename (ps_uuid s);
               s1 = s\<lparr>ps_uuid := Suc (ps_uuid s)\<rparr>
           in case generate_ppt_simple file_info title sections (get_or (pr_author rq) [26234, 35838, 20113, 24072])
                     (get_or (pr_date rq) []) filename (ps_files s) of
                (ok, files) \<Rightarrow>
                  if ok then
                    ((200, PJson [(u ''status'', PStr (u ''success'')),
                                  (u ''download_url'', PStr (u ''/api/download-ppt/'' @ filename)),
                                  (u ''filename'', PStr filename), (u ''message'', PStr [20351, 29992, 31616, 21270, 26041, 27861, 29983, 25104, 65292, 23436, 20840, 21487, 32534, 36753])]),
                     s1\<lparr>ps_files := files\<rparr>)
                  else ((500, ppt_error (u ''PPT'' @ [29983, 25104, 22833, 36133])), s1\<lparr>ps_files := files\<rparr>)))"

text \<open>\<open>/api/download-ppt/<filename>\<close>: the same route as in \<open>ppt_service_pptx.py\<close>.\<close>

definition simple_download_ppt :: "ustr \<Rightarrow> ppt_state \<Rightarrow> nat \<times> ppt_reply" where
  "simple_download_ppt filename s =
     (case ps_files s filename of
        Some prs \<Rightarrow> (200, PFile prs)
      | None \<Rightarrow> (404, ppt_error [25991, 20214, 19981, 23384, 22312]))"

definition simple_health :: "nat \<times> ppt_reply" where
  "simple_health =
     (200, PJson [(u ''status'', PStr (u ''healthy'')),
                  (u ''service'', PStr (u ''PPT Generator (Simple Version)'')),
                  (u ''features'', PList [[23436, 20840, 21487, 32534, 36753], ([26631, 20934] @ u ''PPTX'' @ [26684, 24335]), ([20860, 23481, 25152, 26377] @ u ''Office'' @ [36719, 20214]), [31616, 21270, 35774, 35745]])])"

text \<open>What a deck says, without formatting: per slide its layout, the lines of its title
  and the lines of its body.\<close>

definition deck_text :: "presentation \<Rightarrow> (nat \<times> ustr list \<times> ustr list option) list" where
  "deck_text prs =
     map (\<lambda>sl. (sl_layout sl, map p_text (sl_title sl), map_option (map p_text) (sl_body sl)))
       (prs_slides prs)"

subsection \<open>Generation and download\<close>

text \<open>A 200 reply names the file the download route then serves: the deck just built.\<close>

lemma simple_generate_then_download:
  assumes "generate_ppt_simple_api file_info rq s = ((200, r), s')"
    and "ppt_validate rq = Inr (title, secs)"
  shows "simple_download_ppt (pptx_filename (ps_uuid s)) s' =
    (200, PFile (create_simple_ppt title secs (get_or (pr_author rq) [26234, 35838, 20113, 24072]) (get_or (pr_date rq) [])))"
  using assms
  by (auto simp: generate_ppt_simple_api_def generate_ppt_simple_def simple_download_ppt_def Let_def
           split: if_splits)

subsection \<open>Comparison with \<open>create_editable_ppt\<close>\<close>

lemma section_slides_text:
  "map (\<lambda>sl. (sl_layout sl, map p_text (sl_title sl), map_option (map p_text) (sl_body sl)))
     (simple_section_slides i secs) =
   map (\<lambda>sl. (sl_layout sl, map p_text (sl_title sl), map_option (map p_text) (sl_body sl)))
     (section_slides i secs)"
  by (induction i secs rule: section_slides.induct) simp_all

text \<open>C16: the simplified deck says what the python-pptx deck says: the same slides with the
  same layouts, titles and bodies, line for line, except the end slide, which has no
  author and date in the simplified version. Only the formatting and the slide size
  differ.\<close>

theorem simple_matches_pptx:
  "butlast (deck_text (create_simple_ppt title secs author date)) =
     butlast (deck_text (create_editable_ppt title secs author date)) \<and>
   last (deck_text (create_simple_ppt title secs author date)) = (1, map p_text (set_text [35874, 35874, 35266, 30475]), None) \<and>
   last (deck_text (create_editable_ppt title secs author date)) =
     (1, map p_text (set_text [35874, 35874, 35266, 30475]),
      Some (map p_text (set_text (([20316, 32773] @ u '': '') @ author @ ([10, 26085, 26399] @ u '': '') @ date))))"
  using section_slides_text [of 1 secs]
  by (simp add: deck_text_def create_simple_ppt_def create_editable_ppt_def butlast_append)

text \<open>C28: the simplified handler answers 400 exactly when the request has no title, no
  \<open>content.sections\<close> or an empty list of sections, and then changes nothing.\<close>

theorem simple_api_validation:
  "(fst (fst (generate_ppt_simple_api file_info rq s)) = 400) =
     (pr_title rq = None \<or> pr_sections rq = None \<or> pr_sections rq = Some []) \<and>
   (fst (fst (generate_ppt_simple_api file_info rq s)) = 400 \<longrightarrow> snd (generate_ppt_simple_api file_info rq s) = s)"
  by (auto simp: generate_ppt_simple_api_def ppt_validate_def Let_def split: option.splits sum.splits prod.splits)

theorem simple_api_validation_witness:
  "fst (fst (generate_ppt_simple_api (\<lambda>p. (5000, [80, 75, 3, 4]))
      \<lparr>pr_title = Some (u ''T''), pr_sections = Some [], pr_author = None, pr_date = None,
       pr_template = None\<rparr> \<lparr>ps_files = Map.empty, ps_uuid = 0\<rparr>)) = 400 \<and>
   snd (generate_ppt_simple_api (\<lambda>p. (5000, [80, 75, 3, 4]))
      \<lparr>pr_title = Some (u ''T''), pr_sections = Some [], pr_author = None, pr_date = None,
       pr_template = None\<rparr> \<lparr>ps_files = Map.empty, ps_uuid = 0\<rparr>) = \<lparr>ps_files = Map.empty, ps_uuid = 0\<rparr>"
  using simple_api_validation [of "\<lambda>p. (5000, [80, 75, 3, 4])"
      "\<lparr>pr_title = Some (u ''T''), pr_sections = Some [], pr_author = None, pr_date = None,
       pr_template = None\<rparr>" "\<lparr>ps_files = Map.empty, ps_uuid = 0\<rparr>"]
  by (simp add: ppt_validate_def)

end
