(* ===== verification/Launch.thy ===== *)
theory Launch
  imports Prelude "HOL-Library.Product_Lexorder"
begin

text \<open>
  The start-up scripts (\<open>start_service.py\<close>, \<open>start_ppt_service.py\<close>,
  \<open>start_simple_service.py\<close>) and the \<open>__main__\<close> blocks and
  \<open>ensure_directories\<close> helpers of the services they start. The scripts act on
  the process environment only: which third-party modules import, what
  \<open>python -m pip\<close> does, and which directories exist under the working
  directory (\<open>launch_env\<close>). A directory is the list of its path components, as
  in the Unix model of the HOL distribution; \<open>os.makedirs\<close> creates every missing
  ancestor. A Python call returns its value or raises an exception, together with the
  environment it leaves (\<open>'a py\<close>); a script ends serving requests inside
  \<open>app.run\<close>, with an exit status, or with a traceback (\<open>outcome\<close>). Binding the
  port is taken to succeed: \<open>app.run\<close> is modelled as serving.
\<close>

subsection \<open>The process environment\<close>

type_synonym path = "ustr list"

text \<open>A relative path string as its components: \<open>'static/pptx'\<close> is \<open>[static, pptx]\<close>.\<close>

definition py_path :: "ustr \<Rightarrow> path" where
  "py_path s = py_split 47 s"

text \<open>
  \<open>le_install args\<close> is what \<open>python -m pip install args\<close> does: the modules it
  makes importable, or \<open>None\<close> for a non-zero exit status. \<open>le_mkdir_ok\<close> says
  whether the working directory accepts new directories.
\<close>

record launch_env =
  le_version :: "nat \<times> nat"
  le_modules :: "ustr list"
  le_pip :: bool
  le_install :: "ustr list \<Rightarrow> ustr list option"
  le_dirs :: "path list"
  le_mkdir_ok :: bool

type_synonym 'a py = "(ustr + 'a) \<times> launch_env"

datatype run = Returns bool | Raises ustr | Serves ustr nat bool

datatype outcome = Serving ustr nat bool | Exited nat | Traceback ustr

fun serving :: "outcome \<Rightarrow> bool" where
  "serving (Serving m p d) = True"
| "serving (Exited n) = False"
| "serving (Traceback e) = False"

definition imports_ok :: "launch_env \<Rightarrow> ustr list \<Rightarrow> bool" where
  "imports_ok env ms \<longleftrightarrow> list_all (\<lambda>m. m \<in> set (le_modules env)) ms"

text \<open>
  The third-party modules a service module needs when it is loaded: its own
  top-level imports and those of the modules it imports (\<open>app.py\<close> imports
  \<open>mindmap_service\<close>, which imports \<open>PIL\<close>). \<open>ppt_service_simple.py\<close> imports
  \<open>pptx\<close> only inside \<open>create_simple_ppt\<close>.
\<close>

definition app_imports :: "ustr list" where
  "app_imports = [u ''flask'', u ''flask_cors'', u ''PIL'']"

definition ppt_service_imports :: "ustr list" where
  "ppt_service_imports = [u ''flask'', u ''flask_cors'', u ''pptx'', u ''jinja2'']"

definition pptx_service_imports :: "ustr list" where
  "pptx_service_imports = [u ''flask'', u ''jinja2'', u ''flask_cors'', u ''pptx'']"

definition simple_service_imports :: "ustr list" where
  "simple_service_imports = [u ''flask'', u ''flask_cors'']"

text \<open>\<open>subprocess.check_call([sys.executable, '-m', 'pip', 'install'] + args)\<close>.\<close>

definition pip_install :: "ustr list \<Rightarrow> launch_env \<Rightarrow> unit py" where
  "pip_install args env =
     (case le_install env args of
        None \<Rightarrow> (Inl (u ''CalledProcessError''), env)
      | Some ms \<Rightarrow> (Inr (), env\<lparr>le_modules := ms @ le_modules env\<rparr>))"

text \<open>The non-empty prefixes of a path, shortest first: the ancestors and the path.\<close>

definition path_prefixes :: "path \<Rightarrow> path list" where
  "path_prefixes p = map (\<lambda>k. take k p) [1..<Suc (length p)]"

text \<open>
  \<open>os.makedirs(p, exist_ok=True)\<close>; \<open>ensure_directories\<close> of
  \<open>ppt_service.py\<close> calls \<open>os.makedirs(p)\<close> only when \<open>p\<close> does not exist, which
  is the same. A failure raises \<open>OSError\<close> before anything is created.
\<close>

definition makedirs :: "path \<Rightarrow> launch_env \<Rightarrow> unit py" where
  "makedirs p env =
     (if p \<in> set (le_dirs env) then (Inr (), env)
      else if le_mkdir_ok env
      then (Inr (), env\<lparr>le_dirs := le_dirs env @ filter (\<lambda>q. q \<notin> set (le_dirs env)) (path_prefixes p)\<rparr>)
      else (Inl (u ''OSError''), env))"

text \<open>\<open>for d in dirs: os.makedirs(d, ...)\<close> with no handler: the first error propagates.\<close>

fun makedirs_all :: "path list \<Rightarrow> launch_env \<Rightarrow> unit py" where
  "makedirs_all [] env = (Inr (), env)"
| "makedirs_all (p # ps) env =
     (case makedirs p env of
        (Inl e, env') \<Rightarrow> (Inl e, env')
      | (Inr _, env') \<Rightarrow> makedirs_all ps env')"

text \<open>The top level of a script that does not catch: a return value is dropped.\<close>

fun script_end :: "run \<Rightarrow> outcome" where
  "script_end (Returns b) = Exited 0"
| "script_end (Raises e) = Traceback e"
| "script_end (Serves m p d) = Serving m p d"

subsection \<open>The mind-map launcher, \<open>start_service.py\<close>\<close>

definition mm_check_dependencies :: "launch_env \<Rightarrow> bool" where
  "mm_check_dependencies env = imports_ok env [u ''flask'', u ''PIL'']"

definition mm_install_dependencies :: "launch_env \<Rightarrow> bool \<times> launch_env" where
  "mm_install_dependencies env =
     (case pip_install [u ''-r'', u ''requirements.txt''] env of
        (Inl e, env') \<Rightarrow> (False, env')
      | (Inr _, env') \<Rightarrow> (True, env'))"

text \<open>Any exception of the import or of \<open>app.run\<close> is logged and gives \<open>False\<close>.\<close>

definition mm_start_service :: "launch_env \<Rightarrow> run" where
  "mm_start_service env =
     (if imports_ok env app_imports then Serves (u ''app'') 5001 False else Returns False)"

definition mm_main :: "launch_env \<Rightarrow> outcome \<times> launch_env" where
  "mm_main env =
     (if mm_check_dependencies env then (script_end (mm_start_service env), env)
      else case mm_install_dependencies env of
             (False, env') \<Rightarrow> (Exited 0, env')
           | (True, env') \<Rightarrow>
               if mm_check_dependencies env' then (script_end (mm_start_service env'), env')
               else (Exited 0, env'))"

text \<open>\<open>python app.py\<close>: the \<open>__main__\<close> block of \<open>app.py\<close>, in debug mode.\<close>

definition app_main :: "launch_env \<Rightarrow> outcome" where
  "app_main env =
     (if imports_ok env app_imports then Serving (u ''app'') 5001 True
      else Traceback (u ''ModuleNotFoundError''))"

subsection \<open>The slide-service launcher, \<open>start_ppt_service.py\<close>\<close>

definition ppt_check_dependencies :: "launch_env \<Rightarrow> bool" where
  "ppt_check_dependencies env = imports_ok env [u ''flask'', u ''jinja2'', u ''pptx'']"

definition ppt_dirs :: "path list" where
  "ppt_dirs = [py_path (u ''temp''), py_path (u ''static/pptx'')]"

definition ppt_create_directories :: "launch_env \<Rightarrow> unit py" where
  "ppt_create_directories env = makedirs_all ppt_dirs env"

text \<open>
  \<open>create_directories()\<close> is called outside the \<open>try\<close>: its \<open>OSError\<close> leaves
  \<open>start_service\<close>. A failed import of \<open>ppt_service\<close> is caught and gives \<open>False\<close>.
\<close>

definition ppt_start_service :: "launch_env \<Rightarrow> run \<times> launch_env" where
  "ppt_start_service env =
     (if \<not> ppt_check_dependencies env then (Returns False, env)
      else case ppt_create_directories env of
             (Inl e, env') \<Rightarrow> (Raises e, env')
           | (Inr _, env') \<Rightarrow>
               (if imports_ok env' ppt_service_imports then Serves (u ''ppt_service'') 5000 True
                else Returns False, env'))"

text \<open>The \<open>__main__\<close> block: any exception ends in \<open>sys.exit(1)\<close>, a return in status 0.\<close>

definition ppt_launch :: "launch_env \<Rightarrow> outcome \<times> launch_env" where
  "ppt_launch env =
     (case ppt_start_service env of
        (Raises e, env') \<Rightarrow> (Exited 1, env')
      | (Returns b, env') \<Rightarrow> (Exited 0, env')
      | (Serves m p d, env') \<Rightarrow> (Serving m p d, env'))"

text \<open>
  \<open>ensure_directories\<close> of \<open>ppt_service.py\<close>: its \<open>UPLOAD_FOLDER\<close> and
  \<open>PPTX_FOLDER\<close>, the directories of the launcher, with no handler.
\<close>

definition ppt_ensure_directories :: "launch_env \<Rightarrow> unit py" where
  "ppt_ensure_directories env = makedirs_all ppt_dirs env"

text \<open>\<open>python ppt_service.py\<close>: \<open>ensure_directories()\<close> is not guarded.\<close>

definition ppt_service_main :: "launch_env \<Rightarrow> outcome \<times> launch_env" where
  "ppt_service_main env =
     (if \<not> imports_ok env ppt_service_imports then (Traceback (u ''ModuleNotFoundError''), env)
      else case ppt_ensure_directories env of
             (Inl e, env') \<Rightarrow> (Traceback e, env')
           | (Inr _, env') \<Rightarrow> (Serving (u ''ppt_service'') 5000 True, env'))"

text \<open>
  \<open>ensure_directories\<close> of \<open>ppt_service_pptx.py\<close> and \<open>ppt_service_simple.py\<close>:
  the error is logged and dropped.
\<close>

definition ensure_output_folder :: "launch_env \<Rightarrow> launch_env" where
  "ensure_output_folder env = snd (makedirs (py_path (u ''static/pptx'')) env)"

definition pptx_service_main :: "launch_env \<Rightarrow> outcome \<times> launch_env" where
  "pptx_service_main env =
     (if imports_ok env pptx_service_imports
      then (Serving (u ''ppt_service_pptx'') 5000 True, ensure_output_folder env)
      else (Traceback (u ''ModuleNotFoundError''), env))"

definition simple_service_main :: "launch_env \<Rightarrow> outcome \<times> launch_env" where
  "simple_service_main env =
     (if imports_ok env simple_service_imports
      then (Serving (u ''ppt_service_simple'') 5000 True, ensure_output_folder env)
      else (Traceback (u ''ModuleNotFoundError''), env))"

subsection \<open>The simplified launcher, \<open>start_simple_service.py\<close>\<close>

text \<open>Each checked module and the pip package that provides it.\<close>

definition simple_deps :: "(ustr \<times> ustr) list" where
  "simple_deps = [(u ''flask'', u ''flask''), (u ''flask_cors'', u ''flask-cors''), (u ''pptx'', u ''python-pptx'')]"

text \<open>
  A missing module is installed with \<open>subprocess.run(..., check=True)\<close>, outside any
  handler: a failed install raises \<open>CalledProcessError\<close> out of the function.
\<close>

fun install_missing :: "(ustr \<times> ustr) list \<Rightarrow> launch_env \<Rightarrow> unit py" where
  "install_missing [] env = (Inr (), env)"
| "install_missing ((m, pkg) # ds) env =
     (if imports_ok env [m] then install_missing ds env
      else case pip_install [pkg] env of
             (Inl e, env') \<Rightarrow> (Inl e, env')
           | (Inr _, env') \<Rightarrow> install_missing ds env')"

definition simple_check_dependencies :: "launch_env \<Rightarrow> bool py" where
  "simple_check_dependencies env =
     (if le_version env < (3, 7) then (Inr False, env)
      else if \<not> le_pip env then (Inr False, env)
      else case install_missing simple_deps env of
             (Inl e, env') \<Rightarrow> (Inl e, env')
           | (Inr _, env') \<Rightarrow> (Inr True, env'))"

definition simple_create_directories :: "launch_env \<Rightarrow> bool \<times> launch_env" where
  "simple_create_directories env =
     (case makedirs (py_path (u ''static/pptx'')) env of
        (Inl e, env') \<Rightarrow> (False, env')
      | (Inr _, env') \<Rightarrow> (True, env'))"

text \<open>
  \<open>subprocess.run([sys.executable, 'ppt_service_simple.py'])\<close> waits for the child,
  which serves while it runs; when it fails the launcher returns normally.
\<close>

definition simple_main :: "launch_env \<Rightarrow> outcome \<times> launch_env" where
  "simple_main env =
     (case simple_check_dependencies env of
        (Inl e, env') \<Rightarrow> (Traceback e, env')
      | (Inr False, env') \<Rightarrow> (Exited 0, env')
      | (Inr True, env') \<Rightarrow>
          (case simple_create_directories env' of
             (False, env'') \<Rightarrow> (Exited 0, env'')
           | (True, env'') \<Rightarrow>
               (case simple_service_main env'' of
                  (Serving m p d, env3) \<Rightarrow> (Serving m p d, env3)
                | (_, env3) \<Rightarrow> (Exited 0, env3))))"

subsection \<open>Directories\<close>

lemma path_prefixes_set: "set (path_prefixes p) = {take k p | k. 1 \<le> k \<and> k \<le> length p}"
  by (auto simp: path_prefixes_def)

lemma path_prefixes_self: "p \<noteq> [] \<Longrightarrow> p \<in> set (path_prefixes p)"
  unfolding path_prefixes_set by (rule CollectI, rule exI [of _ "length p"]) (simp add: Suc_le_eq)

lemma py_path_not_Nil [simp]: "py_path s \<noteq> []"
  by (simp add: py_path_def py_split_not_Nil)

lemma makedirs_modules [simp]: "le_modules (snd (makedirs p env)) = le_modules env"
  by (simp add: makedirs_def)

lemma makedirs_mono: "set (le_dirs env) \<subseteq> set (le_dirs (snd (makedirs p env)))"
  by (auto simp: makedirs_def)

lemma makedirs_result:
  "fst (makedirs p env) = Inr () \<longleftrightarrow> p \<in> set (le_dirs env) \<or> le_mkdir_ok env"
  by (simp add: makedirs_def)

lemma makedirs_created:
  "p \<noteq> [] \<Longrightarrow> fst (makedirs p env) = Inr () \<Longrightarrow> p \<in> set (le_dirs (snd (makedirs p env)))"
  by (auto simp: makedirs_def path_prefixes_self split: if_splits)

lemma makedirs_all_modules [simp]: "le_modules (snd (makedirs_all ps env)) = le_modules env"
proof (induction ps env rule: makedirs_all.induct)
  case (2 p ps env)
  then show ?case
    using makedirs_modules [of p env] by (cases "makedirs p env") (auto split: sum.split)
qed simp

lemma makedirs_all_mono: "set (le_dirs env) \<subseteq> set (le_dirs (snd (makedirs_all ps env)))"
proof (induction ps env rule: makedirs_all.induct)
  case (2 p ps env)
  then show ?case
    using makedirs_mono [of env p] by (cases "makedirs p env") (auto split: sum.split)
qed simp

lemma makedirs_all_created:
  "fst (makedirs_all ps env) = Inr () \<Longrightarrow> list_all (\<lambda>p. p \<noteq> []) ps \<Longrightarrow>
   set ps \<subseteq> set (le_dirs (snd (makedirs_all ps env)))"
proof (induction ps env rule: makedirs_all.induct)
  case (2 p ps env)
  obtain r env' where m: "makedirs p env = (r, env')" by fastforce
  with "2.prems" have r: "r = Inr ()" by (cases r) auto
  have "p \<in> set (le_dirs env')"
    using makedirs_created [of p env] m r "2.prems"(2) by simp
  moreover have "set (le_dirs env') \<subseteq> set (le_dirs (snd (makedirs_all ps env')))"
    by (rule makedirs_all_mono)
  ultimately show ?case
    using "2.IH" [OF m [symmetric] r] "2.prems" m r by auto
qed simp

lemma makedirs_mkdir_ok [simp]: "le_mkdir_ok (snd (makedirs p env)) = le_mkdir_ok env"
  by (simp add: makedirs_def)

lemma makedirs_all_ok: "le_mkdir_ok env \<Longrightarrow> fst (makedirs_all ps env) = Inr ()"
proof (induction ps env rule: makedirs_all.induct)
  case (2 p ps env)
  obtain r env' where m: "makedirs p env = (r, env')" by fastforce
  have r: "r = Inr ()" and ok: "le_mkdir_ok env'"
    using m "2.prems" makedirs_result [of p env] makedirs_mkdir_ok [of p env] by auto
  show ?case using "2.IH" [OF m [symmetric] r ok] m r by simp
qed simp

lemma makedirs_all_readonly:
  "\<not> le_mkdir_ok env \<Longrightarrow>
   makedirs_all ps env = (if set ps \<subseteq> set (le_dirs env) then Inr () else Inl (u ''OSError''), env)"
  by (induction ps) (auto simp: makedirs_def)

lemma makedirs_all_fails:
  "isl (fst (makedirs_all ps env)) \<longleftrightarrow> \<not> le_mkdir_ok env \<and> \<not> set ps \<subseteq> set (le_dirs env)"
  by (cases "le_mkdir_ok env") (simp_all add: makedirs_all_ok makedirs_all_readonly)

lemma pip_install_dirs [simp]: "le_dirs (snd (pip_install args env)) = le_dirs env"
  by (simp add: pip_install_def split: option.split)

lemma pip_install_mkdir_ok [simp]: "le_mkdir_ok (snd (pip_install args env)) = le_mkdir_ok env"
  by (simp add: pip_install_def split: option.split)

lemma install_missing_dirs [simp]: "le_dirs (snd (install_missing ds env)) = le_dirs env"
proof (induction ds env rule: install_missing.induct)
  case (2 m pkg ds env)
  then show ?case
    using pip_install_dirs [of "[pkg]" env] by (cases "pip_install [pkg] env") (auto split: sum.split)
qed simp

lemma mm_main_dirs [simp]: "le_dirs (snd (mm_main env)) = le_dirs env"
  using pip_install_dirs [of "[u ''-r'', u ''requirements.txt'']" env]
  by (cases "pip_install [u ''-r'', u ''requirements.txt''] env")
     (auto simp: mm_main_def mm_install_dependencies_def split: sum.split)

lemma simple_check_dirs [simp]: "le_dirs (snd (simple_check_dependencies env)) = le_dirs env"
  using install_missing_dirs [of simple_deps env]
  by (cases "install_missing simple_deps env") (auto simp: simple_check_dependencies_def split: sum.split)

lemma app_imports_check: "imports_ok env app_imports \<Longrightarrow> mm_check_dependencies env"
  by (simp add: imports_ok_def app_imports_def mm_check_dependencies_def)

lemma ppt_launch_eq:
  "ppt_launch env =
     (if \<not> ppt_check_dependencies env then (Exited 0, env)
      else case ppt_create_directories env of
             (Inl e, env') \<Rightarrow> (Exited 1, env')
           | (Inr _, env') \<Rightarrow>
               (if imports_ok env' ppt_service_imports then Serving (u ''ppt_service'') 5000 True
                else Exited 0, env'))"
  by (simp add: ppt_launch_def ppt_start_service_def split: prod.split sum.split)

lemma ppt_dirs_not_Nil: "list_all (\<lambda>p. p \<noteq> []) ppt_dirs"
  by (simp add: ppt_dirs_def)

lemma simple_create_made:
  "simple_create_directories env = (True, env') \<Longrightarrow> py_path (u ''static/pptx'') \<in> set (le_dirs env')"
  using makedirs_created [of "py_path (u ''static/pptx'')" env]
  by (cases "makedirs (py_path (u ''static/pptx'')) env") (auto simp: simple_create_directories_def split: sum.splits)

lemma simple_service_main_mono: "set (le_dirs env) \<subseteq> set (le_dirs (snd (simple_service_main env)))"
  by (simp add: simple_service_main_def ensure_output_folder_def makedirs_mono)

lemma makedirs_all_serving:
  "fst (makedirs_all ppt_dirs env) = Inr () \<Longrightarrow> set ppt_dirs \<subseteq> set (le_dirs (snd (makedirs_all ppt_dirs env)))"
  using makedirs_all_created ppt_dirs_not_Nil by blast

text \<open>Run directly, \<open>ppt_service_simple.py\<close> serves even when its output folder is missing.\<close>

lemma simple_direct_without_folder:
  "imports_ok env simple_service_imports \<Longrightarrow> \<not> le_mkdir_ok env \<Longrightarrow>
   py_path (u ''static/pptx'') \<notin> set (le_dirs env) \<Longrightarrow>
   simple_service_main env = (Serving (u ''ppt_service_simple'') 5000 True, env)"
  by (simp add: simple_service_main_def ensure_output_folder_def makedirs_def)

text \<open>C31: the mind-map launcher installs the requirements exactly when flask or PIL does not
  import, and ends serving exactly when the environment it leaves imports the app.\<close>

theorem mm_main_serves:
  "snd (mm_main env) =
     (if mm_check_dependencies env then env else snd (pip_install [u ''-r'', u ''requirements.txt''] env)) \<and>
   fst (mm_main env) =
     (if imports_ok (snd (mm_main env)) app_imports then Serving (u ''app'') 5001 False else Exited 0)"
  by (auto simp: mm_main_def mm_install_dependencies_def mm_start_service_def pip_install_def
           dest: app_imports_check split: option.split)

text \<open>C32: neither launcher checks flask_cors, which app.py and ppt_service.py import: the
  mind-map launcher installs nothing and exits; the slide launcher creates its directories
  and exits; neither serves.\<close>

theorem launchers_skip_flask_cors:
  assumes "imports_ok env [u ''flask'', u ''PIL'', u ''jinja2'', u ''pptx'']"
    and "\<not> imports_ok env [u ''flask_cors'']" and "le_mkdir_ok env"
  shows "mm_main env = (Exited 0, env) \<and>
    fst (ppt_launch env) = Exited 0 \<and> set ppt_dirs \<subseteq> set (le_dirs (snd (ppt_launch env)))"
proof -
  have "mm_main env = (Exited 0, env)"
    using assms(1,2)
    by (simp add: mm_main_def mm_check_dependencies_def mm_start_service_def imports_ok_def app_imports_def)
  moreover have "fst (ppt_launch env) = Exited 0 \<and> snd (ppt_launch env) = snd (makedirs_all ppt_dirs env)"
    using assms makedirs_all_ok [of env ppt_dirs] makedirs_all_modules [of ppt_dirs env]
    by (cases "makedirs_all ppt_dirs env")
       (simp add: ppt_launch_eq ppt_create_directories_def ppt_check_dependencies_def ppt_service_imports_def
                  imports_ok_def)
  moreover have "set ppt_dirs \<subseteq> set (le_dirs (snd (makedirs_all ppt_dirs env)))"
    using makedirs_all_serving makedirs_all_ok [OF assms(3)] by blast
  ultimately show ?thesis by simp
qed

theorem launchers_skip_flask_cors_witness:
  "mm_main \<lparr>le_version = (3, 10), le_modules = [u ''flask'', u ''PIL'', u ''jinja2'', u ''pptx''], le_pip = True,
      le_install = (\<lambda>a. None), le_dirs = [], le_mkdir_ok = True\<rparr> = (Exited 0, \<lparr>le_version = (3, 10), le_modules = [u ''flask'', u ''PIL'', u ''jinja2'', u ''pptx''], le_pip = True,
      le_install = (\<lambda>a. None), le_dirs = [], le_mkdir_ok = True\<rparr>) \<and> fst (ppt_launch \<lparr>le_version = (3, 10), le_modules = [u ''flask'', u ''PIL'', u ''jinja2'', u ''pptx''], le_pip = True,
      le_install = (\<lambda>a. None), le_dirs = [], le_mkdir_ok = True\<rparr>) = Exited 0 \<and> set ppt_dirs \<subseteq> set (le_dirs (snd (ppt_launch \<lparr>le_version = (3, 10), le_modules = [u ''flask'', u ''PIL'', u ''jinja2'', u ''pptx''], le_pip = True,
      le_install = (\<lambda>a. None), le_dirs = [], le_mkdir_ok = True\<rparr>)))"
  by (rule launchers_skip_flask_cors) (simp_all add: imports_ok_def u_def)

text \<open>C34: start_ppt_service.py exits with status 1 only when it cannot create its directories.\<close>

theorem ppt_launch_exit_status:
  "fst (ppt_launch env) = Exited 1 \<longleftrightarrow>
   ppt_check_dependencies env \<and> \<not> le_mkdir_ok env \<and> \<not> set ppt_dirs \<subseteq> set (le_dirs env)"
  using makedirs_all_fails [of ppt_dirs env]
  by (cases "makedirs_all ppt_dirs env") (auto simp: ppt_launch_eq ppt_create_directories_def split: sum.split)

text \<open>C33: a failed pip install in start_simple_service.py ends in a traceback, a missing pip in status 0.\<close>

theorem simple_install_failure:
  assumes "\<not> le_version env < (3, 7)" "le_pip env" "\<not> imports_ok env [u ''flask'']"
    and "le_install env [u ''flask''] = None"
  shows "simple_main env = (Traceback (u ''CalledProcessError''), env)
    \<and> simple_main (env\<lparr>le_pip := False\<rparr>) = (Exited 0, env\<lparr>le_pip := False\<rparr>)"
  using assms
  by (simp add: simple_main_def simple_check_dependencies_def simple_deps_def pip_install_def)

theorem simple_install_failure_witness:
  "simple_main (\<lparr>le_version = (3, 10), le_modules = [u ''flask'', u ''PIL'', u ''jinja2'', u ''pptx''], le_pip = True,
      le_install = (\<lambda>a. None), le_dirs = [], le_mkdir_ok = True\<rparr>\<lparr>le_modules := []\<rparr>) = (Traceback (u ''CalledProcessError''), \<lparr>le_version = (3, 10), le_modules = [u ''flask'', u ''PIL'', u ''jinja2'', u ''pptx''], le_pip = True,
      le_install = (\<lambda>a. None), le_dirs = [], le_mkdir_ok = True\<rparr>\<lparr>le_modules := []\<rparr>)
   \<and> simple_main (\<lparr>le_version = (3, 10), le_modules = [u ''flask'', u ''PIL'', u ''jinja2'', u ''pptx''], le_pip = True,
      le_install = (\<lambda>a. None), le_dirs = [], le_mkdir_ok = True\<rparr>\<lparr>le_modules := [], le_pip := False\<rparr>) = (Exited 0, \<lparr>le_version = (3, 10), le_modules = [u ''flask'', u ''PIL'', u ''jinja2'', u ''pptx''], le_pip = True,
      le_install = (\<lambda>a. None), le_dirs = [], le_mkdir_ok = True\<rparr>\<lparr>le_modules := [], le_pip := False\<rparr>)"
  using simple_install_failure [of "\<lparr>le_version = (3, 10), le_modules = [u ''flask'', u ''PIL'', u ''jinja2'', u ''pptx''], le_pip = True,
      le_install = (\<lambda>a. None), le_dirs = [], le_mkdir_ok = True\<rparr>\<lparr>le_modules := []\<rparr>"] by (simp add: imports_ok_def)

text \<open>C35: a slide service started by a launcher or by ppt_service.py finds its output directory.\<close>

theorem launch_serving_dirs:
  "(serving (fst (ppt_launch env)) \<longrightarrow> set ppt_dirs \<subseteq> set (le_dirs (snd (ppt_launch env))))
   \<and> (serving (fst (ppt_service_main env)) \<longrightarrow> set ppt_dirs \<subseteq> set (le_dirs (snd (ppt_service_main env))))
   \<and> (serving (fst (simple_main env)) \<longrightarrow>
        py_path (u ''static/pptx'') \<in> set (le_dirs (snd (simple_main env))))"
proof (intro conjI impI)
  assume "serving (fst (ppt_launch env))"
  then show "set ppt_dirs \<subseteq> set (le_dirs (snd (ppt_launch env)))"
    using makedirs_all_serving [of env]
    by (cases "makedirs_all ppt_dirs env")
       (auto simp: ppt_launch_eq ppt_create_directories_def split: if_splits sum.splits)
next
  assume "serving (fst (ppt_service_main env))"
  then show "set ppt_dirs \<subseteq> set (le_dirs (snd (ppt_service_main env)))"
    using makedirs_all_serving [of env]
    by (cases "makedirs_all ppt_dirs env") (auto simp: ppt_service_main_def ppt_ensure_directories_def split: if_splits sum.splits)
next
  assume "serving (fst (simple_main env))"
  moreover obtain r env1 where c: "simple_check_dependencies env = (r, env1)" by fastforce
  moreover obtain b env2 where d: "simple_create_directories env1 = (b, env2)" by fastforce
  ultimately have "b" and "snd (simple_main env) = snd (simple_service_main env2)"
    by (auto simp: simple_main_def split: sum.splits bool.splits outcome.splits prod.splits)
  with d show "py_path (u ''static/pptx'') \<in> set (le_dirs (snd (simple_main env)))"
    using simple_create_made [of env1 env2] simple_service_main_mono [of env2] by auto
qed


theorem launch_serving_dirs_witness:
  "serving (fst (ppt_launch \<lparr>le_version = (3, 10), le_modules = [u ''flask'', u ''flask_cors'', u ''PIL'', u ''jinja2'', u ''pptx''],
      le_pip = True, le_install = (\<lambda>a. None), le_dirs = [], le_mkdir_ok = True\<rparr>)) \<and> set ppt_dirs \<subseteq> set (le_dirs (snd (ppt_launch \<lparr>le_version = (3, 10), le_modules = [u ''flask'', u ''flask_cors'', u ''PIL'', u ''jinja2'', u ''pptx''],
      le_pip = True, le_install = (\<lambda>a. None), le_dirs = [], le_mkdir_ok = True\<rparr>)))
   \<and> serving (fst (ppt_service_main \<lparr>le_version = (3, 10), le_modules = [u ''flask'', u ''flask_cors'', u ''PIL'', u ''jinja2'', u ''pptx''],
      le_pip = True, le_install = (\<lambda>a. None), le_dirs = [], le_mkdir_ok = True\<rparr>)) \<and> set ppt_dirs \<subseteq> set (le_dirs (snd (ppt_service_main \<lparr>le_version = (3, 10), le_modules = [u ''flask'', u ''flask_cors'', u ''PIL'', u ''jinja2'', u ''pptx''],
      le_pip = True, le_install = (\<lambda>a. None), le_dirs = [], le_mkdir_ok = True\<rparr>)))
   \<and> serving (fst (simple_main \<lparr>le_version = (3, 10), le_modules = [u ''flask'', u ''flask_cors'', u ''PIL'', u ''jinja2'', u ''pptx''],
      le_pip = True, le_install = (\<lambda>a. None), le_dirs = [], le_mkdir_ok = True\<rparr>)) \<and> py_path (u ''static/pptx'') \<in> set (le_dirs (snd (simple_main \<lparr>le_version = (3, 10), le_modules = [u ''flask'', u ''flask_cors'', u ''PIL'', u ''jinja2'', u ''pptx''],
      le_pip = True, le_install = (\<lambda>a. None), le_dirs = [], le_mkdir_ok = True\<rparr>)))"
proof -
  have s: "serving (fst (ppt_launch \<lparr>le_version = (3, 10), le_modules = [u ''flask'', u ''flask_cors'', u ''PIL'', u ''jinja2'', u ''pptx''],
      le_pip = True, le_install = (\<lambda>a. None), le_dirs = [], le_mkdir_ok = True\<rparr>))" "serving (fst (ppt_service_main \<lparr>le_version = (3, 10), le_modules = [u ''flask'', u ''flask_cors'', u ''PIL'', u ''jinja2'', u ''pptx''],
      le_pip = True, le_install = (\<lambda>a. None), le_dirs = [], le_mkdir_ok = True\<rparr>))" "serving (fst (simple_main \<lparr>le_version = (3, 10), le_modules = [u ''flask'', u ''flask_cors'', u ''PIL'', u ''jinja2'', u ''pptx''],
      le_pip = True, le_install = (\<lambda>a. None), le_dirs = [], le_mkdir_ok = True\<rparr>))"
    by (simp_all add: ppt_launch_eq ppt_service_main_def ppt_ensure_directories_def simple_main_def ppt_check_dependencies_def
        ppt_create_directories_def ppt_dirs_def py_path_def makedirs_def path_prefixes_def imports_ok_def
        ppt_service_imports_def simple_check_dependencies_def simple_deps_def simple_create_directories_def
        simple_service_main_def simple_service_imports_def u_def upt_conv_Cons del: upt_Suc)
  then show ?thesis using launch_serving_dirs [of "\<lparr>le_version = (3, 10), le_modules = [u ''flask'', u ''flask_cors'', u ''PIL'', u ''jinja2'', u ''pptx''],
      le_pip = True, le_install = (\<lambda>a. None), le_dirs = [], le_mkdir_ok = True\<rparr>"] by simp
qed

end
