(* ===== verification/Spec2Isabelle.thy ===== *)
theory Spec2Isabelle
  imports Api PptService PptSimple Launch
begin

text \<open>
  A verification model of the two services of the repository: the mind-map service (the
  generator and service of \<open>src/pages/create_mindmap/mindmap_service.py\<close>, the Flask
  front end \<open>src/pages/create_mindmap/app.py\<close> and its client \<open>debug_api.py\<close>) and
  the slide-deck service in its three versions (\<open>src/server/ppt_service.py\<close>,
  \<open>ppt_service_pptx.py\<close>, \<open>ppt_service_simple.py\<close>), and the start-up scripts of
  both (\<open>start_service.py\<close>, \<open>start_ppt_service.py\<close>, \<open>start_simple_service.py\<close>).

  The program. \<open>MindMapService.generate_mindmap\<close> reads a request (title, description,
  outline text, theme, layout, style overrides) and calls
  \<open>MindMapGenerator.generate_mind_map_data\<close>, which parses the outline
  (\<open>parse_content\<close>) and wraps the result in a synthetic centre node, and then
  \<open>create_mind_map_image\<close>, which resolves the theme palette in the generator's shared
  colour table (applying the style in place), loads fonts and draws the title, the
  description and the node tree through \<open>_draw_nodes\<close> and one of four layout routines
  that share one recursive shape, ending in \<open>_draw_node\<close>. The HTTP handlers of
  \<open>app.py\<close> validate the request and call the service; one generator object lives for
  the whole process and is shared by all requests. The slide-deck service is a separate
  Flask application: \<open>/api/generate-ppt\<close> validates a title and a list of sections,
  builds a python-pptx document (title slide, table of contents, slides per section, a
  closing slide), saves it under a fresh \<open>lecture_<uuid>.pptx\<close> name in its output
  folder, checks the saved file, and returns the name for a download route. The start-up
  scripts check which modules import, may install missing ones with pip, create the
  output directories and start one of the Flask applications.

  Theories, in import order:
  \<^item> \<open>Prelude\<close>: Python strings as lists of code points; the builtins the code calls
    (\<open>str.strip\<close> with CPython's whitespace set, \<open>str.split\<close>, \<open>str.join\<close>,
    \<open>str.startswith\<close>, \<open>int()\<close> of a float read as a rational) and their lemmas
    (split/join round trip, strip characterisation), collected in \<open>pystr_simps\<close>.
  \<^item> \<open>Outline\<close>: \<open>parse_content\<close> (node datatype, bullet stripping, level test, the
    three attachment branches, the loop over lines with the identifier supply as a
    counter). Lemmas: the parser's exact result (one level-0 leaf per non-empty cleaned
    line), that indentation is ignored and the level-2 branch unreachable, and that the attachment branches on their own keep the tree invariant.
  \<^item> \<open>Layout\<close>: \<open>_draw_node\<close>, the four layout routines as one mutual recursion
    \<open>draw_layout\<close>/\<open>draw_children\<close> over a child-position function, and the dispatcher
    \<open>_draw_nodes\<close>; the canvas is the list of drawing calls. Lemmas: a one-element list
    draws only its centre; zero-length edges of the radial and horizontal
    layouts, none in the tree layout; closed form of the radial position; centring of
    the tree layout; node radius.
  \<^item> \<open>Theme\<close>: the palette table of \<open>__init__\<close>, font discovery, and the palette lookup
    with its in-place \<open>dict.update(style)\<close> (\<open>resolve_colors\<close>, returning the updated
    generator). Lemmas: the table's well-formedness invariant and its preservation, that
    a style persists into the shared table, resolution of unknown themes.
  \<^item> \<open>Render\<close>: \<open>generate_mind_map_data\<close> and \<open>create_mind_map_image\<close>, with PIL's colour
    parsing as the first failing call in call order (\<open>paint\<close>). Lemmas on which errors
    can occur, the state a render leaves, and replaying a render.
  \<^item> \<open>Service\<close>: \<open>MindMapService.generate_mindmap\<close> and \<open>download_mindmap\<close>; JSON
    values as a datatype, the result dictionaries, and the object posted for a download read
    into the fields the renderer looks up, a missing one raising \<open>KeyError\<close> in call
    order. Lemmas: every successful image has four drawing calls (the outline is never
    drawn); a bad background colour in one style poisons its theme for every later
    request; rendering is idempotent; downloading a response's data reproduces its image;
    the module's own self-test outline comes out flat.
  \<^item> \<open>Api\<close>: every route and error handler of \<open>app.py\<close> with its status codes and
    bodies, runs of the server as the inductive set \<open>reachable\<close> of states reached by
    any sequence of route calls and as the function \<open>api_run\<close> over a list of calls
    (the two describe the same states), and the client \<open>debug_api.py\<close>. The contract of the shared palette table is an
    abstract machine \<open>palette_step\<close> over the table alone. Lemmas: the palette
    invariant in every reachable state, no reachable request fails with \<open>KeyError\<close>,
    the service refines the abstract machine (after any sequence of calls the table is the
    abstract machine's, whatever the metrics, fonts and colour validity), the validation and framing of the handlers, and that the debug
    script's download test can never pass.
  \<^item> \<open>Slides\<close>: the document python-pptx builds (slides, paragraphs, paragraph
    formatting) and the library behaviour the services rely on (a string assigned to a
    shape becomes one paragraph per line, \<open>clear()\<close> leaves an empty paragraph,
    \<open>paragraphs[0].font\<close> formats the first one only), \<open>Inches\<close>, decimal and
    \<open>uuid4().hex\<close> rendering with their round trips, the file names, the shared request
    validation and the output folder. The 128-bit identifier is a \<open>128 word\<close>; file names
    are distinct below \<open>2^128\<close> draws.
  \<^item> \<open>PptService\<close>: \<open>ppt_service.py\<close>: the four slide builders (a missing section key
    raising \<open>KeyError\<close> as \<open>None\<close>), \<open>generate_ppt_from_content\<close>, the routes, and runs
    of the service as \<open>ppt_reachable\<close>. Lemmas: the deck's shape and numbering, the
    failure on incomplete sections, that the rendered template is ignored, that no
    request overwrites another's file, the generate/download round trip, and the orphan
    file a failed size check leaves.
  \<^item> \<open>PptPptx\<close>, \<open>PptSimple\<close>: the two other versions, with \<open>section.get\<close> defaults.
    Lemmas: deck length, the table of contents formatted on its first entry only, the
    simplified deck saying what the python-pptx deck says except on the closing slide,
    the handler's validation, and its generate/download round trip.
  \<^item> \<open>Launch\<close>: the start-up scripts and the \<open>__main__\<close> blocks and
    \<open>ensure_directories\<close> of the services, over an explicit process environment
    (\<open>launch_env\<close>: importable modules, what \<open>pip install\<close> does, the existing
    directories as lists of path components, whether new ones can be made). Python
    calls return a value or raise, with the environment they leave; a script ends serving,
    with an exit status, or with a traceback. Lemmas: the mind-map launcher installs the
    requirements exactly when flask or PIL is missing and serves exactly when the
    environment it leaves imports the app; neither launcher checks
    \<open>flask_cors\<close>, so with it missing both end with status 0 and serve nothing (the
    slide launcher after creating its directories); the
    slide launcher exits with 1 only on a directory failure; a failed pip install in the
    simplified launcher escapes as a traceback; a served slide service finds its output
    directory.

  External capabilities are parameters, not assumptions: text metrics \<open>bb\<close>
  (\<open>draw.textbbox\<close>), font loading \<open>tt_ok\<close>, colour-string validity \<open>valid\<close> (PIL's
  parser), file existence \<open>exists\<close> (\<open>os.path.exists\<close>), and the clock \<open>now\<close>.
  \<open>uuid.uuid4()\<close> is an explicit counter, and the slide services' output folder is
  taken to be empty at start-up. Python floats in the radial layout are read as
  exact rationals (\<open>3.14159\<close> as \<open>314159/100000\<close>); binary rounding, which could move
  \<open>int()\<close> by one where the exact value is a whole number, is not modelled.
  No loop of the program can diverge, so every operation is a total function and no fuel
  is needed. Not modelled: PNG and base64 encoding (the response carries the image),
  logging, Flask's request parsing (a request is a record of optional fields; a posted
  value of another type than the code reads is taken as absent: a \<open>null\<close> description
  or slide title, which the code rejects later with 500, and a truthy non-string title,
  which the code passes to the service and the model rejects with 400), the static index pages
  (constant HTML strings), network errors of the debug client, the unused
  \<open>MindMapService\<close> instance \<open>app.py\<close> creates (the routes call the module instance
  of \<open>mindmap_service.py\<close>), concurrent requests of the threaded server (requests are
  served one at a time), binding the port and the debug reloader (\<open>app.run\<close> is taken
  to serve), and the request path's call of \<open>ensure_directories\<close> in the slide
  services (their request models keep the files in a map). For the slide-deck services
  the size and first bytes of a saved file, the template lookup and the Jinja2
  environment are parameters.
\<close>

end
